theory Spec2Isabelle
  imports Main "HOL-Library.AList"
begin

section \<open>Errors\<close>

text \<open>
  A Go \<open>error\<close> value. \<open>nil\<close> is \<open>None\<close> of \<open>error option\<close>.
  \<open>Wrap e msg\<close> is \<open>errors.Wrap(e, msg)\<close> (and \<open>errors.Wrapf\<close>) on a non-nil
  \<open>e\<close>; \<open>MultiError es\<close> is a non-nil \<open>*multierror.Error\<close> whose \<open>Errors\<close>
  slice is \<open>es\<close>.
\<close>

datatype fsop = OpMkdir | OpWrite | OpReadDir | OpRead | OpRemove | OpStat

datatype error =
    IOError fsop string
  | Failure string
  | Wrap error string
  | MultiError "error list"

text \<open>
  \<open>multierror.Append(err, e)\<close> of hashicorp/go-multierror, for a first argument of
  type \<open>*multierror.Error\<close> (\<open>None\<close> is the nil pointer): a nil pointer is replaced
  by a fresh value, the argument \<open>e\<close> is flattened when it is itself a multi-error, and
  the (non-nil) result is returned. The pointer passed in is not assigned.
\<close>

definition multierror_Append :: "error list option \<Rightarrow> error \<Rightarrow> error list" where
  "multierror_Append err e =
     (case err of None \<Rightarrow> [] | Some es \<Rightarrow> es) @
     (case e of MultiError es' \<Rightarrow> es' | _ \<Rightarrow> [e])"

text \<open>\<open>(*multierror.Error).ErrorOrNil()\<close>: nil for a nil pointer or an empty list.\<close>

definition ErrorOrNil :: "error list option \<Rightarrow> error option" where
  "ErrorOrNil bigErr =
     (case bigErr of None \<Rightarrow> None
      | Some es \<Rightarrow> (if length es = 0 then None else Some (MultiError es)))"

section \<open>The filesystem\<close>

text \<open>
  \<open>r.FileSystem\<close> is an interface value (afero). The model is a finite table from
  paths to nodes, in an association list, and a fault predicate \<open>faulty\<close>: an
  operation on a path for which \<open>faulty\<close> holds fails with an I/O error (a permission
  or a device error), whatever the table holds. Paths are plain strings;
  \<open>filepath.Join\<close> of a directory and a file name puts a separator between them (the
  cleaning of \<open>..\<close> and of empty elements is not modelled: names are plain file names).
\<close>

datatype node = RegFile string | Directory

record fsys =
  nodes :: "(string \<times> node) list"
  faulty :: "fsop \<Rightarrow> string \<Rightarrow> bool"

text \<open>An entry of a listing: \<open>fi_Name\<close> is \<open>FileInfo.Name()\<close>.\<close>

record FileInfo =
  fi_Name :: string
  IsDir :: bool

definition fs_lookup :: "fsys \<Rightarrow> string \<Rightarrow> node option" where
  "fs_lookup fs p = map_of (nodes fs) p"

definition filepath_Join :: "string \<Rightarrow> string \<Rightarrow> string" where
  "filepath_Join dir name = dir @ ''/'' @ name"

text \<open>The name of \<open>p\<close> as a direct entry of directory \<open>dir\<close>, if it is one.\<close>

definition child_name :: "string \<Rightarrow> string \<Rightarrow> string option" where
  "child_name dir p =
     (let n = drop (length dir + 1) p in
      if take (length dir + 1) p = dir @ ''/'' \<and> n \<noteq> [] \<and> CHR ''/'' \<notin> set n
      then Some n else None)"

definition MkdirAll :: "string \<Rightarrow> fsys \<Rightarrow> error option \<times> fsys" where
  "MkdirAll p fs =
     (if faulty fs OpMkdir p then (Some (IOError OpMkdir p), fs)
      else case fs_lookup fs p of
        Some (RegFile c) \<Rightarrow> (Some (IOError OpMkdir p), fs)
      | Some Directory \<Rightarrow> (None, fs)
      | None \<Rightarrow> (None, fs\<lparr>nodes := AList.update p Directory (nodes fs)\<rparr>))"

definition WriteFile :: "string \<Rightarrow> string \<Rightarrow> fsys \<Rightarrow> error option \<times> fsys" where
  "WriteFile p data fs =
     (if faulty fs OpWrite p \<or> fs_lookup fs p = Some Directory
      then (Some (IOError OpWrite p), fs)
      else (None, fs\<lparr>nodes := AList.update p (RegFile data) (nodes fs)\<rparr>))"

definition ReadFile :: "string \<Rightarrow> fsys \<Rightarrow> error + string" where
  "ReadFile p fs =
     (if faulty fs OpRead p then Inl (IOError OpRead p)
      else case fs_lookup fs p of
        Some (RegFile c) \<Rightarrow> Inr c
      | _ \<Rightarrow> Inl (IOError OpRead p))"

definition Remove :: "string \<Rightarrow> fsys \<Rightarrow> error option \<times> fsys" where
  "Remove p fs =
     (if faulty fs OpRemove p \<or> fs_lookup fs p = None
      then (Some (IOError OpRemove p), fs)
      else (None, fs\<lparr>nodes := AList.delete p (nodes fs)\<rparr>))"

definition Stat :: "string \<Rightarrow> fsys \<Rightarrow> error option" where
  "Stat p fs =
     (if faulty fs OpStat p \<or> fs_lookup fs p = None
      then Some (IOError OpStat p) else None)"

text \<open>
  \<open>ReadDir\<close> lists the direct entries of a directory, not those below them. The
  listing follows the table; Go sorts it by name, an order no statement below depends
  on, the table being arbitrary.
\<close>

fun dir_entries :: "string \<Rightarrow> (string \<times> node) list \<Rightarrow> FileInfo list" where
  "dir_entries dir [] = []"
| "dir_entries dir ((p, nd) # rest) =
     (case child_name dir p of
        None \<Rightarrow> dir_entries dir rest
      | Some n \<Rightarrow> \<lparr>fi_Name = n, IsDir = (nd = Directory)\<rparr> # dir_entries dir rest)"

definition ReadDir :: "string \<Rightarrow> fsys \<Rightarrow> error + FileInfo list" where
  "ReadDir p fs =
     (if faulty fs OpReadDir p \<or> fs_lookup fs p \<noteq> Some Directory
      then Inl (IOError OpReadDir p)
      else Inr (dir_entries p (nodes fs)))"

text \<open>
  Modelled from the spec: \<open>r.CopyFile\<close> is a method of the embedded context (package
  \<open>context\<close>, not in this file). The spec has it copy the file at the source path to
  the destination verbatim: the source is read and its bytes are written.
\<close>

definition CopyFile :: "string \<Rightarrow> string \<Rightarrow> fsys \<Rightarrow> error option \<times> fsys" where
  "CopyFile src dest fs =
     (case ReadFile src fs of
        Inl e \<Rightarrow> (Some e, fs)
      | Inr data \<Rightarrow> WriteFile dest data fs)"

section \<open>The manifest and the runtime\<close>

record OutputDefinition =
  Name :: string
  Path :: string
  ApplyTo :: "string list"
  Sensitive :: bool

record Step =
  MixinName :: string
  Description :: string
  StepOutputs :: "string list"

record ActionInput =
  action :: string
  Steps :: "Step list"

record CommandOptions =
  Command :: string
  Input :: string
  Runtime :: bool

datatype Bundle = Bundle string

type_synonym ImageRelocationMap = "(string \<times> string) list"

text \<open>
  The runtime manifest: the action, the declared bundle outputs (a Go map keyed by
  output name, here an association list: a \<open>range\<close> over it visits the list in
  order, and the list is arbitrary), the steps of the action (\<open>rm_steps\<close>;
  pointers, so a step may be nil) and the step outputs recorded so far (\<open>rm_outputs\<close>,
  the manifest's private map).
\<close>

record RuntimeManifest =
  Action :: string
  Outputs :: "(string \<times> OutputDefinition) list"
  rm_steps :: "Step option list"
  rm_outputs :: "(string \<times> string) list"

text \<open>
  What the runtime calls, in order. The log \<open>calls\<close> of the runtime is a ghost field:
  each call of a collaborator and each pass of the step executor's stages appends
  its entry.
\<close>

datatype call =
    CallResolveImages Bundle ImageRelocationMap
  | CallResolveStep Step
  | CallMixinRun string CommandOptions
  | CallReadMixinOutputs
  | CallApplyStepOutputs "(string \<times> string) list"
  | CallApplyStepOutputsToBundle "(string \<times> string) list"
  | CallApplyUnboundBundleOutputs

record PorterRuntime =
  FileSystem :: fsys
  Out :: "string list"
  Err :: "error list"
  SensitiveValues :: "string list"
  RuntimeManifest :: RuntimeManifest
  calls :: "call list"

text \<open>
  What \<open>runtime.go\<close> uses and does not define: the methods of the manifest, the
  mixin package manager, the YAML and JSON encoders, the bundle loader, the process
  environment, and the constants of the packages \<open>config\<close> and \<open>context\<close>
  (the names of two environment variables and the two directories). None of them is in
  this file, so each is a parameter. \<open>mixins_Run\<close> is the external executor: it may
  change the filesystem (it writes the step's outputs). \<open>yaml_Marshal\<close> returns its
  bytes and its error, as the Go function does.
\<close>

record env =
  Getenv :: "string \<Rightarrow> string"
  EnvInstallationName :: string
  EnvBundleName :: string
  MixinOutputsDir :: string
  BundleOutputsDir :: string
  Validate :: "RuntimeManifest \<Rightarrow> error option"
  Prepare :: "RuntimeManifest \<Rightarrow> fsys \<Rightarrow> error option \<times> fsys"
  LoadData :: "string \<Rightarrow> error + Bundle"
  json_Unmarshal :: "string \<Rightarrow> error + ImageRelocationMap"
  ResolveImages :: "RuntimeManifest \<Rightarrow> Bundle \<Rightarrow> ImageRelocationMap \<Rightarrow> error option"
  ResolveStep :: "RuntimeManifest \<Rightarrow> Step \<Rightarrow> error + Step"
  GetSensitiveValues :: "RuntimeManifest \<Rightarrow> string list"
  yaml_Marshal :: "ActionInput \<Rightarrow> string \<times> error option"
  mixins_Run :: "string \<Rightarrow> CommandOptions \<Rightarrow> fsys \<Rightarrow> error option \<times> fsys"
  ApplyStepOutputs_fails :: "RuntimeManifest \<Rightarrow> (string \<times> string) list \<Rightarrow> error option"

text \<open>Indexing a Go \<open>map[string]string\<close>: a missing key reads as the empty string.\<close>

definition go_index :: "(string \<times> string) list \<Rightarrow> string \<Rightarrow> string" where
  "go_index m k = (case map_of m k of None \<Rightarrow> [] | Some v \<Rightarrow> v)"

text \<open>
  Modelled from the spec: \<open>ApplyStepOutputs\<close> is a method of the runtime manifest
  (not in this file). The spec has it update the manifest's bookkeeping of step outputs
  with the produced pairs and return an error or nil; whether it fails is a parameter.
\<close>

definition ApplyStepOutputs ::
  "env \<Rightarrow> (string \<times> string) list \<Rightarrow> RuntimeManifest \<Rightarrow> error option \<times> RuntimeManifest" where
  "ApplyStepOutputs e assignments m =
     (case ApplyStepOutputs_fails e m assignments of
        Some x \<Rightarrow> (Some x, m)
      | None \<Rightarrow>
          (None, m\<lparr>rm_outputs := fold (\<lambda>(k, v). AList.update k v) assignments (rm_outputs m)\<rparr>))"

text \<open>
  Modelled from the spec: \<open>GetOutputs\<close> is a method of the runtime manifest (not in
  this file). It reads the bookkeeping of step outputs.
\<close>

definition GetOutputs :: "RuntimeManifest \<Rightarrow> (string \<times> string) list" where
  "GetOutputs m = rm_outputs m"

text \<open>
  Modelled from the spec: \<open>GetSteps\<close> is a method of the runtime manifest (not in
  this file). It gives the ordered steps of the current action.
\<close>

definition GetSteps :: "RuntimeManifest \<Rightarrow> Step option list" where
  "GetSteps m = rm_steps m"

section \<open>The functions of runtime.go\<close>

text \<open>
  \<open>fmt.Fprintln(r.Out, s)\<close>: the output stream is the list of the lines printed
  (and \<open>Err\<close> the list of the errors printed to \<open>r.Err\<close>). \<open>log_call\<close> appends
  to the ghost log.
\<close>

definition println :: "string \<Rightarrow> PorterRuntime \<Rightarrow> PorterRuntime" where
  "println s r = r\<lparr>Out := Out r @ [s]\<rparr>"

definition log_call :: "call \<Rightarrow> PorterRuntime \<Rightarrow> PorterRuntime" where
  "log_call c r = r\<lparr>calls := calls r @ [c]\<rparr>"

fun shouldApplyOutput_loop :: "string \<Rightarrow> string list \<Rightarrow> bool" where
  "shouldApplyOutput_loop a [] = False"
| "shouldApplyOutput_loop a (applyTo # rest) =
     (if a = applyTo then True else shouldApplyOutput_loop a rest)"

definition shouldApplyOutput :: "PorterRuntime \<Rightarrow> OutputDefinition \<Rightarrow> bool" where
  "shouldApplyOutput r output =
     (if length (ApplyTo output) = 0 then True
      else shouldApplyOutput_loop (Action (RuntimeManifest r)) (ApplyTo output))"

definition createOutputsDir :: "env \<Rightarrow> PorterRuntime \<Rightarrow> error option \<times> PorterRuntime" where
  "createOutputsDir e r =
     (case MkdirAll (BundleOutputsDir e) (FileSystem r) of
        (Some err, fs') \<Rightarrow>
          (Some (Wrap err ''unable to ensure CNAB outputs directory exists''),
           r\<lparr>FileSystem := fs'\<rparr>)
      | (None, fs') \<Rightarrow> (None, r\<lparr>FileSystem := fs'\<rparr>))"

text \<open>The \<open>range\<close> over the produced outputs of \<open>applyStepOutputsToBundle\<close>.\<close>

fun applyStepOutputsToBundle_loop ::
  "env \<Rightarrow> (string \<times> string) list \<Rightarrow> PorterRuntime \<Rightarrow> error option \<times> PorterRuntime" where
  "applyStepOutputsToBundle_loop e [] r = (None, r)"
| "applyStepOutputsToBundle_loop e ((outputKey, outputValue) # rest) r =
     (case map_of (Outputs (RuntimeManifest r)) outputKey of
        None \<Rightarrow> applyStepOutputsToBundle_loop e rest r
      | Some bundleOutput \<Rightarrow>
          if shouldApplyOutput r bundleOutput then
            (let outpath = filepath_Join (BundleOutputsDir e) (Name bundleOutput) in
             case WriteFile outpath outputValue (FileSystem r) of
               (Some err, fs') \<Rightarrow>
                 (Some (Wrap err (''unable to write output file '' @ outpath)),
                  r\<lparr>FileSystem := fs'\<rparr>)
             | (None, fs') \<Rightarrow>
                 applyStepOutputsToBundle_loop e rest (r\<lparr>FileSystem := fs'\<rparr>))
          else applyStepOutputsToBundle_loop e rest r)"

definition applyStepOutputsToBundle ::
  "env \<Rightarrow> (string \<times> string) list \<Rightarrow> PorterRuntime \<Rightarrow> error option \<times> PorterRuntime" where
  "applyStepOutputsToBundle e outputs r =
     (case createOutputsDir e r of
        (Some err, r') \<Rightarrow> (Some err, r')
      | (None, r') \<Rightarrow> applyStepOutputsToBundle_loop e outputs r')"

text \<open>
  The \<open>range\<close> over the declared outputs of \<open>applyUnboundBundleOutputs\<close>. The loop
  has two error variables: \<open>bigErr\<close>, the \<open>*multierror.Error\<close> declared before the
  loop, and \<open>err\<close>, the function's error variable. The result of
  \<open>multierror.Append\<close> is assigned to \<open>err\<close>.
\<close>

fun applyUnboundBundleOutputs_loop ::
  "env \<Rightarrow> (string \<times> string) list \<Rightarrow> (string \<times> OutputDefinition) list \<Rightarrow>
   error list option \<Rightarrow> error option \<Rightarrow> PorterRuntime \<Rightarrow>
   error list option \<times> error option \<times> PorterRuntime" where
  "applyUnboundBundleOutputs_loop e outputs [] bigErr err r = (bigErr, err, r)"
| "applyUnboundBundleOutputs_loop e outputs ((key, outputDef) # rest) bigErr err r =
     (if go_index outputs (Name outputDef) \<noteq> [] then
        applyUnboundBundleOutputs_loop e outputs rest bigErr err r
      else if Path outputDef = [] then
        applyUnboundBundleOutputs_loop e outputs rest bigErr err r
      else if shouldApplyOutput r outputDef then
        (let outpath = filepath_Join (BundleOutputsDir e) (Name outputDef) in
         case CopyFile (Path outputDef) outpath (FileSystem r) of
           (Some x, fs') \<Rightarrow>
             applyUnboundBundleOutputs_loop e outputs rest bigErr
               (Some (MultiError (multierror_Append bigErr
                  (Wrap x (''unable to copy output file from '' @ Path outputDef @
                           '' to '' @ outpath)))))
               (r\<lparr>FileSystem := fs'\<rparr>)
         | (None, fs') \<Rightarrow>
             applyUnboundBundleOutputs_loop e outputs rest bigErr None
               (r\<lparr>FileSystem := fs'\<rparr>))
      else applyUnboundBundleOutputs_loop e outputs rest bigErr err r)"

definition applyUnboundBundleOutputs :: "env \<Rightarrow> PorterRuntime \<Rightarrow> error option \<times> PorterRuntime" where
  "applyUnboundBundleOutputs e r =
     (case createOutputsDir e r of
        (Some err, r') \<Rightarrow> (Some err, r')
      | (None, r') \<Rightarrow>
          (let r1 = (if length (Outputs (RuntimeManifest r')) > 0
                     then println ''Collecting bundle outputs...'' r' else r');
               outputs = GetOutputs (RuntimeManifest r1)
           in case applyUnboundBundleOutputs_loop e outputs (Outputs (RuntimeManifest r1)) None None r1 of
                (bigErr, err, r2) \<Rightarrow> (ErrorOrNil bigErr, r2)))"

text \<open>
  The loop of \<open>readMixinOutputs\<close> over the listing. The function uses nothing of
  the runtime but its filesystem, so it is a function of the filesystem. On a failure it
  returns the nil map, here the empty list.
\<close>

fun readMixinOutputs_loop ::
  "env \<Rightarrow> FileInfo list \<Rightarrow> (string \<times> string) list \<Rightarrow> fsys \<Rightarrow>
   ((string \<times> string) list \<times> error option) \<times> fsys" where
  "readMixinOutputs_loop e [] outputs fs = ((outputs, None), fs)"
| "readMixinOutputs_loop e (outfile # rest) outputs fs =
     (if IsDir outfile then readMixinOutputs_loop e rest outputs fs
      else
        (let outpath = filepath_Join (MixinOutputsDir e) (fi_Name outfile) in
         case ReadFile outpath fs of
           Inl err \<Rightarrow> (([], Some (Wrap err (''could not read output file '' @ outpath))), fs)
         | Inr contents \<Rightarrow>
             (case Remove outpath fs of
                (Some err, fs') \<Rightarrow> (([], Some err), fs')
              | (None, fs') \<Rightarrow>
                  readMixinOutputs_loop e rest
                    (AList.update (fi_Name outfile) contents outputs) fs')))"

definition readMixinOutputs ::
  "env \<Rightarrow> fsys \<Rightarrow> ((string \<times> string) list \<times> error option) \<times> fsys" where
  "readMixinOutputs e fs =
     (case ReadDir (MixinOutputsDir e) fs of
        Inl err \<Rightarrow> (([], Some (Wrap err (''could not list '' @ MixinOutputsDir e))), fs)
      | Inr outfiles \<Rightarrow> readMixinOutputs_loop e outfiles [] fs)"

definition getImageMappingFiles :: "env \<Rightarrow> fsys \<Rightarrow> error + (Bundle \<times> ImageRelocationMap)" where
  "getImageMappingFiles e fs =
     (case ReadFile ''/cnab/bundle.json'' fs of
        Inl err \<Rightarrow> Inl (Wrap err ''couldn't read runtime bundle.json'')
      | Inr bunBytes \<Rightarrow>
          (case LoadData e bunBytes of
             Inl err \<Rightarrow> Inl (Wrap err ''couldn't load runtime bundle.json'')
           | Inr rtb \<Rightarrow>
               (if Stat ''/cnab/app/relocation-mapping.json'' fs = None then
                  (case ReadFile ''/cnab/app/relocation-mapping.json'' fs of
                     Inl err \<Rightarrow> Inl (Wrap err ''couldn't read relocation file'')
                   | Inr reloBytes \<Rightarrow>
                       (case json_Unmarshal e reloBytes of
                          Inl err \<Rightarrow> Inl (Wrap err ''couldn't load relocation file'')
                        | Inr reloMap \<Rightarrow> Inr (rtb, reloMap)))
                else Inr (rtb, []))))"

definition executeStep :: "env \<Rightarrow> Step option \<Rightarrow> PorterRuntime \<Rightarrow> error option \<times> PorterRuntime" where
  "executeStep e step r =
     (case step of
        None \<Rightarrow> (None, r)
      | Some s \<Rightarrow>
          (case ResolveStep e (RuntimeManifest r) s of
             Inl err \<Rightarrow> (Some (Wrap err ''unable to resolve step''), log_call (CallResolveStep s) r)
           | Inr s' \<Rightarrow>
               (let r1 = log_call (CallResolveStep s) r;
                    r2 = (if length (Description s') > 0 then println (Description s') r1 else r1);
                    r3 = r2\<lparr>SensitiveValues := GetSensitiveValues e (RuntimeManifest r2)\<rparr>;
                    input = \<lparr>action = Action (RuntimeManifest r3), Steps = [s']\<rparr>;
                    inputBytes = fst (yaml_Marshal e input);
                    cmd = \<lparr>Command = Action (RuntimeManifest r3), Input = inputBytes, Runtime = True\<rparr>
                in case mixins_Run e (MixinName s') cmd (FileSystem r3) of
                     (Some err, fs4) \<Rightarrow>
                       (Some (Wrap err ''mixin execution failed''),
                        log_call (CallMixinRun (MixinName s') cmd) (r3\<lparr>FileSystem := fs4\<rparr>))
                   | (None, fs4) \<Rightarrow>
                       (let r4 = log_call (CallMixinRun (MixinName s') cmd) (r3\<lparr>FileSystem := fs4\<rparr>)
                        in case readMixinOutputs e (FileSystem r4) of
                             ((outputs, Some err), fs5) \<Rightarrow>
                               (Some (Wrap err ''could not read step outputs''),
                                log_call CallReadMixinOutputs (r4\<lparr>FileSystem := fs5\<rparr>))
                           | ((outputs, None), fs5) \<Rightarrow>
                               (let r5 = log_call CallReadMixinOutputs (r4\<lparr>FileSystem := fs5\<rparr>)
                                in case ApplyStepOutputs e outputs (RuntimeManifest r5) of
                                     (Some err, m6) \<Rightarrow>
                                       (Some err,
                                        log_call (CallApplyStepOutputs outputs) (r5\<lparr>RuntimeManifest := m6\<rparr>))
                                   | (None, m6) \<Rightarrow>
                                       applyStepOutputsToBundle e outputs
                                         (log_call (CallApplyStepOutputsToBundle outputs)
                                            (log_call (CallApplyStepOutputs outputs)
                                               (r5\<lparr>RuntimeManifest := m6\<rparr>))))))))"

text \<open>The step loop of \<open>Execute\<close>: it leaves at the first step that returns an error.\<close>

fun Execute_steps :: "env \<Rightarrow> Step option list \<Rightarrow> PorterRuntime \<Rightarrow> error option \<times> PorterRuntime" where
  "Execute_steps e [] r = (None, r)"
| "Execute_steps e (step # rest) r =
     (case executeStep e step r of
        (Some executionErr, r') \<Rightarrow> (Some executionErr, r')
      | (None, r') \<Rightarrow> Execute_steps e rest r')"

text \<open>
  The stages of \<open>Execute\<close> before the step loop: the banner, \<open>Validate\<close>,
  \<open>Prepare\<close>, the image mapping files, \<open>ResolveImages\<close> and the creation of the
  mixin outputs directory. Each returns from \<open>Execute\<close> on an error.
\<close>

definition Execute_setup :: "env \<Rightarrow> RuntimeManifest \<Rightarrow> PorterRuntime \<Rightarrow> error option \<times> PorterRuntime" where
  "Execute_setup e rm r =
     (let r0 = r\<lparr>RuntimeManifest := rm\<rparr>;
          installationName = Getenv e (EnvInstallationName e);
          bundleName = Getenv e (EnvBundleName e);
          r1 = println (''executing '' @ Action (RuntimeManifest r0) @ '' action from '' @ bundleName @
                        '' (installation: '' @ installationName @ '')'') r0
      in case Validate e (RuntimeManifest r1) of
           Some err \<Rightarrow> (Some err, r1)
         | None \<Rightarrow>
             (case Prepare e (RuntimeManifest r1) (FileSystem r1) of
                (Some err, fs2) \<Rightarrow> (Some err, r1\<lparr>FileSystem := fs2\<rparr>)
              | (None, fs2) \<Rightarrow>
                  (let r2 = r1\<lparr>FileSystem := fs2\<rparr>
                   in case getImageMappingFiles e (FileSystem r2) of
                        Inl err \<Rightarrow> (Some err, r2)
                      | Inr (rtb, reloMap) \<Rightarrow>
                          (let r3 = log_call (CallResolveImages rtb reloMap) r2
                           in case ResolveImages e (RuntimeManifest r3) rtb reloMap of
                                Some err \<Rightarrow> (Some (Wrap err ''unable to resolve bundle images''), r3)
                              | None \<Rightarrow>
                                  (case MkdirAll (MixinOutputsDir e) (FileSystem r3) of
                                     (Some err, fs4) \<Rightarrow>
                                       (Some (Wrap err (''could not create outputs directory '' @
                                                        MixinOutputsDir e)),
                                        r3\<lparr>FileSystem := fs4\<rparr>)
                                   | (None, fs4) \<Rightarrow> (None, r3\<lparr>FileSystem := fs4\<rparr>))))))"

text \<open>
  The rest of \<open>Execute\<close>, from the step loop on: the loop, the one pass of
  \<open>applyUnboundBundleOutputs\<close> whose error is printed to \<open>r.Err\<close>, the completion
  message, and the return of the loop's error.
\<close>

definition Execute_run :: "env \<Rightarrow> PorterRuntime \<Rightarrow> error option \<times> PorterRuntime" where
  "Execute_run e r =
     (case Execute_steps e (GetSteps (RuntimeManifest r)) r of
        (executionErr, r1) \<Rightarrow>
          (case applyUnboundBundleOutputs e (log_call CallApplyUnboundBundleOutputs r1) of
             (err, r2) \<Rightarrow>
               (let r3 = (case err of Some x \<Rightarrow> r2\<lparr>Err := Err r2 @ [x]\<rparr> | None \<Rightarrow> r2);
                    r4 = (if executionErr = None
                          then println ''execution completed successfully!'' r3 else r3)
                in (executionErr, r4))))"

definition Execute :: "env \<Rightarrow> RuntimeManifest \<Rightarrow> PorterRuntime \<Rightarrow> error option \<times> PorterRuntime" where
  "Execute e rm r =
     (case Execute_setup e rm r of
        (Some err, r') \<Rightarrow> (Some err, r')
      | (None, r') \<Rightarrow> Execute_run e r')"

section \<open>Predicates of the statements\<close>

text \<open>
  The declared outputs are keyed by their names: the manifest's parser stores each
  definition under its \<open>Name\<close>.
\<close>

definition keyed_by_name :: "RuntimeManifest \<Rightarrow> bool" where
  "keyed_by_name m = list_all (\<lambda>(k, d). Name d = k) (Outputs m)"

text \<open>
  The names of the regular files directly in a directory.
\<close>

definition regular_files :: "string \<Rightarrow> fsys \<Rightarrow> string list" where
  "regular_files dir fs = map fi_Name (filter (\<lambda>f. \<not> IsDir f) (dir_entries dir (nodes fs)))"

text \<open>
  The paths of the regular files of a listing of the mixin outputs directory.
\<close>

definition channel_paths :: "env \<Rightarrow> FileInfo list \<Rightarrow> string set" where
  "channel_paths e fis = (\<lambda>f. filepath_Join (MixinOutputsDir e) (fi_Name f)) ` {f \<in> set fis. \<not> IsDir f}"

text \<open>
  The command options \<open>executeStep\<close> passes to the mixin of a resolved step.
\<close>

definition step_command :: "env \<Rightarrow> RuntimeManifest \<Rightarrow> Step \<Rightarrow> CommandOptions" where
  "step_command e m s' =
     \<lparr>Command = Action m,
      Input = fst (yaml_Marshal e \<lparr>action = Action m, Steps = [s']\<rparr>),
      Runtime = True\<rparr>"

text \<open>
  The condition under which the resolver's loop copies a declared output: no non-empty
  value recorded for it, a path, and the action in scope.
\<close>

definition unbound_copies :: "(string \<times> string) list \<Rightarrow> PorterRuntime \<Rightarrow> OutputDefinition \<Rightarrow> bool" where
  "unbound_copies outs r d \<longleftrightarrow> go_index outs (Name d) = [] \<and> Path d \<noteq> [] \<and> shouldApplyOutput r d"

section \<open>Example inputs\<close>

text \<open>
  An environment in which every collaborator succeeds and the mixin writes nothing; the
  two directories are those of the porter runtime.
\<close>

definition porter_env :: env where
  "porter_env =
     \<lparr>Getenv = (\<lambda>k. []),
      EnvInstallationName = ''CNAB_INSTALLATION_NAME'',
      EnvBundleName = ''CNAB_BUNDLE_NAME'',
      MixinOutputsDir = ''/cnab/app/porter/outputs'',
      BundleOutputsDir = ''/cnab/app/outputs'',
      Validate = (\<lambda>m. None),
      Prepare = (\<lambda>m fs. (None, fs)),
      LoadData = (\<lambda>s. Inr (Bundle s)),
      json_Unmarshal = (\<lambda>s. Inr []),
      ResolveImages = (\<lambda>m b rl. None),
      ResolveStep = (\<lambda>m s. Inr s),
      GetSensitiveValues = (\<lambda>m. []),
      yaml_Marshal = (\<lambda>i. ([], None)),
      mixins_Run = (\<lambda>n c fs. (None, fs)),
      ApplyStepOutputs_fails = (\<lambda>m a. None)\<rparr>"

text \<open>
  A runtime on a filesystem without faults, before anything ran.
\<close>

definition runtime0 :: "RuntimeManifest \<Rightarrow> (string \<times> node) list \<Rightarrow> PorterRuntime" where
  "runtime0 m ns =
     \<lparr>FileSystem = \<lparr>nodes = ns, faulty = (\<lambda>op p. False)\<rparr>,
      Out = [], Err = [], SensitiveValues = [], RuntimeManifest = m, calls = []\<rparr>"

text \<open>
  Two declared outputs read from files, produced by no step.
\<close>

definition two_unbound :: RuntimeManifest where
  "two_unbound =
     \<lparr>Action = ''install'',
      Outputs = [(''a'', \<lparr>Name = ''a'', Path = ''/tmp/a'', ApplyTo = [], Sensitive = False\<rparr>),
                 (''b'', \<lparr>Name = ''b'', Path = ''/tmp/b'', ApplyTo = [], Sensitive = False\<rparr>)],
      rm_steps = [],
      rm_outputs = []\<rparr>"

text \<open>
  An output declared for the install action only.
\<close>

definition install_only :: "string \<Rightarrow> RuntimeManifest" where
  "install_only a =
     \<lparr>Action = a,
      Outputs = [(''pw'', \<lparr>Name = ''pw'', Path = [], ApplyTo = [''install''], Sensitive = True\<rparr>)],
      rm_steps = [],
      rm_outputs = []\<rparr>"

text \<open>
  A runtime on a given filesystem, before anything ran.
\<close>

definition runtime_on :: "RuntimeManifest \<Rightarrow> fsys \<Rightarrow> PorterRuntime" where
  "runtime_on m fs =
     \<lparr>FileSystem = fs, Out = [], Err = [], SensitiveValues = [], RuntimeManifest = m, calls = []\<rparr>"

text \<open>
  The example scenario of the spec: one step whose mixin writes \<open>dbHost\<close>, and
  the declared outputs \<open>dbHost\<close> and \<open>dbPassword\<close> (install only).
\<close>

definition db_step :: Step where
  "db_step = \<lparr>MixinName = ''exec'', Description = ''Install DB'', StepOutputs = [''dbHost'']\<rparr>"

definition db_manifest :: "string \<Rightarrow> RuntimeManifest" where
  "db_manifest a =
     \<lparr>Action = a,
      Outputs = [(''dbHost'', \<lparr>Name = ''dbHost'', Path = [], ApplyTo = [], Sensitive = False\<rparr>),
                 (''dbPassword'',
                  \<lparr>Name = ''dbPassword'', Path = [], ApplyTo = [''install''], Sensitive = True\<rparr>)],
      rm_steps = [Some db_step],
      rm_outputs = []\<rparr>"

definition db_env :: env where
  "db_env = porter_env
     \<lparr>mixins_Run := (\<lambda>n c fs. WriteFile ''/cnab/app/porter/outputs/dbHost'' ''10.0.0.5'' fs)\<rparr>"

text \<open>
  A filesystem holding the mixin outputs directory only, with given faults.
\<close>

definition channel_fs :: "(fsop \<Rightarrow> string \<Rightarrow> bool) \<Rightarrow> fsys" where
  "channel_fs flt = \<lparr>nodes = [(''/cnab/app/porter/outputs'', Directory)], faulty = flt\<rparr>"

definition unreadable :: "string \<Rightarrow> fsop \<Rightarrow> string \<Rightarrow> bool" where
  "unreadable p op q = (op = OpRead \<and> q = p)"

definition no_faults :: "fsop \<Rightarrow> string \<Rightarrow> bool" where
  "no_faults op q = False"

text \<open>
  A filesystem holding the bundle file and the given nodes.
\<close>

definition bundle_fs :: "(string \<times> node) list \<Rightarrow> fsys" where
  "bundle_fs ns = \<lparr>nodes = (''/cnab/bundle.json'', RegFile ''{}'') # ns, faulty = no_faults\<rparr>"

definition ok_step :: Step where
  "ok_step = \<lparr>MixinName = ''exec'', Description = ''Prepare'', StepOutputs = []\<rparr>"

definition bad_step :: Step where
  "bad_step = \<lparr>MixinName = ''bad'', Description = [], StepOutputs = []\<rparr>"

definition steps_manifest :: "Step option list \<Rightarrow> RuntimeManifest" where
  "steps_manifest ss = \<lparr>Action = ''install'', Outputs = [], rm_steps = ss, rm_outputs = []\<rparr>"

text \<open>
  A manifest with the given steps and one declared output, read from a file.
\<close>

definition copy_manifest :: "Step option list \<Rightarrow> RuntimeManifest" where
  "copy_manifest ss =
     \<lparr>Action = ''install'',
      Outputs = [(''a'', \<lparr>Name = ''a'', Path = ''/tmp/a'', ApplyTo = [], Sensitive = False\<rparr>)],
      rm_steps = ss, rm_outputs = []\<rparr>"

text \<open>
  The mixin \<open>bad\<close> fails; every other mixin succeeds and writes nothing.
\<close>

definition failing_env :: env where
  "failing_env = porter_env
     \<lparr>mixins_Run := (\<lambda>n c fs. if n = ''bad'' then (Some (Failure ''exit status 1''), fs)
                               else (None, fs))\<rparr>"

text \<open>
  The manifest does not validate.
\<close>

definition invalid_env :: env where
  "invalid_env = db_env\<lparr>Validate := (\<lambda>m. Some (Failure ''invalid manifest''))\<rparr>"

text \<open>
  A mixin that writes the output \<open>state\<close> with an empty value, and a manifest that
  declares \<open>state\<close> with a path.
\<close>

definition state_env :: env where
  "state_env = porter_env
     \<lparr>mixins_Run := (\<lambda>n c fs. WriteFile ''/cnab/app/porter/outputs/state'' [] fs)\<rparr>"

definition state_manifest :: RuntimeManifest where
  "state_manifest =
     \<lparr>Action = ''install'',
      Outputs = [(''state'', \<lparr>Name = ''state'', Path = ''/cnab/app/state.json'', ApplyTo = [],
                              Sensitive = False\<rparr>)],
      rm_steps = [Some ok_step],
      rm_outputs = []\<rparr>"

definition state_fs :: fsys where
  "state_fs = \<lparr>nodes = [(''/cnab/app/porter/outputs'', Directory),
                       (''/cnab/app/state.json'', RegFile ''{}'')],
              faulty = no_faults\<rparr>"

text \<open>
  Three declared outputs, of which a step produced \<open>b\<close>, on a filesystem where
  the binder wrote \<open>b\<close>.
\<close>

definition bound_manifest :: RuntimeManifest where
  "bound_manifest =
     \<lparr>Action = ''install'',
      Outputs = [(''a'', \<lparr>Name = ''a'', Path = ''/tmp/a'', ApplyTo = [], Sensitive = False\<rparr>),
                 (''b'', \<lparr>Name = ''b'', Path = ''/tmp/b'', ApplyTo = [], Sensitive = False\<rparr>),
                 (''c'', \<lparr>Name = ''c'', Path = [], ApplyTo = [], Sensitive = False\<rparr>)],
      rm_steps = [],
      rm_outputs = [(''b'', ''from the step'')]\<rparr>"

definition bound_fs :: fsys where
  "bound_fs = \<lparr>nodes = [(''/tmp/a'', RegFile ''A''),
                       (''/tmp/b'', RegFile ''B''),
                       (''/cnab/app/outputs'', Directory),
                       (''/cnab/app/outputs/b'', RegFile ''from the step'')],
              faulty = no_faults\<rparr>"

text \<open>
  An encoder that returns bytes together with an error, with a mixin that writes
  \<open>dbHost\<close> only when its input is those bytes; loaders and an image resolution
  that fail; a filesystem on which \<open>Stat\<close> of the relocation mapping file fails.
\<close>

definition yaml_err_env :: env where
  "yaml_err_env = porter_env
     \<lparr>yaml_Marshal := (\<lambda>i. (''install:'', Some (Failure ''yaml: unsupported type''))),
      mixins_Run := (\<lambda>n c fs. if Input c = ''install:''
                                then WriteFile ''/cnab/app/porter/outputs/dbHost'' ''10.0.0.5'' fs
                                else (Some (Failure ''no input''), fs))\<rparr>"

definition load_fail_env :: env where
  "load_fail_env = porter_env\<lparr>LoadData := (\<lambda>s. Inl (Failure ''invalid bundle''))\<rparr>"

definition json_fail_env :: env where
  "json_fail_env = porter_env\<lparr>json_Unmarshal := (\<lambda>s. Inl (Failure ''invalid character''))\<rparr>"

definition empty_fs :: fsys where
  "empty_fs = \<lparr>nodes = [], faulty = no_faults\<rparr>"

definition images_fail_env :: env where
  "images_fail_env = porter_env
     \<lparr>ResolveImages := (\<lambda>m b rl. if rl = [] then Some (Failure ''image not found'') else None)\<rparr>"

definition stat_fault :: "string \<Rightarrow> fsop \<Rightarrow> string \<Rightarrow> bool" where
  "stat_fault p op q = (op = OpStat \<and> q = p)"

definition hidden_reloc_fs :: fsys where
  "hidden_reloc_fs =
     \<lparr>nodes = [(''/cnab/bundle.json'', RegFile ''{}''),
               (''/cnab/app/relocation-mapping.json'', RegFile ''{'')],
      faulty = stat_fault ''/cnab/app/relocation-mapping.json''\<rparr>"

section \<open>Paths, scopes and the bundle output binder\<close>

lemma filepath_Join_inj [simp]: "filepath_Join d a = filepath_Join d b \<longleftrightarrow> a = b"
  by (simp add: filepath_Join_def)

lemma filepath_Join_neq_dir [simp]: "filepath_Join d a \<noteq> d"
  by (simp add: filepath_Join_def)

lemma child_name_Join: "child_name dir p = Some n \<Longrightarrow> p = filepath_Join dir n"
  unfolding child_name_def filepath_Join_def Let_def
  by (metis append_assoc append_take_drop_id option.distinct(1) option.inject)

lemma shouldApplyOutput_loop_iff: "shouldApplyOutput_loop a xs \<longleftrightarrow> a \<in> set xs"
  by (induction xs) auto

lemma shouldApplyOutput_iff:
  "shouldApplyOutput r d \<longleftrightarrow> ApplyTo d = [] \<or> Action (RuntimeManifest r) \<in> set (ApplyTo d)"
  by (simp add: shouldApplyOutput_def shouldApplyOutput_loop_iff)

lemma shouldApplyOutput_FileSystem [simp]:
  "shouldApplyOutput (r\<lparr>FileSystem := fs\<rparr>) d = shouldApplyOutput r d"
  by (simp add: shouldApplyOutput_def)

lemma MkdirAll_faulty: "faulty (snd (MkdirAll p fs)) = faulty fs"
  by (simp add: MkdirAll_def split: option.splits node.splits)

lemma MkdirAll_lookup_other: "q \<noteq> p \<Longrightarrow> fs_lookup (snd (MkdirAll p fs)) q = fs_lookup fs q"
  by (simp add: MkdirAll_def fs_lookup_def update_conv' split: option.splits node.splits)

lemma WriteFile_faulty: "faulty (snd (WriteFile p c fs)) = faulty fs"
  by (simp add: WriteFile_def)

lemma WriteFile_lookup_other: "q \<noteq> p \<Longrightarrow> fs_lookup (snd (WriteFile p c fs)) q = fs_lookup fs q"
  by (simp add: WriteFile_def fs_lookup_def update_conv')

lemma WriteFile_lookup_same:
  "WriteFile p c fs = (None, fs') \<Longrightarrow> fs_lookup fs' p = Some (RegFile c)"
  by (auto simp: WriteFile_def fs_lookup_def update_conv' split: if_splits)

lemma createOutputsDir_frame:
  "createOutputsDir e r = (x, r') \<Longrightarrow> r' = r\<lparr>FileSystem := FileSystem r'\<rparr>"
  by (auto simp: createOutputsDir_def split: prod.splits option.splits)

lemma createOutputsDir_faulty:
  "createOutputsDir e r = (x, r') \<Longrightarrow> faulty (FileSystem r') = faulty (FileSystem r)"
  using MkdirAll_faulty [of "BundleOutputsDir e" "FileSystem r"]
  by (auto simp: createOutputsDir_def split: prod.splits option.splits)

lemma createOutputsDir_lookup_other:
  "createOutputsDir e r = (x, r') \<Longrightarrow> q \<noteq> BundleOutputsDir e \<Longrightarrow>
   fs_lookup (FileSystem r') q = fs_lookup (FileSystem r) q"
  using MkdirAll_lookup_other [of q "BundleOutputsDir e" "FileSystem r"]
  by (auto simp: createOutputsDir_def split: prod.splits option.splits)

lemma bind_loop_frame:
  "applyStepOutputsToBundle_loop e outs r = (x, r') \<Longrightarrow> r' = r\<lparr>FileSystem := FileSystem r'\<rparr>"
proof (induction outs arbitrary: r)
  case Nil
  then show ?case by simp
next
  case (Cons a outs)
  obtain k v where a: "a = (k, v)" by (cases a)
  show ?case
  proof (cases "map_of (Outputs (RuntimeManifest r)) k")
    case None
    with Cons a show ?thesis by simp
  next
    case (Some d)
    show ?thesis
    proof (cases "shouldApplyOutput r d")
      case False
      with Cons a Some show ?thesis by simp
    next
      case True
      obtain w fs' where w: "WriteFile (filepath_Join (BundleOutputsDir e) (Name d)) v (FileSystem r) = (w, fs')"
        by (cases "WriteFile (filepath_Join (BundleOutputsDir e) (Name d)) v (FileSystem r)")
      show ?thesis
      proof (cases w)
        case None
        with Cons.prems a Some True w
        have "applyStepOutputsToBundle_loop e outs (r\<lparr>FileSystem := fs'\<rparr>) = (x, r')"
          by simp
        from Cons.IH [OF this] show ?thesis by simp
      next
        case (Some err)
        with Cons.prems a \<open>map_of (Outputs (RuntimeManifest r)) k = Some d\<close> True w show ?thesis
          by auto
      qed
    qed
  qed
qed

lemma keyed_by_nameD: "keyed_by_name m \<Longrightarrow> map_of (Outputs m) k = Some d \<Longrightarrow> Name d = k"
  by (auto simp: keyed_by_name_def list_all_iff dest!: map_of_SomeD)

lemma bind_loop_skip:
  "map_of (Outputs (RuntimeManifest r)) k = None \<Longrightarrow>
   applyStepOutputsToBundle_loop e (xs @ (k, v) # ys) r = applyStepOutputsToBundle_loop e (xs @ ys) r"
  by (induction xs arbitrary: r) (auto simp: Let_def split: option.splits prod.splits)

lemma bind_loop_lookup_other:
  "applyStepOutputsToBundle_loop e outs r = (x, r') \<Longrightarrow>
   (\<And>k' v' d'. (k', v') \<in> set outs \<Longrightarrow> map_of (Outputs (RuntimeManifest r)) k' = Some d' \<Longrightarrow>
      shouldApplyOutput r d' \<Longrightarrow> filepath_Join (BundleOutputsDir e) (Name d') \<noteq> p) \<Longrightarrow>
   fs_lookup (FileSystem r') p = fs_lookup (FileSystem r) p"
proof (induction outs arbitrary: r)
  case Nil
  then show ?case by simp
next
  case (Cons a rest)
  obtain k v where a: "a = (k, v)" by (cases a)
  have other: "\<And>k' v' d'. (k', v') \<in> set rest \<Longrightarrow> map_of (Outputs (RuntimeManifest r)) k' = Some d' \<Longrightarrow>
      shouldApplyOutput r d' \<Longrightarrow> filepath_Join (BundleOutputsDir e) (Name d') \<noteq> p"
    using Cons.prems(2) by auto
  show ?case
  proof (cases "map_of (Outputs (RuntimeManifest r)) k")
    case None
    with Cons.prems(1) a have "applyStepOutputsToBundle_loop e rest r = (x, r')" by simp
    from Cons.IH [OF this other] show ?thesis by simp
  next
    case (Some d)
    show ?thesis
    proof (cases "shouldApplyOutput r d")
      case False
      with Cons.prems(1) a Some have "applyStepOutputsToBundle_loop e rest r = (x, r')" by simp
      from Cons.IH [OF this other] show ?thesis by simp
    next
      case True
      let ?path = "filepath_Join (BundleOutputsDir e) (Name d)"
      have ne: "?path \<noteq> p"
        using Cons.prems(2) [of k v d] Some True a by simp
      obtain w fs' where w: "WriteFile ?path v (FileSystem r) = (w, fs')"
        by (cases "WriteFile ?path v (FileSystem r)")
      have keep: "fs_lookup fs' p = fs_lookup (FileSystem r) p"
        using WriteFile_lookup_other [of p ?path v "FileSystem r"] ne w by simp
      show ?thesis
      proof (cases w)
        case None
        with Cons.prems(1) a Some True w
        have run: "applyStepOutputsToBundle_loop e rest (r\<lparr>FileSystem := fs'\<rparr>) = (x, r')"
          by simp
        have "fs_lookup (FileSystem r') p = fs_lookup (FileSystem (r\<lparr>FileSystem := fs'\<rparr>)) p"
          by (rule Cons.IH [OF run]) (use other in simp)
        then show ?thesis using keep by simp
      next
        case (Some err)
        with Cons.prems(1) a \<open>map_of (Outputs (RuntimeManifest r)) k = Some d\<close> True w keep show ?thesis
          by auto
      qed
    qed
  qed
qed

lemma bind_loop_written:
  "applyStepOutputsToBundle_loop e outs r = (None, r') \<Longrightarrow>
   distinct (map fst outs) \<Longrightarrow> keyed_by_name (RuntimeManifest r) \<Longrightarrow>
   (k, v) \<in> set outs \<Longrightarrow> map_of (Outputs (RuntimeManifest r)) k = Some d \<Longrightarrow>
   shouldApplyOutput r d \<Longrightarrow>
   fs_lookup (FileSystem r') (filepath_Join (BundleOutputsDir e) k) = Some (RegFile v)"
proof (induction outs arbitrary: r)
  case Nil
  then show ?case by simp
next
  case (Cons a rest)
  obtain k0 v0 where a: "a = (k0, v0)" by (cases a)
  let ?dest = "filepath_Join (BundleOutputsDir e) k"
  have nm: "Name d = k" using Cons.prems(3,5) by (rule keyed_by_nameD)
  show ?case
  proof (cases "k0 = k")
    case True
    with Cons.prems(2,4) a have v0: "v0 = v"
      by (auto simp: image_iff)
    from True Cons.prems(2) a have notin: "k \<notin> fst ` set rest" by auto
    obtain w fs' where w: "WriteFile ?dest v (FileSystem r) = (w, fs')"
      by (cases "WriteFile ?dest v (FileSystem r)")
    from Cons.prems(1,5,6) a True v0 nm w
    have wn: "w = None" and run: "applyStepOutputsToBundle_loop e rest (r\<lparr>FileSystem := fs'\<rparr>) = (None, r')"
      by (auto split: option.splits)
    have "fs_lookup (FileSystem r') ?dest = fs_lookup (FileSystem (r\<lparr>FileSystem := fs'\<rparr>)) ?dest"
    proof (rule bind_loop_lookup_other [OF run])
      fix k' v' d'
      assume "(k', v') \<in> set rest"
        and "map_of (Outputs (RuntimeManifest (r\<lparr>FileSystem := fs'\<rparr>))) k' = Some d'"
      then have "k' \<noteq> k" and "Name d' = k'"
        using notin keyed_by_nameD [OF Cons.prems(3), of k' d'] by (auto simp: image_iff)
      then show "filepath_Join (BundleOutputsDir e) (Name d') \<noteq> ?dest" by simp
    qed
    moreover have "fs_lookup fs' ?dest = Some (RegFile v)"
      using w wn by (simp add: WriteFile_lookup_same)
    ultimately show ?thesis by simp
  next
    case False
    with Cons.prems(4) a have mem: "(k, v) \<in> set rest" by simp
    from Cons.prems(2) have dist: "distinct (map fst rest)" by simp
    obtain r1 where run: "applyStepOutputsToBundle_loop e rest r1 = (None, r')"
      and r1: "r1 = r\<lparr>FileSystem := FileSystem r1\<rparr>"
      using Cons.prems(1) a
      by (auto simp: Let_def split: option.splits prod.splits if_splits)
    have m: "RuntimeManifest r1 = RuntimeManifest r" by (subst r1) simp
    have s: "shouldApplyOutput r1 d = shouldApplyOutput r d"
      by (subst r1) simp
    show ?thesis
      using Cons.IH [OF run dist _ mem] Cons.prems(3,5,6) m s by simp
  qed
qed

lemmas example_defs = porter_env_def runtime0_def two_unbound_def install_only_def

lemmas fs_defs = fs_lookup_def filepath_Join_def MkdirAll_def WriteFile_def ReadFile_def
  Remove_def Stat_def ReadDir_def CopyFile_def

lemma bind_dir_failed:
  "createOutputsDir e r = (Some err, r0) \<Longrightarrow> applyStepOutputsToBundle e outs r = (Some err, r0)"
  by (simp add: applyStepOutputsToBundle_def)

lemma bind_dir_ok:
  "createOutputsDir e r = (None, r0) \<Longrightarrow>
   applyStepOutputsToBundle e outs r = applyStepOutputsToBundle_loop e outs r0"
  by (simp add: applyStepOutputsToBundle_def)

lemma createOutputsDir_Manifest:
  "createOutputsDir e r = (x, r0) \<Longrightarrow> RuntimeManifest r0 = RuntimeManifest r"
  by (auto simp: createOutputsDir_def split: prod.splits option.splits)

text \<open>
  Claim C8. A produced pair whose name no declared output has is skipped: the binder
  does with it what it does without it (the same result, the same error or none, the
  same filesystem), binding that pair alone only ensures the directory, and the file
  of that name in the bundle outputs directory is left as it was.
\<close>

theorem C8_undeclared_output_skipped:
  assumes "map_of (Outputs (RuntimeManifest r)) name = None"
  shows "applyStepOutputsToBundle e (xs @ (name, val) # ys) r =
           applyStepOutputsToBundle e (xs @ ys) r \<and>
         applyStepOutputsToBundle e [(name, val)] r = createOutputsDir e r \<and>
         (keyed_by_name (RuntimeManifest r) \<longrightarrow>
            fs_lookup (FileSystem (snd (applyStepOutputsToBundle e (xs @ (name, val) # ys) r)))
              (filepath_Join (BundleOutputsDir e) name) =
            fs_lookup (FileSystem r) (filepath_Join (BundleOutputsDir e) name))"
proof (intro conjI impI)
  obtain x r0 where c: "createOutputsDir e r = (x, r0)"
    by (cases "createOutputsDir e r")
  have m: "RuntimeManifest r0 = RuntimeManifest r"
    using c by (rule createOutputsDir_Manifest)
  have none: "map_of (Outputs (RuntimeManifest r0)) name = None"
    using assms m by simp
  show "applyStepOutputsToBundle e (xs @ (name, val) # ys) r =
          applyStepOutputsToBundle e (xs @ ys) r"
    using c bind_loop_skip [OF none]
    by (cases x) (simp_all add: bind_dir_failed bind_dir_ok)
  show "applyStepOutputsToBundle e [(name, val)] r = createOutputsDir e r"
    using c none by (cases x) (simp_all add: bind_dir_failed bind_dir_ok)
  assume keyed: "keyed_by_name (RuntimeManifest r)"
  let ?p = "filepath_Join (BundleOutputsDir e) name"
  have dir: "fs_lookup (FileSystem r0) ?p = fs_lookup (FileSystem r) ?p"
    using createOutputsDir_lookup_other [OF c] by simp
  obtain y r1 where run: "applyStepOutputsToBundle e (xs @ (name, val) # ys) r = (y, r1)"
    by (cases "applyStepOutputsToBundle e (xs @ (name, val) # ys) r")
  show "fs_lookup (FileSystem (snd (applyStepOutputsToBundle e (xs @ (name, val) # ys) r))) ?p =
        fs_lookup (FileSystem r) ?p"
  proof (cases x)
    case (Some err)
    with c have "applyStepOutputsToBundle e (xs @ (name, val) # ys) r = (Some err, r0)"
      by (simp add: bind_dir_failed)
    with dir show ?thesis by simp
  next
    case None
    with c run have loop: "applyStepOutputsToBundle_loop e (xs @ (name, val) # ys) r0 = (y, r1)"
      by (simp add: bind_dir_ok)
    have "fs_lookup (FileSystem r1) ?p = fs_lookup (FileSystem r0) ?p"
    proof (rule bind_loop_lookup_other [OF loop])
      fix k' v' d'
      assume "map_of (Outputs (RuntimeManifest r0)) k' = Some d'"
      then have "Name d' = k'" and "k' \<noteq> name"
        using keyed m none keyed_by_nameD [of "RuntimeManifest r" k' d'] by auto
      then show "filepath_Join (BundleOutputsDir e) (Name d') \<noteq> ?p" by simp
    qed
    with dir run show ?thesis by simp
  qed
qed

lemmas run_defs = applyStepOutputsToBundle_def createOutputsDir_def shouldApplyOutput_def
  keyed_by_name_def

text \<open>
  A step output \<open>tmp\<close> that the bundle does not declare, beside a declared one.
\<close>

theorem C8_undeclared_output_skipped_witness:
  "map_of (Outputs (RuntimeManifest (runtime0 (install_only ''install'') []))) ''tmp'' = None \<and>
   applyStepOutputsToBundle porter_env [(''pw'', ''s3cret''), (''tmp'', ''42'')]
       (runtime0 (install_only ''install'') []) =
     applyStepOutputsToBundle porter_env [(''pw'', ''s3cret'')]
       (runtime0 (install_only ''install'') []) \<and>
   fst (applyStepOutputsToBundle porter_env [(''pw'', ''s3cret''), (''tmp'', ''42'')]
       (runtime0 (install_only ''install'') [])) = None \<and>
   fs_lookup (FileSystem (snd (applyStepOutputsToBundle porter_env
         [(''pw'', ''s3cret''), (''tmp'', ''42'')] (runtime0 (install_only ''install'') []))))
     ''/cnab/app/outputs/tmp'' = None"
proof -
  have h: "map_of (Outputs (RuntimeManifest (runtime0 (install_only ''install'') []))) ''tmp'' = None"
    by (simp add: example_defs)
  have k: "keyed_by_name (RuntimeManifest (runtime0 (install_only ''install'') []))"
    by (simp add: example_defs keyed_by_name_def)
  have ok: "fst (applyStepOutputsToBundle porter_env [(''pw'', ''s3cret''), (''tmp'', ''42'')]
       (runtime0 (install_only ''install'') [])) = None"
    by (simp add: example_defs fs_defs run_defs)
  have p: "filepath_Join (BundleOutputsDir porter_env) ''tmp'' = ''/cnab/app/outputs/tmp''"
    by (simp add: example_defs fs_defs)
  have z: "fs_lookup (FileSystem (runtime0 (install_only ''install'') [])) ''/cnab/app/outputs/tmp'' = None"
    by (simp add: example_defs fs_defs)
  note inst = C8_undeclared_output_skipped [OF h, of porter_env "[(''pw'', ''s3cret'')]" "''42''" "[]",
      unfolded append_Cons append_Nil append_Nil2]
  have eq: "applyStepOutputsToBundle porter_env [(''pw'', ''s3cret''), (''tmp'', ''42'')]
       (runtime0 (install_only ''install'') []) =
     applyStepOutputsToBundle porter_env [(''pw'', ''s3cret'')]
       (runtime0 (install_only ''install'') [])"
    using inst by blast
  have untouched: "fs_lookup (FileSystem (snd (applyStepOutputsToBundle porter_env
         [(''pw'', ''s3cret''), (''tmp'', ''42'')] (runtime0 (install_only ''install'') []))))
     ''/cnab/app/outputs/tmp'' = None"
    using inst k unfolding p z by blast
  from h eq ok untouched show ?thesis by blast
qed

text \<open>
  Claim C4. A produced pair whose name has a declared output definition is written to
  the file of that name in the bundle outputs directory exactly when the definition's
  \<open>applyTo\<close> list is empty or holds the current action. \<open>shouldApplyOutput\<close>
  is that condition; when it holds and the binder returns no error, the file holds the
  produced value after the binder; when it does not hold, the file is what it was
  before, whatever the binder returns. The produced outputs are a Go map (no key twice)
  and the declared outputs are keyed by name.
\<close>

theorem C4_output_written_iff_in_scope:
  assumes "distinct (map fst outputs)"
    and "keyed_by_name (RuntimeManifest r)"
    and "(name, val) \<in> set outputs"
    and "map_of (Outputs (RuntimeManifest r)) name = Some d"
  shows "shouldApplyOutput r d = (ApplyTo d = [] \<or> Action (RuntimeManifest r) \<in> set (ApplyTo d)) \<and>
         (shouldApplyOutput r d \<and> fst (applyStepOutputsToBundle e outputs r) = None \<longrightarrow>
            fs_lookup (FileSystem (snd (applyStepOutputsToBundle e outputs r)))
              (filepath_Join (BundleOutputsDir e) name) = Some (RegFile val)) \<and>
         (\<not> shouldApplyOutput r d \<longrightarrow>
            fs_lookup (FileSystem (snd (applyStepOutputsToBundle e outputs r)))
              (filepath_Join (BundleOutputsDir e) name) =
            fs_lookup (FileSystem r) (filepath_Join (BundleOutputsDir e) name))"
proof (intro conjI impI)
  let ?p = "filepath_Join (BundleOutputsDir e) name"
  obtain x r0 where c: "createOutputsDir e r = (x, r0)"
    by (cases "createOutputsDir e r")
  obtain y r' where run: "applyStepOutputsToBundle e outputs r = (y, r')"
    by (cases "applyStepOutputsToBundle e outputs r")
  have m: "RuntimeManifest r0 = RuntimeManifest r"
    using c by (rule createOutputsDir_Manifest)
  have s: "shouldApplyOutput r0 d' = shouldApplyOutput r d'" for d'
    by (simp add: shouldApplyOutput_iff m)
  have dir: "fs_lookup (FileSystem r0) ?p = fs_lookup (FileSystem r) ?p"
    using createOutputsDir_lookup_other [OF c] by simp
  show "shouldApplyOutput r d = (ApplyTo d = [] \<or> Action (RuntimeManifest r) \<in> set (ApplyTo d))"
    by (rule shouldApplyOutput_iff)
  {
    assume h: "shouldApplyOutput r d \<and> fst (applyStepOutputsToBundle e outputs r) = None"
    with run have y: "y = None" by simp
    have x: "x = None"
      using run y c by (cases x) (simp_all add: bind_dir_failed)
    have loop: "applyStepOutputsToBundle_loop e outputs r0 = (None, r')"
      using run y c x by (simp add: bind_dir_ok)
    have "fs_lookup (FileSystem r') ?p = Some (RegFile val)"
      using bind_loop_written [OF loop assms(1) _ assms(3)] assms(2,4) m s h by simp
    with run show "fs_lookup (FileSystem (snd (applyStepOutputsToBundle e outputs r))) ?p =
        Some (RegFile val)" by simp
  }
  {
    assume out: "\<not> shouldApplyOutput r d"
    have "fs_lookup (FileSystem r') ?p = fs_lookup (FileSystem r) ?p"
    proof (cases x)
      case (Some err)
      with c run have "r' = r0" by (simp add: bind_dir_failed)
      with dir show ?thesis by simp
    next
      case None
      with c run have loop: "applyStepOutputsToBundle_loop e outputs r0 = (y, r')"
        by (simp add: bind_dir_ok)
      have "fs_lookup (FileSystem r') ?p = fs_lookup (FileSystem r0) ?p"
      proof (rule bind_loop_lookup_other [OF loop])
        fix k' v' d'
        assume look: "map_of (Outputs (RuntimeManifest r0)) k' = Some d'" and "shouldApplyOutput r0 d'"
        then have "shouldApplyOutput r d'" by (simp add: s)
        with out have "d' \<noteq> d" by auto
        with look assms(4) m have "k' \<noteq> name" by auto
        moreover have "Name d' = k'"
          using assms(2) look m keyed_by_nameD [of "RuntimeManifest r" k' d'] by simp
        ultimately show "filepath_Join (BundleOutputsDir e) (Name d') \<noteq> ?p" by simp
      qed
      with dir show ?thesis by simp
    qed
    with run show "fs_lookup (FileSystem (snd (applyStepOutputsToBundle e outputs r))) ?p =
        fs_lookup (FileSystem r) ?p" by simp
  }
qed

text \<open>
  An output declared for install only is written under the install action and is not
  written under the upgrade action, though the step produced it in both.
\<close>

theorem C4_output_written_iff_in_scope_witness:
  "fs_lookup (FileSystem (snd (applyStepOutputsToBundle porter_env [(''pw'', ''s3cret'')]
       (runtime0 (install_only ''install'') [])))) ''/cnab/app/outputs/pw'' =
     Some (RegFile ''s3cret'') \<and>
   fs_lookup (FileSystem (snd (applyStepOutputsToBundle porter_env [(''pw'', ''s3cret'')]
       (runtime0 (install_only ''upgrade'') [])))) ''/cnab/app/outputs/pw'' = None"
proof -
  let ?d = "\<lparr>Name = ''pw'', Path = [], ApplyTo = [''install''], Sensitive = True\<rparr>"
  have run: "fst (applyStepOutputsToBundle porter_env [(''pw'', ''s3cret'')]
      (runtime0 (install_only ''install'') [])) = None"
    by (simp add: example_defs fs_defs run_defs)
  have sc: "shouldApplyOutput (runtime0 (install_only ''install'') []) ?d"
    "\<not> shouldApplyOutput (runtime0 (install_only ''upgrade'') []) ?d"
    by (simp_all add: example_defs shouldApplyOutput_def)
  have d: "distinct (map fst [(''pw'', ''s3cret'')])" by simp
  have k: "keyed_by_name (RuntimeManifest (runtime0 (install_only a) []))" for a
    by (simp add: example_defs keyed_by_name_def)
  have mem: "(''pw'', ''s3cret'') \<in> set [(''pw'', ''s3cret'')]" by simp
  have look: "map_of (Outputs (RuntimeManifest (runtime0 (install_only a) []))) ''pw'' = Some ?d" for a
    by (simp add: example_defs)
  have p: "filepath_Join (BundleOutputsDir porter_env) ''pw'' = ''/cnab/app/outputs/pw''"
    by (simp add: example_defs fs_defs)
  have a: "Action (RuntimeManifest (runtime0 (install_only a) [])) = a" for a
    by (simp add: example_defs)
  have z: "fs_lookup (FileSystem (runtime0 (install_only a) [])) ''/cnab/app/outputs/pw'' = None" for a
    by (simp add: example_defs fs_defs)
  from C4_output_written_iff_in_scope [OF d k mem look, of "''install''" porter_env]
       C4_output_written_iff_in_scope [OF d k mem look, of "''upgrade''" porter_env]
       run sc
  show ?thesis unfolding p z by blast
qed

section \<open>Reading the mixin outputs\<close>

lemma dir_entries_D:
  "f \<in> set (dir_entries dir ns) \<Longrightarrow>
   \<exists>p nd. (p, nd) \<in> set ns \<and> child_name dir p = Some (fi_Name f) \<and> IsDir f = (nd = Directory)"
proof (induction ns)
  case Nil
  then show ?case by simp
next
  case (Cons a ns)
  obtain q w where a: "a = (q, w)" by (cases a)
  show ?case
  proof (cases "f \<in> set (dir_entries dir ns)")
    case True
    from Cons.IH [OF this] show ?thesis by auto
  next
    case False
    with Cons.prems a have "child_name dir q = Some (fi_Name f) \<and> IsDir f = (w = Directory)"
      by (auto split: option.splits)
    with a show ?thesis by auto
  qed
qed

lemma dir_entries_I:
  "(p, nd) \<in> set ns \<Longrightarrow> child_name dir p = Some n \<Longrightarrow>
   \<lparr>fi_Name = n, IsDir = (nd = Directory)\<rparr> \<in> set (dir_entries dir ns)"
  by (induction ns) (auto split: option.splits)

lemma Remove_ok:
  "Remove p fs = (None, fs') \<Longrightarrow>
   nodes fs' = AList.delete p (nodes fs) \<and> faulty fs' = faulty fs \<and> fs_lookup fs p \<noteq> None"
  by (auto simp: Remove_def split: if_splits)

lemma Remove_lookup:
  "Remove p fs = (None, fs') \<Longrightarrow> fs_lookup fs' q = (if q = p then None else fs_lookup fs q)"
  by (auto simp: Remove_def fs_lookup_def delete_conv' split: if_splits)

lemma ReadFile_ok:
  "ReadFile p fs = Inr c \<Longrightarrow> fs_lookup fs p = Some (RegFile c) \<and> \<not> faulty fs OpRead p"
  by (auto simp: ReadFile_def split: if_splits option.splits node.splits)

lemma read_loop_step:
  assumes "readMixinOutputs_loop e (f # rest) outs fs = ((outs', None), fs')"
    and "\<not> IsDir f"
  obtains c fs1 where
    "ReadFile (filepath_Join (MixinOutputsDir e) (fi_Name f)) fs = Inr c"
    "Remove (filepath_Join (MixinOutputsDir e) (fi_Name f)) fs = (None, fs1)"
    "readMixinOutputs_loop e rest (AList.update (fi_Name f) c outs) fs1 = ((outs', None), fs')"
  using assms
  by (auto simp: Let_def split: sum.splits prod.splits option.splits)

lemma read_loop_nodes:
  "readMixinOutputs_loop e fis outs fs = ((outs', None), fs') \<Longrightarrow>
   nodes fs' = filter (\<lambda>(p, nd). p \<notin> channel_paths e fis) (nodes fs) \<and> faulty fs' = faulty fs"
proof (induction fis arbitrary: outs fs)
  case Nil
  then show ?case by (simp add: channel_paths_def)
next
  case (Cons f rest)
  show ?case
  proof (cases "IsDir f")
    case True
    with Cons.prems have "readMixinOutputs_loop e rest outs fs = ((outs', None), fs')" by simp
    moreover have "channel_paths e (f # rest) = channel_paths e rest"
      using True by (auto simp: channel_paths_def)
    ultimately show ?thesis using Cons.IH by simp
  next
    case False
    from Cons.prems False obtain c fs1 where
      rm: "Remove (filepath_Join (MixinOutputsDir e) (fi_Name f)) fs = (None, fs1)" and
      run: "readMixinOutputs_loop e rest (AList.update (fi_Name f) c outs) fs1 = ((outs', None), fs')"
      by (rule read_loop_step)
    have cp: "channel_paths e (f # rest) =
        insert (filepath_Join (MixinOutputsDir e) (fi_Name f)) (channel_paths e rest)"
      using False by (auto simp: channel_paths_def)
    from Cons.IH [OF run] Remove_ok [OF rm] show ?thesis
      by (auto simp: cp AList.delete_eq intro!: filter_cong)
  qed
qed

lemma read_loop_readable:
  "readMixinOutputs_loop e fis outs fs = ((outs', None), fs') \<Longrightarrow>
   f \<in> set fis \<Longrightarrow> \<not> IsDir f \<Longrightarrow>
   \<exists>c. fs_lookup fs (filepath_Join (MixinOutputsDir e) (fi_Name f)) = Some (RegFile c)"
proof (induction fis arbitrary: outs fs)
  case Nil
  then show ?case by simp
next
  case (Cons g rest)
  show ?case
  proof (cases "IsDir g")
    case True
    with Cons.prems have "readMixinOutputs_loop e rest outs fs = ((outs', None), fs')"
      and "f \<in> set rest" by auto
    then show ?thesis using Cons.IH Cons.prems(3) by blast
  next
    case False
    from Cons.prems(1) False obtain c fs1 where
      rd: "ReadFile (filepath_Join (MixinOutputsDir e) (fi_Name g)) fs = Inr c" and
      rm: "Remove (filepath_Join (MixinOutputsDir e) (fi_Name g)) fs = (None, fs1)" and
      run: "readMixinOutputs_loop e rest (AList.update (fi_Name g) c outs) fs1 = ((outs', None), fs')"
      by (rule read_loop_step)
    show ?thesis
    proof (cases "f = g")
      case True
      with ReadFile_ok [OF rd] show ?thesis by blast
    next
      case False
      with Cons.prems(2) have "f \<in> set rest" by simp
      from Cons.IH [OF run this Cons.prems(3)] obtain c' where
        "fs_lookup fs1 (filepath_Join (MixinOutputsDir e) (fi_Name f)) = Some (RegFile c')" ..
      then show ?thesis
        using Remove_lookup [OF rm, of "filepath_Join (MixinOutputsDir e) (fi_Name f)"]
        by (auto split: if_splits)
    qed
  qed
qed

lemma read_loop_outputs:
  "readMixinOutputs_loop e fis outs fs = ((outs', None), fs') \<Longrightarrow>
   map_of outs' n =
     (if n \<in> fi_Name ` {f \<in> set fis. \<not> IsDir f}
      then (case fs_lookup fs (filepath_Join (MixinOutputsDir e) n) of
              Some (RegFile c) \<Rightarrow> Some c | _ \<Rightarrow> None)
      else map_of outs n)"
proof (induction fis arbitrary: outs fs)
  case Nil
  then show ?case by simp
next
  case (Cons g rest)
  show ?case
  proof (cases "IsDir g")
    case True
    with Cons.prems have "readMixinOutputs_loop e rest outs fs = ((outs', None), fs')" by simp
    from Cons.IH [OF this] True show ?thesis by auto
  next
    case False
    let ?p = "filepath_Join (MixinOutputsDir e) (fi_Name g)"
    from Cons.prems(1) False obtain c fs1 where
      rd: "ReadFile ?p fs = Inr c" and
      rm: "Remove ?p fs = (None, fs1)" and
      run: "readMixinOutputs_loop e rest (AList.update (fi_Name g) c outs) fs1 = ((outs', None), fs')"
      by (rule read_loop_step)
    have notlater: "fi_Name g \<notin> fi_Name ` {f \<in> set rest. \<not> IsDir f}"
    proof
      assume "fi_Name g \<in> fi_Name ` {f \<in> set rest. \<not> IsDir f}"
      then obtain f where "f \<in> set rest" "\<not> IsDir f" "fi_Name f = fi_Name g" by auto
      with read_loop_readable [OF run, of f] Remove_lookup [OF rm, of ?p]
      show False by auto
    qed
    note ih = Cons.IH [OF run]
    show ?thesis
    proof (cases "n = fi_Name g")
      case True
      with ih notlater ReadFile_ok [OF rd] False show ?thesis
        by (auto simp: update_conv')
    next
      case neq: False
      have "fs_lookup fs1 (filepath_Join (MixinOutputsDir e) n) =
            fs_lookup fs (filepath_Join (MixinOutputsDir e) n)"
        using Remove_lookup [OF rm, of "filepath_Join (MixinOutputsDir e) n"] neq by simp
      with ih neq False show ?thesis
        by (auto simp: update_conv')
    qed
  qed
qed

lemma read_loop_failed_empty:
  "readMixinOutputs_loop e fis outs fs = ((outs', Some err), fs') \<Longrightarrow> outs' = []"
  by (induction fis arbitrary: outs fs)
     (auto simp: Let_def split: if_splits sum.splits prod.splits option.splits)

lemma read_loop_faulty:
  "f \<in> set fis \<Longrightarrow> \<not> IsDir f \<Longrightarrow>
   faulty fs OpRead (filepath_Join (MixinOutputsDir e) (fi_Name f)) \<or>
   faulty fs OpRemove (filepath_Join (MixinOutputsDir e) (fi_Name f)) \<Longrightarrow>
   snd (fst (readMixinOutputs_loop e fis outs fs)) \<noteq> None"
proof (induction fis arbitrary: outs fs)
  case Nil
  then show ?case by simp
next
  case (Cons g rest)
  show ?case
  proof (cases "snd (fst (readMixinOutputs_loop e (g # rest) outs fs))")
    case (Some err)
    then show ?thesis by simp
  next
    case None
    then obtain outs' fs' where ok: "readMixinOutputs_loop e (g # rest) outs fs = ((outs', None), fs')"
      by (metis prod.collapse)
    show ?thesis
    proof (cases "IsDir g")
      case True
      with Cons.prems ok have "f \<in> set rest"
        and "readMixinOutputs_loop e rest outs fs = ((outs', None), fs')" by auto
      with Cons.IH [of fs outs] Cons.prems(2,3) show ?thesis by simp
    next
      case False
      let ?p = "filepath_Join (MixinOutputsDir e) (fi_Name g)"
      from ok False obtain c fs1 where
        rd: "ReadFile ?p fs = Inr c" and
        rm: "Remove ?p fs = (None, fs1)" and
        run: "readMixinOutputs_loop e rest (AList.update (fi_Name g) c outs) fs1 = ((outs', None), fs')"
        by (rule read_loop_step)
      have good: "\<not> faulty fs OpRead ?p \<and> \<not> faulty fs OpRemove ?p"
        using ReadFile_ok [OF rd] rm by (auto simp: Remove_def split: if_splits)
      with Cons.prems have mem: "f \<in> set rest" by auto
      have "faulty fs1 = faulty fs" using Remove_ok [OF rm] by simp
      with Cons.IH [OF mem Cons.prems(2), of fs1 "AList.update (fi_Name g) c outs"] Cons.prems(3) run
      show ?thesis by simp
    qed
  qed
qed

section \<open>The step executor\<close>

lemma bind_frame:
  "applyStepOutputsToBundle e outs r = (x, r') \<Longrightarrow> r' = r\<lparr>FileSystem := FileSystem r'\<rparr>"
proof -
  assume a: "applyStepOutputsToBundle e outs r = (x, r')"
  obtain y r0 where c: "createOutputsDir e r = (y, r0)" by (cases "createOutputsDir e r")
  have r0: "r0 = r\<lparr>FileSystem := FileSystem r0\<rparr>" using c by (rule createOutputsDir_frame)
  show ?thesis
  proof (cases y)
    case (Some err)
    with a c have "r' = r0" by (simp add: bind_dir_failed)
    with r0 show ?thesis by simp
  next
    case None
    with a c have "applyStepOutputsToBundle_loop e outs r0 = (x, r')" by (simp add: bind_dir_ok)
    from bind_loop_frame [OF this] have "r' = r0\<lparr>FileSystem := FileSystem r'\<rparr>" .
    then show ?thesis by (subst (asm) r0) simp
  qed
qed

lemma bind_fields:
  assumes "applyStepOutputsToBundle e outs r = (x, r')"
  shows "RuntimeManifest r' = RuntimeManifest r" "calls r' = calls r" "Out r' = Out r" "Err r' = Err r"
  by (subst bind_frame [OF assms], simp)+

lemma executeStep_ok:
  assumes "executeStep e (Some s) r = (None, r')"
  obtains s' fsm outs fs5 m6 r6 where
    "ResolveStep e (RuntimeManifest r) s = Inr s'"
    "mixins_Run e (MixinName s') (step_command e (RuntimeManifest r) s') (FileSystem r) = (None, fsm)"
    "readMixinOutputs e fsm = ((outs, None), fs5)"
    "ApplyStepOutputs e outs (RuntimeManifest r) = (None, m6)"
    "FileSystem r6 = fs5" "RuntimeManifest r6 = m6"
    "applyStepOutputsToBundle e outs r6 = (None, r')"
proof -
  note defs = executeStep_def Let_def log_call_def println_def step_command_def
  from assms obtain s' where rs: "ResolveStep e (RuntimeManifest r) s = Inr s'"
    by (auto simp: executeStep_def split: sum.splits)
  obtain x fsm where
    mr: "mixins_Run e (MixinName s') (step_command e (RuntimeManifest r) s') (FileSystem r) = (x, fsm)"
    by (cases "mixins_Run e (MixinName s') (step_command e (RuntimeManifest r) s') (FileSystem r)")
  have x: "x = None"
    using assms rs mr by (cases x) (simp_all add: defs split: if_splits)
  obtain outs y fs5 where rd: "readMixinOutputs e fsm = ((outs, y), fs5)"
    by (metis prod.exhaust)
  have y: "y = None"
    using assms rs mr x rd by (cases y) (simp_all add: defs split: if_splits)
  obtain z m6 where ap: "ApplyStepOutputs e outs (RuntimeManifest r) = (z, m6)"
    by (cases "ApplyStepOutputs e outs (RuntimeManifest r)")
  have z: "z = None"
    using assms rs mr x rd y ap by (cases z) (simp_all add: defs split: if_splits)
  define r2 where "r2 = (if length (Description s') > 0
      then println (Description s') (log_call (CallResolveStep s) r)
      else log_call (CallResolveStep s) r)"
  define r6 where "r6 =
    log_call (CallApplyStepOutputsToBundle outs) (log_call (CallApplyStepOutputs outs)
      ((log_call CallReadMixinOutputs
         ((log_call (CallMixinRun (MixinName s') (step_command e (RuntimeManifest r) s'))
            (r2\<lparr>SensitiveValues := GetSensitiveValues e (RuntimeManifest r2),
                FileSystem := fsm\<rparr>))\<lparr>FileSystem := fs5\<rparr>))\<lparr>RuntimeManifest := m6\<rparr>))"
  have "FileSystem r6 = fs5" "RuntimeManifest r6 = m6"
    by (simp_all add: r6_def log_call_def)
  moreover have "applyStepOutputsToBundle e outs r6 = (None, r')"
    using assms rs mr x rd y ap z
    by (simp add: r6_def r2_def defs split: if_splits)
  ultimately show thesis
    using that rs mr x rd y ap z by blast
qed

lemma executeStep_read_failed:
  assumes "ResolveStep e (RuntimeManifest r) s = Inr s'"
    and "mixins_Run e (MixinName s') (step_command e (RuntimeManifest r) s') (FileSystem r) = (None, fsm)"
    and "readMixinOutputs e fsm = ((outs, Some err), fs5)"
  shows "fst (executeStep e (Some s) r) = Some (Wrap err ''could not read step outputs'') \<and>
         RuntimeManifest (snd (executeStep e (Some s) r)) = RuntimeManifest r \<and>
         FileSystem (snd (executeStep e (Some s) r)) = fs5 \<and>
         calls (snd (executeStep e (Some s) r)) =
           calls r @ [CallResolveStep s,
                      CallMixinRun (MixinName s') (step_command e (RuntimeManifest r) s'),
                      CallReadMixinOutputs]"
  using assms
  by (simp add: executeStep_def Let_def log_call_def println_def step_command_def split: if_splits)

lemma readMixinOutputs_failed_empty:
  "readMixinOutputs e fs = ((outs, Some err), fs') \<Longrightarrow> outs = []"
  by (auto simp: readMixinOutputs_def split: sum.splits dest: read_loop_failed_empty)

lemma readMixinOutputs_faulty:
  assumes "f \<in> set (dir_entries (MixinOutputsDir e) (nodes fs))" "\<not> IsDir f"
    "faulty fs OpRead (filepath_Join (MixinOutputsDir e) (fi_Name f)) \<or>
     faulty fs OpRemove (filepath_Join (MixinOutputsDir e) (fi_Name f))"
  shows "snd (fst (readMixinOutputs e fs)) \<noteq> None"
proof (cases "ReadDir (MixinOutputsDir e) fs")
  case (Inl err)
  then show ?thesis by (simp add: readMixinOutputs_def)
next
  case (Inr outfiles)
  then have "outfiles = dir_entries (MixinOutputsDir e) (nodes fs)"
    by (auto simp: ReadDir_def split: if_splits)
  with assms Inr read_loop_faulty [of f outfiles fs e "[]"] show ?thesis
    by (simp add: readMixinOutputs_def)
qed

text \<open>
  Claim C6. After the mixin of a step has returned: if one regular file of the mixin
  outputs directory cannot be read or cannot be deleted, the read of the step's outputs
  fails; and whenever that read fails, it returns the nil map, \<open>executeStep\<close>
  returns its error wrapped, the manifest (its bookkeeping of step outputs included) is
  what it was before the step, the filesystem is as the failed read left it (the binder
  wrote nothing), and the last stage the step went through is the read.
\<close>

theorem C6_read_failure_discards_batch:
  assumes "ResolveStep e (RuntimeManifest r) s = Inr s'"
    and "mixins_Run e (MixinName s') (step_command e (RuntimeManifest r) s') (FileSystem r) = (None, fsm)"
  shows "((\<exists>f \<in> set (dir_entries (MixinOutputsDir e) (nodes fsm)). \<not> IsDir f \<and>
            (faulty fsm OpRead (filepath_Join (MixinOutputsDir e) (fi_Name f)) \<or>
             faulty fsm OpRemove (filepath_Join (MixinOutputsDir e) (fi_Name f)))) \<longrightarrow>
          snd (fst (readMixinOutputs e fsm)) \<noteq> None) \<and>
         (\<forall>err. snd (fst (readMixinOutputs e fsm)) = Some err \<longrightarrow>
            fst (fst (readMixinOutputs e fsm)) = [] \<and>
            fst (executeStep e (Some s) r) = Some (Wrap err ''could not read step outputs'') \<and>
            RuntimeManifest (snd (executeStep e (Some s) r)) = RuntimeManifest r \<and>
            FileSystem (snd (executeStep e (Some s) r)) = snd (readMixinOutputs e fsm) \<and>
            calls (snd (executeStep e (Some s) r)) =
              calls r @ [CallResolveStep s,
                         CallMixinRun (MixinName s') (step_command e (RuntimeManifest r) s'),
                         CallReadMixinOutputs])"
proof (intro conjI allI impI)
  assume "\<exists>f \<in> set (dir_entries (MixinOutputsDir e) (nodes fsm)). \<not> IsDir f \<and>
            (faulty fsm OpRead (filepath_Join (MixinOutputsDir e) (fi_Name f)) \<or>
             faulty fsm OpRemove (filepath_Join (MixinOutputsDir e) (fi_Name f)))"
  then show "snd (fst (readMixinOutputs e fsm)) \<noteq> None"
    using readMixinOutputs_faulty by blast
next
  fix err
  assume "snd (fst (readMixinOutputs e fsm)) = Some err"
  then obtain outs fs5 where rd: "readMixinOutputs e fsm = ((outs, Some err), fs5)"
    by (metis prod.collapse)
  from readMixinOutputs_failed_empty [OF rd] rd
  show "fst (fst (readMixinOutputs e fsm)) = []" by simp
  from executeStep_read_failed [OF assms rd] rd
  show "fst (executeStep e (Some s) r) = Some (Wrap err ''could not read step outputs'')"
    and "RuntimeManifest (snd (executeStep e (Some s) r)) = RuntimeManifest r"
    and "FileSystem (snd (executeStep e (Some s) r)) = snd (readMixinOutputs e fsm)"
    and "calls (snd (executeStep e (Some s) r)) =
              calls r @ [CallResolveStep s,
                         CallMixinRun (MixinName s') (step_command e (RuntimeManifest r) s'),
                         CallReadMixinOutputs]"
    by simp_all
qed

lemma dir_entries_update_other:
  "child_name dir p = None \<Longrightarrow> dir_entries dir (AList.update p v ns) = dir_entries dir ns"
  by (induction ns) (auto split: option.splits)

lemma dir_entries_update_Directory:
  "map_of ns p = None \<Longrightarrow>
   filter (\<lambda>f. \<not> IsDir f) (dir_entries dir (AList.update p Directory ns)) =
   filter (\<lambda>f. \<not> IsDir f) (dir_entries dir ns)"
  by (induction ns) (auto split: option.splits if_splits)

lemma regular_files_MkdirAll:
  "regular_files dir (snd (MkdirAll p fs)) = regular_files dir fs"
  by (simp add: MkdirAll_def regular_files_def fs_lookup_def dir_entries_update_Directory
      split: option.splits node.splits)

lemma regular_files_WriteFile:
  "child_name dir p = None \<Longrightarrow> regular_files dir (snd (WriteFile p c fs)) = regular_files dir fs"
  by (simp add: WriteFile_def regular_files_def dir_entries_update_other)

lemma regular_files_createOutputsDir:
  "createOutputsDir e r = (x, r') \<Longrightarrow>
   regular_files dir (FileSystem r') = regular_files dir (FileSystem r)"
  using regular_files_MkdirAll [of dir "BundleOutputsDir e" "FileSystem r"]
  by (auto simp: createOutputsDir_def split: prod.splits option.splits)

lemma bind_loop_regular_files:
  "applyStepOutputsToBundle_loop e outs r = (x, r') \<Longrightarrow>
   (\<And>n. child_name dir (filepath_Join (BundleOutputsDir e) n) = None) \<Longrightarrow>
   regular_files dir (FileSystem r') = regular_files dir (FileSystem r)"
proof (induction outs arbitrary: r)
  case Nil
  then show ?case by simp
next
  case (Cons a rest)
  obtain k v where a: "a = (k, v)" by (cases a)
  show ?case
  proof (cases "map_of (Outputs (RuntimeManifest r)) k")
    case None
    with Cons.prems(1) a have "applyStepOutputsToBundle_loop e rest r = (x, r')" by simp
    from Cons.IH [OF this Cons.prems(2)] show ?thesis .
  next
    case (Some d)
    show ?thesis
    proof (cases "shouldApplyOutput r d")
      case False
      with Cons.prems(1) a Some have "applyStepOutputsToBundle_loop e rest r = (x, r')" by simp
      from Cons.IH [OF this Cons.prems(2)] show ?thesis .
    next
      case True
      let ?path = "filepath_Join (BundleOutputsDir e) (Name d)"
      obtain w fs' where w: "WriteFile ?path v (FileSystem r) = (w, fs')"
        by (cases "WriteFile ?path v (FileSystem r)")
      have keep: "regular_files dir fs' = regular_files dir (FileSystem r)"
        using regular_files_WriteFile [OF Cons.prems(2), of "Name d" v "FileSystem r"] w by simp
      show ?thesis
      proof (cases w)
        case None
        with Cons.prems(1) a Some True w
        have run: "applyStepOutputsToBundle_loop e rest (r\<lparr>FileSystem := fs'\<rparr>) = (x, r')"
          by simp
        from Cons.IH [OF run Cons.prems(2)] keep show ?thesis by simp
      next
        case (Some err)
        with Cons.prems(1) a \<open>map_of (Outputs (RuntimeManifest r)) k = Some d\<close> True w keep show ?thesis
          by auto
      qed
    qed
  qed
qed

lemma bind_regular_files:
  assumes "applyStepOutputsToBundle e outs r = (x, r')"
    and "\<And>n. child_name dir (filepath_Join (BundleOutputsDir e) n) = None"
  shows "regular_files dir (FileSystem r') = regular_files dir (FileSystem r)"
proof -
  obtain y r0 where c: "createOutputsDir e r = (y, r0)" by (cases "createOutputsDir e r")
  note d = regular_files_createOutputsDir [OF c, of dir]
  show ?thesis
  proof (cases y)
    case (Some err)
    with assms(1) c d show ?thesis by (simp add: bind_dir_failed)
  next
    case None
    with assms(1) c have "applyStepOutputsToBundle_loop e outs r0 = (x, r')"
      by (simp add: bind_dir_ok)
    from bind_loop_regular_files [OF this assms(2)] d show ?thesis by simp
  qed
qed

lemma map_of_filter_paths:
  "map_of (filter (\<lambda>(p, nd). p \<notin> S) ns) q = (if q \<in> S then None else map_of ns q)"
  by (induction ns) auto

lemma dir_entries_plain:
  "f \<in> set (dir_entries dir ns) \<Longrightarrow>
   child_name dir (filepath_Join dir (fi_Name f)) = Some (fi_Name f)"
  by (auto dest!: dir_entries_D dest: child_name_Join)

lemma readMixinOutputs_ok:
  assumes "readMixinOutputs e fs = ((outs, None), fs')"
  shows "regular_files (MixinOutputsDir e) fs' = []"
    and "\<And>n. n \<in> set (regular_files (MixinOutputsDir e) fs) \<Longrightarrow>
           \<exists>c. fs_lookup fs (filepath_Join (MixinOutputsDir e) n) = Some (RegFile c) \<and>
               map_of outs n = Some c"
    and "\<And>p. child_name (MixinOutputsDir e) p = None \<or> fs_lookup fs p = Some Directory \<Longrightarrow>
           fs_lookup fs' p = fs_lookup fs p"
proof -
  let ?dir = "MixinOutputsDir e"
  let ?fis = "dir_entries ?dir (nodes fs)"
  from assms have loop: "readMixinOutputs_loop e ?fis [] fs = ((outs, None), fs')"
    by (auto simp: readMixinOutputs_def ReadDir_def split: sum.splits if_splits)
  note nodes' = read_loop_nodes [OF loop]
  show "regular_files ?dir fs' = []"
  proof -
    have "IsDir g" if g: "g \<in> set (dir_entries ?dir (nodes fs'))" for g
    proof (rule ccontr)
      assume nd: "\<not> IsDir g"
      from dir_entries_D [OF g] obtain p nd' where mem: "(p, nd') \<in> set (nodes fs')"
        and cn: "child_name ?dir p = Some (fi_Name g)" and isd: "IsDir g = (nd' = Directory)"
        by blast
      from mem nodes' have old: "(p, nd') \<in> set (nodes fs)" and out: "p \<notin> channel_paths e ?fis"
        by auto
      let ?g = "\<lparr>fi_Name = fi_Name g, IsDir = (nd' = Directory)\<rparr>"
      from dir_entries_I [OF old cn] have "?g \<in> set ?fis" .
      moreover have "\<not> IsDir ?g" using nd isd by simp
      ultimately have "filepath_Join ?dir (fi_Name ?g) \<in> channel_paths e ?fis"
        unfolding channel_paths_def by blast
      with out child_name_Join [OF cn] show False by simp
    qed
    then show ?thesis by (auto simp: regular_files_def filter_empty_conv)
  qed
  show "\<exists>c. fs_lookup fs (filepath_Join ?dir n) = Some (RegFile c) \<and> map_of outs n = Some c"
    if "n \<in> set (regular_files ?dir fs)" for n
  proof -
    from that obtain f where f: "f \<in> set ?fis" "\<not> IsDir f" "fi_Name f = n"
      by (auto simp: regular_files_def)
    from read_loop_readable [OF loop f(1,2)] f(3) obtain c where
      c: "fs_lookup fs (filepath_Join ?dir n) = Some (RegFile c)" by auto
    have "n \<in> fi_Name ` {f \<in> set ?fis. \<not> IsDir f}" using f by auto
    with read_loop_outputs [OF loop, of n] c show ?thesis by simp
  qed
  show "fs_lookup fs' p = fs_lookup fs p"
    if "child_name ?dir p = None \<or> fs_lookup fs p = Some Directory" for p
  proof -
    have "p \<notin> channel_paths e ?fis"
    proof
      assume "p \<in> channel_paths e ?fis"
      then obtain f where f: "f \<in> set ?fis" "\<not> IsDir f" "p = filepath_Join ?dir (fi_Name f)"
        by (auto simp: channel_paths_def)
      from dir_entries_plain [OF f(1)] f(3) have "child_name ?dir p \<noteq> None" by simp
      moreover from read_loop_readable [OF loop f(1,2)] f(3)
      have "fs_lookup fs p \<noteq> Some Directory" by auto
      ultimately show False using that by simp
    qed
    with nodes' show ?thesis by (simp add: fs_lookup_def map_of_filter_paths)
  qed
qed

text \<open>
  Claim C9. After a step that returned no error, the mixin outputs directory holds no
  regular file. The read of the step's outputs took the filesystem the mixin left:
  every regular file directly in the directory is in the map it returned, under its
  name and with its contents, and none is left there; directories and everything that
  is not a direct entry of the directory are untouched. The binder, which runs after
  the read, writes only into the bundle outputs directory, whose files are not entries
  of the mixin outputs directory.
\<close>

theorem C9_channel_cleared_after_step:
  assumes "executeStep e (Some s) r = (None, r')"
    and "\<And>n. child_name (MixinOutputsDir e) (filepath_Join (BundleOutputsDir e) n) = None"
  shows "regular_files (MixinOutputsDir e) (FileSystem r') = [] \<and>
         (\<exists>s' fsm outs fs5.
            ResolveStep e (RuntimeManifest r) s = Inr s' \<and>
            mixins_Run e (MixinName s') (step_command e (RuntimeManifest r) s') (FileSystem r) = (None, fsm) \<and>
            readMixinOutputs e fsm = ((outs, None), fs5) \<and>
            regular_files (MixinOutputsDir e) fs5 = [] \<and>
            (\<forall>n \<in> set (regular_files (MixinOutputsDir e) fsm).
               \<exists>c. fs_lookup fsm (filepath_Join (MixinOutputsDir e) n) = Some (RegFile c) \<and>
                   map_of outs n = Some c) \<and>
            (\<forall>p. child_name (MixinOutputsDir e) p = None \<or> fs_lookup fsm p = Some Directory \<longrightarrow>
               fs_lookup fs5 p = fs_lookup fsm p))"
proof -
  from assms(1) obtain s' fsm outs fs5 r6 where
    rs: "ResolveStep e (RuntimeManifest r) s = Inr s'" and
    mr: "mixins_Run e (MixinName s') (step_command e (RuntimeManifest r) s') (FileSystem r) = (None, fsm)" and
    rd: "readMixinOutputs e fsm = ((outs, None), fs5)" and
    r6: "FileSystem r6 = fs5" and
    b: "applyStepOutputsToBundle e outs r6 = (None, r')"
    by (rule executeStep_ok)
  note ok = readMixinOutputs_ok [OF rd]
  have "regular_files (MixinOutputsDir e) (FileSystem r') = []"
    using bind_regular_files [OF b assms(2)] r6 ok(1) by simp
  moreover have "\<forall>n \<in> set (regular_files (MixinOutputsDir e) fsm).
               \<exists>c. fs_lookup fsm (filepath_Join (MixinOutputsDir e) n) = Some (RegFile c) \<and>
                   map_of outs n = Some c"
    using ok(2) by blast
  moreover have "\<forall>p. child_name (MixinOutputsDir e) p = None \<or> fs_lookup fsm p = Some Directory \<longrightarrow>
               fs_lookup fs5 p = fs_lookup fsm p"
    using ok(3) by blast
  ultimately show ?thesis using rs mr rd ok(1) by blast
qed

lemma read_loop_yaml:
  "readMixinOutputs_loop (e\<lparr>yaml_Marshal := y\<rparr>) fis outs fs = readMixinOutputs_loop e fis outs fs"
  by (induction fis arbitrary: outs fs) (auto simp: Let_def split: sum.splits prod.splits option.splits)

lemma readMixinOutputs_yaml:
  "readMixinOutputs (e\<lparr>yaml_Marshal := y\<rparr>) fs = readMixinOutputs e fs"
  by (simp add: readMixinOutputs_def read_loop_yaml split: sum.splits)

lemma bind_loop_yaml:
  "applyStepOutputsToBundle_loop (e\<lparr>yaml_Marshal := y\<rparr>) outs r =
   applyStepOutputsToBundle_loop e outs r"
  by (induction outs arbitrary: r) (auto simp: Let_def split: option.splits prod.splits)

lemma bind_yaml:
  "applyStepOutputsToBundle (e\<lparr>yaml_Marshal := y\<rparr>) outs r = applyStepOutputsToBundle e outs r"
  by (simp add: applyStepOutputsToBundle_def createOutputsDir_def bind_loop_yaml
      split: prod.splits option.splits)

lemma ApplyStepOutputs_yaml:
  "ApplyStepOutputs (e\<lparr>yaml_Marshal := y\<rparr>) outs m = ApplyStepOutputs e outs m"
  by (simp add: ApplyStepOutputs_def)

lemma executeStep_calls_mixin:
  assumes "ResolveStep e (RuntimeManifest r) s = Inr s'"
  shows "CallMixinRun (MixinName s') (step_command e (RuntimeManifest r) s') \<in>
         set (calls (snd (executeStep e (Some s) r)))"
proof -
  note defs = executeStep_def Let_def log_call_def println_def step_command_def
  let ?cmd = "step_command e (RuntimeManifest r) s'"
  obtain x fsm where mr: "mixins_Run e (MixinName s') ?cmd (FileSystem r) = (x, fsm)"
    by (cases "mixins_Run e (MixinName s') ?cmd (FileSystem r)")
  show ?thesis
  proof (cases x)
    case (Some err)
    with assms mr show ?thesis by (simp add: defs split: if_splits)
  next
    case None
    obtain outs y fs5 where rd: "readMixinOutputs e fsm = ((outs, y), fs5)"
      by (metis prod.exhaust)
    show ?thesis
    proof (cases y)
      case (Some err)
      with assms mr None rd show ?thesis by (simp add: defs split: if_splits)
    next
      case yn: None
      obtain z m6 where ap: "ApplyStepOutputs e outs (RuntimeManifest r) = (z, m6)"
        by (cases "ApplyStepOutputs e outs (RuntimeManifest r)")
      show ?thesis
      proof (cases z)
        case (Some err)
        with assms mr None rd yn ap show ?thesis by (simp add: defs split: if_splits)
      next
        case zn: None
        have bc: "calls (snd (applyStepOutputsToBundle e outs r6)) = calls r6" for r6
          using bind_fields(2) [of e outs r6] by (metis prod.collapse)
        show ?thesis
          using assms mr None rd yn ap zn
          by (cases "Description s' = []") (simp_all add: defs bc)
      qed
    qed
  qed
qed

lemma shouldApplyOutput_cong:
  "RuntimeManifest r = RuntimeManifest q \<Longrightarrow> shouldApplyOutput r d = shouldApplyOutput q d"
  by (simp add: shouldApplyOutput_def)

lemma bind_loop_depends:
  "FileSystem r = FileSystem q \<Longrightarrow> RuntimeManifest r = RuntimeManifest q \<Longrightarrow>
   fst (applyStepOutputsToBundle_loop e outs r) = fst (applyStepOutputsToBundle_loop e outs q) \<and>
   FileSystem (snd (applyStepOutputsToBundle_loop e outs r)) =
     FileSystem (snd (applyStepOutputsToBundle_loop e outs q))"
proof (induction outs arbitrary: r q)
  case Nil
  then show ?case by simp
next
  case (Cons kv rest)
  obtain k v where kv: "kv = (k, v)" by (cases kv)
  note same = Cons.IH [OF Cons.prems]
  have mq: "map_of (Outputs (RuntimeManifest r)) k = map_of (Outputs (RuntimeManifest q)) k"
    using Cons.prems(2) by simp
  show ?case
  proof (cases "map_of (Outputs (RuntimeManifest q)) k")
    case None
    with mq have "applyStepOutputsToBundle_loop e (kv # rest) r = applyStepOutputsToBundle_loop e rest r"
      "applyStepOutputsToBundle_loop e (kv # rest) q = applyStepOutputsToBundle_loop e rest q"
      by (simp_all add: kv)
    with same show ?thesis by simp
  next
    case (Some d)
    have sa: "shouldApplyOutput r d = shouldApplyOutput q d"
      using Cons.prems(2) by (rule shouldApplyOutput_cong)
    show ?thesis
    proof (cases "shouldApplyOutput q d")
      case False
      with mq Some sa
      have "applyStepOutputsToBundle_loop e (kv # rest) r = applyStepOutputsToBundle_loop e rest r"
        "applyStepOutputsToBundle_loop e (kv # rest) q = applyStepOutputsToBundle_loop e rest q"
        by (simp_all add: kv)
      with same show ?thesis by simp
    next
      case True
      obtain x fs' where w:
        "WriteFile (filepath_Join (BundleOutputsDir e) (Name d)) v (FileSystem q) = (x, fs')"
        by (cases "WriteFile (filepath_Join (BundleOutputsDir e) (Name d)) v (FileSystem q)")
      have w': "WriteFile (filepath_Join (BundleOutputsDir e) (Name d)) v (FileSystem r) = (x, fs')"
        using w Cons.prems(1) by simp
      show ?thesis
      proof (cases x)
        case (Some err)
        with mq \<open>map_of (Outputs (RuntimeManifest q)) k = Some d\<close> sa True w w'
        have "applyStepOutputsToBundle_loop e (kv # rest) r =
                (Some (Wrap err (''unable to write output file '' @
                         filepath_Join (BundleOutputsDir e) (Name d))), r\<lparr>FileSystem := fs'\<rparr>)"
          "applyStepOutputsToBundle_loop e (kv # rest) q =
                (Some (Wrap err (''unable to write output file '' @
                         filepath_Join (BundleOutputsDir e) (Name d))), q\<lparr>FileSystem := fs'\<rparr>)"
          by (simp_all add: kv Let_def)
        then show ?thesis by simp
      next
        case None
        have ih: "fst (applyStepOutputsToBundle_loop e rest (r\<lparr>FileSystem := fs'\<rparr>)) =
              fst (applyStepOutputsToBundle_loop e rest (q\<lparr>FileSystem := fs'\<rparr>)) \<and>
              FileSystem (snd (applyStepOutputsToBundle_loop e rest (r\<lparr>FileSystem := fs'\<rparr>))) =
              FileSystem (snd (applyStepOutputsToBundle_loop e rest (q\<lparr>FileSystem := fs'\<rparr>)))"
          using Cons.prems by (intro Cons.IH) simp_all
        from mq \<open>map_of (Outputs (RuntimeManifest q)) k = Some d\<close> sa True w w' None
        have "applyStepOutputsToBundle_loop e (kv # rest) r =
                applyStepOutputsToBundle_loop e rest (r\<lparr>FileSystem := fs'\<rparr>)"
          "applyStepOutputsToBundle_loop e (kv # rest) q =
                applyStepOutputsToBundle_loop e rest (q\<lparr>FileSystem := fs'\<rparr>)"
          by (simp_all add: kv Let_def)
        with ih show ?thesis by simp
      qed
    qed
  qed
qed

text \<open>
  The binder reads the filesystem and the manifest of the runtime, and nothing else of it.
\<close>

lemma bind_depends:
  assumes "FileSystem r = FileSystem q" and "RuntimeManifest r = RuntimeManifest q"
  shows "fst (applyStepOutputsToBundle e outs r) = fst (applyStepOutputsToBundle e outs q) \<and>
         FileSystem (snd (applyStepOutputsToBundle e outs r)) =
           FileSystem (snd (applyStepOutputsToBundle e outs q))"
proof -
  obtain x fs' where m: "MkdirAll (BundleOutputsDir e) (FileSystem q) = (x, fs')"
    by (cases "MkdirAll (BundleOutputsDir e) (FileSystem q)")
  have m': "MkdirAll (BundleOutputsDir e) (FileSystem r) = (x, fs')"
    using m assms(1) by simp
  show ?thesis
  proof (cases x)
    case (Some err)
    with m m' show ?thesis
      by (simp add: applyStepOutputsToBundle_def createOutputsDir_def)
  next
    case None
    have ih: "fst (applyStepOutputsToBundle_loop e outs (r\<lparr>FileSystem := fs'\<rparr>)) =
          fst (applyStepOutputsToBundle_loop e outs (q\<lparr>FileSystem := fs'\<rparr>)) \<and>
          FileSystem (snd (applyStepOutputsToBundle_loop e outs (r\<lparr>FileSystem := fs'\<rparr>))) =
          FileSystem (snd (applyStepOutputsToBundle_loop e outs (q\<lparr>FileSystem := fs'\<rparr>)))"
      using assms by (intro bind_loop_depends) simp_all
    from m m' None
    have "applyStepOutputsToBundle e outs r =
            applyStepOutputsToBundle_loop e outs (r\<lparr>FileSystem := fs'\<rparr>)"
      "applyStepOutputsToBundle e outs q =
            applyStepOutputsToBundle_loop e outs (q\<lparr>FileSystem := fs'\<rparr>)"
      by (simp_all add: applyStepOutputsToBundle_def createOutputsDir_def)
    with ih show ?thesis by simp
  qed
qed

lemma bind_Manifest:
  "RuntimeManifest (snd (applyStepOutputsToBundle e outs r)) = RuntimeManifest r"
  using bind_fields(1) [of e outs r] by (metis prod.collapse)

text \<open>
  The stages of a resolved step after the encoding of its input, each in terms of the
  result of the stage before.
\<close>

lemma executeStep_mixin_failed:
  assumes "ResolveStep e (RuntimeManifest r) s = Inr s'"
    and "mixins_Run e (MixinName s') (step_command e (RuntimeManifest r) s') (FileSystem r) =
           (Some err, fs4)"
  shows "fst (executeStep e (Some s) r) = Some (Wrap err ''mixin execution failed'') \<and>
         FileSystem (snd (executeStep e (Some s) r)) = fs4 \<and>
         RuntimeManifest (snd (executeStep e (Some s) r)) = RuntimeManifest r"
  using assms
  by (simp add: executeStep_def Let_def log_call_def println_def step_command_def split: if_splits)

lemma executeStep_record_failed:
  assumes "ResolveStep e (RuntimeManifest r) s = Inr s'"
    and "mixins_Run e (MixinName s') (step_command e (RuntimeManifest r) s') (FileSystem r) =
           (None, fs4)"
    and "readMixinOutputs e fs4 = ((outs, None), fs5)"
    and "ApplyStepOutputs e outs (RuntimeManifest r) = (Some err, m6)"
  shows "fst (executeStep e (Some s) r) = Some err \<and>
         FileSystem (snd (executeStep e (Some s) r)) = fs5 \<and>
         RuntimeManifest (snd (executeStep e (Some s) r)) = m6"
  using assms
  by (simp add: executeStep_def Let_def log_call_def println_def step_command_def split: if_splits)

lemma executeStep_bound:
  assumes "ResolveStep e (RuntimeManifest r) s = Inr s'"
    and "mixins_Run e (MixinName s') (step_command e (RuntimeManifest r) s') (FileSystem r) =
           (None, fs4)"
    and "readMixinOutputs e fs4 = ((outs, None), fs5)"
    and "ApplyStepOutputs e outs (RuntimeManifest r) = (None, m6)"
  shows "fst (executeStep e (Some s) r) =
           fst (applyStepOutputsToBundle e outs (r\<lparr>FileSystem := fs5, RuntimeManifest := m6\<rparr>)) \<and>
         FileSystem (snd (executeStep e (Some s) r)) =
           FileSystem (snd (applyStepOutputsToBundle e outs
                              (r\<lparr>FileSystem := fs5, RuntimeManifest := m6\<rparr>))) \<and>
         RuntimeManifest (snd (executeStep e (Some s) r)) = m6"
proof -
  define r2 where "r2 = (if length (Description s') > 0
      then println (Description s') (log_call (CallResolveStep s) r)
      else log_call (CallResolveStep s) r)"
  define r6 where "r6 =
    log_call (CallApplyStepOutputsToBundle outs) (log_call (CallApplyStepOutputs outs)
      ((log_call CallReadMixinOutputs
         ((log_call (CallMixinRun (MixinName s') (step_command e (RuntimeManifest r) s'))
            (r2\<lparr>SensitiveValues := GetSensitiveValues e (RuntimeManifest r2),
                FileSystem := fs4\<rparr>))\<lparr>FileSystem := fs5\<rparr>))\<lparr>RuntimeManifest := m6\<rparr>))"
  have ex: "executeStep e (Some s) r = applyStepOutputsToBundle e outs r6"
    using assms
    by (simp add: r6_def r2_def executeStep_def Let_def log_call_def println_def step_command_def
        split: if_splits)
  have f: "FileSystem r6 = FileSystem (r\<lparr>FileSystem := fs5, RuntimeManifest := m6\<rparr>)"
    "RuntimeManifest r6 = RuntimeManifest (r\<lparr>FileSystem := fs5, RuntimeManifest := m6\<rparr>)"
    by (simp_all add: r6_def log_call_def)
  have m: "RuntimeManifest r6 = m6" by (simp add: r6_def log_call_def)
  from bind_depends [OF f, of e outs] bind_Manifest [of e outs r6] m
  show ?thesis unfolding ex by simp
qed

text \<open>
  Claim C10. The error \<open>yaml.Marshal\<close> returns has no effect on a step: the step does
  the same, and returns the same, whatever that error is (\<open>x\<close> is any other error
  result of the encoder, nil included). Once the step is resolved, the mixin is run with
  the action as command and the bytes the encoder returned as input, and the step's
  result and filesystem follow from that run: if the mixin fails, the step returns its
  error wrapped, on the filesystem the mixin left; if not, the outputs are read from the
  filesystem the mixin left, and the step returns the error of the read, or of the
  bookkeeping, or else the result of the binder on the outputs read and the filesystem
  after the read.
\<close>

theorem C10_marshal_error_ignored:
  "executeStep (e\<lparr>yaml_Marshal := (\<lambda>i. (fst (yaml_Marshal e i), x i))\<rparr>) step r =
     executeStep e step r \<and>
   (\<forall>s s' merr fs4.
      step = Some s \<and> ResolveStep e (RuntimeManifest r) s = Inr s' \<and>
      mixins_Run e (MixinName s')
        \<lparr>Command = Action (RuntimeManifest r),
         Input = fst (yaml_Marshal e \<lparr>action = Action (RuntimeManifest r), Steps = [s']\<rparr>),
         Runtime = True\<rparr>
        (FileSystem r) = (merr, fs4) \<longrightarrow>
      CallMixinRun (MixinName s')
        \<lparr>Command = Action (RuntimeManifest r),
         Input = fst (yaml_Marshal e \<lparr>action = Action (RuntimeManifest r), Steps = [s']\<rparr>),
         Runtime = True\<rparr>
      \<in> set (calls (snd (executeStep e step r))) \<and>
      (\<forall>err. merr = Some err \<longrightarrow>
         fst (executeStep e step r) = Some (Wrap err ''mixin execution failed'') \<and>
         FileSystem (snd (executeStep e step r)) = fs4 \<and>
         RuntimeManifest (snd (executeStep e step r)) = RuntimeManifest r) \<and>
      (\<forall>outs rerr fs5.
         merr = None \<and> readMixinOutputs e fs4 = ((outs, rerr), fs5) \<longrightarrow>
         (\<forall>err. rerr = Some err \<longrightarrow>
            fst (executeStep e step r) = Some (Wrap err ''could not read step outputs'') \<and>
            FileSystem (snd (executeStep e step r)) = fs5 \<and>
            RuntimeManifest (snd (executeStep e step r)) = RuntimeManifest r) \<and>
         (\<forall>aerr m6.
            rerr = None \<and> ApplyStepOutputs e outs (RuntimeManifest r) = (aerr, m6) \<longrightarrow>
            (\<forall>err. aerr = Some err \<longrightarrow>
               fst (executeStep e step r) = Some err \<and>
               FileSystem (snd (executeStep e step r)) = fs5 \<and>
               RuntimeManifest (snd (executeStep e step r)) = m6) \<and>
            (aerr = None \<longrightarrow>
               fst (executeStep e step r) =
                 fst (applyStepOutputsToBundle e outs
                        (r\<lparr>FileSystem := fs5, RuntimeManifest := m6\<rparr>)) \<and>
               FileSystem (snd (executeStep e step r)) =
                 FileSystem (snd (applyStepOutputsToBundle e outs
                                    (r\<lparr>FileSystem := fs5, RuntimeManifest := m6\<rparr>))) \<and>
               RuntimeManifest (snd (executeStep e step r)) = m6))))"
proof (intro conjI allI impI)
  show "executeStep (e\<lparr>yaml_Marshal := (\<lambda>i. (fst (yaml_Marshal e i), x i))\<rparr>) step r =
        executeStep e step r"
    by (simp add: executeStep_def Let_def readMixinOutputs_yaml bind_yaml ApplyStepOutputs_yaml
        split: sum.splits prod.splits option.splits)
next
  fix s s' merr fs4
  let ?cmd = "\<lparr>Command = Action (RuntimeManifest r),
         Input = fst (yaml_Marshal e \<lparr>action = Action (RuntimeManifest r), Steps = [s']\<rparr>),
         Runtime = True\<rparr>"
  assume h: "step = Some s \<and> ResolveStep e (RuntimeManifest r) s = Inr s' \<and>
      mixins_Run e (MixinName s') ?cmd (FileSystem r) = (merr, fs4)"
  then have step: "step = Some s" and rs: "ResolveStep e (RuntimeManifest r) s = Inr s'"
    and mr: "mixins_Run e (MixinName s') (step_command e (RuntimeManifest r) s') (FileSystem r) =
               (merr, fs4)"
    by (simp_all add: step_command_def)
  from executeStep_calls_mixin [OF rs]
  show "CallMixinRun (MixinName s') ?cmd \<in> set (calls (snd (executeStep e step r)))"
    by (simp add: step_command_def step)
  {
    fix err
    assume "merr = Some err"
    with executeStep_mixin_failed [OF rs, of err fs4] mr
    show "fst (executeStep e step r) = Some (Wrap err ''mixin execution failed'')"
      and "FileSystem (snd (executeStep e step r)) = fs4"
      and "RuntimeManifest (snd (executeStep e step r)) = RuntimeManifest r"
      by (simp_all add: step)
  }
  fix outs rerr fs5
  assume "merr = None \<and> readMixinOutputs e fs4 = ((outs, rerr), fs5)"
  then have mr': "mixins_Run e (MixinName s') (step_command e (RuntimeManifest r) s') (FileSystem r) =
               (None, fs4)"
    and rd: "readMixinOutputs e fs4 = ((outs, rerr), fs5)"
    using mr by simp_all
  {
    fix err
    assume "rerr = Some err"
    with executeStep_read_failed [OF rs mr', of outs err fs5] rd
    show "fst (executeStep e step r) = Some (Wrap err ''could not read step outputs'')"
      and "FileSystem (snd (executeStep e step r)) = fs5"
      and "RuntimeManifest (snd (executeStep e step r)) = RuntimeManifest r"
      by (simp_all add: step)
  }
  fix aerr m6
  assume "rerr = None \<and> ApplyStepOutputs e outs (RuntimeManifest r) = (aerr, m6)"
  then have rd': "readMixinOutputs e fs4 = ((outs, None), fs5)"
    and ap: "ApplyStepOutputs e outs (RuntimeManifest r) = (aerr, m6)"
    using rd by simp_all
  {
    fix err
    assume "aerr = Some err"
    with executeStep_record_failed [OF rs mr' rd', of err m6] ap
    show "fst (executeStep e step r) = Some err"
      and "FileSystem (snd (executeStep e step r)) = fs5"
      and "RuntimeManifest (snd (executeStep e step r)) = m6"
      by (simp_all add: step)
  }
  assume "aerr = None"
  with executeStep_bound [OF rs mr' rd', of m6] ap
  show "fst (executeStep e step r) =
          fst (applyStepOutputsToBundle e outs (r\<lparr>FileSystem := fs5, RuntimeManifest := m6\<rparr>))"
    and "FileSystem (snd (executeStep e step r)) =
          FileSystem (snd (applyStepOutputsToBundle e outs
                             (r\<lparr>FileSystem := fs5, RuntimeManifest := m6\<rparr>)))"
    and "RuntimeManifest (snd (executeStep e step r)) = m6"
    by (simp_all add: step)
qed

lemmas db_defs = runtime_on_def db_step_def db_manifest_def db_env_def channel_fs_def
  unreadable_def no_faults_def porter_env_def

lemmas step_defs = executeStep_def readMixinOutputs_def ApplyStepOutputs_def log_call_def
  println_def child_name_def regular_files_def step_command_def

lemma porter_dirs_apart:
  "child_name ''/cnab/app/porter/outputs'' (filepath_Join ''/cnab/app/outputs'' n) = None"
  by (simp add: child_name_def filepath_Join_def)

section \<open>The unbound output resolver\<close>

lemma CopyFile_faulty: "faulty (snd (CopyFile src dest fs)) = faulty fs"
  using WriteFile_faulty by (simp add: CopyFile_def split: sum.splits)

lemma CopyFile_lookup_other:
  "q \<noteq> dest \<Longrightarrow> fs_lookup (snd (CopyFile src dest fs)) q = fs_lookup fs q"
  using WriteFile_lookup_other by (simp add: CopyFile_def split: sum.splits)

lemma CopyFile_copies:
  "fs_lookup fs src = Some (RegFile c) \<Longrightarrow> \<not> faulty fs OpRead src \<Longrightarrow>
   \<not> faulty fs OpWrite dest \<Longrightarrow> fs_lookup fs dest \<noteq> Some Directory \<Longrightarrow>
   fst (CopyFile src dest fs) = None \<and> fs_lookup (snd (CopyFile src dest fs)) dest = Some (RegFile c)"
  by (simp add: CopyFile_def ReadFile_def WriteFile_def fs_lookup_def update_conv')

lemma unbound_loop_Cons:
  obtains err1 r1 where
    "applyUnboundBundleOutputs_loop e outs ((k, d) # rest) bigErr err r =
       applyUnboundBundleOutputs_loop e outs rest bigErr err1 r1"
    "r1 = r\<lparr>FileSystem := FileSystem r1\<rparr>"
    "FileSystem r1 =
       (if unbound_copies outs r d
        then snd (CopyFile (Path d) (filepath_Join (BundleOutputsDir e) (Name d)) (FileSystem r))
        else FileSystem r)"
proof (cases "unbound_copies outs r d")
  case False
  then have "applyUnboundBundleOutputs_loop e outs ((k, d) # rest) bigErr err r =
       applyUnboundBundleOutputs_loop e outs rest bigErr err r"
    by (auto simp: unbound_copies_def)
  with False that [of err r] show thesis by simp
next
  case True
  let ?c = "CopyFile (Path d) (filepath_Join (BundleOutputsDir e) (Name d)) (FileSystem r)"
  obtain x fs' where c: "?c = (x, fs')" by (cases ?c)
  from True c have "\<exists>err1. applyUnboundBundleOutputs_loop e outs ((k, d) # rest) bigErr err r =
       applyUnboundBundleOutputs_loop e outs rest bigErr err1 (r\<lparr>FileSystem := fs'\<rparr>)"
    by (cases x) (auto simp: unbound_copies_def Let_def)
  then obtain err1 where "applyUnboundBundleOutputs_loop e outs ((k, d) # rest) bigErr err r =
       applyUnboundBundleOutputs_loop e outs rest bigErr err1 (r\<lparr>FileSystem := fs'\<rparr>)" ..
  with True c that [of err1 "r\<lparr>FileSystem := fs'\<rparr>"] show thesis by simp
qed

lemma unbound_copies_FileSystem [simp]:
  "unbound_copies outs (r\<lparr>FileSystem := fs\<rparr>) d = unbound_copies outs r d"
  by (simp add: unbound_copies_def)

lemma unbound_loop_frame:
  "applyUnboundBundleOutputs_loop e outs defs bigErr err r = (b, x, r') \<Longrightarrow>
   b = bigErr \<and> r' = r\<lparr>FileSystem := FileSystem r'\<rparr> \<and>
   faulty (FileSystem r') = faulty (FileSystem r)"
proof (induction defs arbitrary: err r)
  case Nil
  then show ?case by simp
next
  case (Cons a rest)
  obtain k d where a: "a = (k, d)" by (cases a)
  obtain err1 r1 where
    step: "applyUnboundBundleOutputs_loop e outs ((k, d) # rest) bigErr err r =
       applyUnboundBundleOutputs_loop e outs rest bigErr err1 r1"
    and r1: "r1 = r\<lparr>FileSystem := FileSystem r1\<rparr>"
    and fs1: "FileSystem r1 =
       (if unbound_copies outs r d
        then snd (CopyFile (Path d) (filepath_Join (BundleOutputsDir e) (Name d)) (FileSystem r))
        else FileSystem r)"
    by (rule unbound_loop_Cons)
  from Cons.prems a step have "applyUnboundBundleOutputs_loop e outs rest bigErr err1 r1 = (b, x, r')"
    by simp
  from Cons.IH [OF this] have b: "b = bigErr" and r': "r' = r1\<lparr>FileSystem := FileSystem r'\<rparr>"
    and f: "faulty (FileSystem r') = faulty (FileSystem r1)" by auto
  have "faulty (FileSystem r1) = faulty (FileSystem r)"
    using fs1 CopyFile_faulty by simp
  moreover have "r' = r\<lparr>FileSystem := FileSystem r'\<rparr>"
    by (subst r', subst r1) simp
  ultimately show ?case using b f by simp
qed

lemma unbound_loop_lookup_other:
  "applyUnboundBundleOutputs_loop e outs defs bigErr err r = (b, x, r') \<Longrightarrow>
   (\<And>k' d'. (k', d') \<in> set defs \<Longrightarrow> unbound_copies outs r d' \<Longrightarrow>
      filepath_Join (BundleOutputsDir e) (Name d') \<noteq> p) \<Longrightarrow>
   fs_lookup (FileSystem r') p = fs_lookup (FileSystem r) p"
proof (induction defs arbitrary: err r)
  case Nil
  then show ?case by simp
next
  case (Cons a rest)
  obtain k d where a: "a = (k, d)" by (cases a)
  obtain err1 r1 where
    step: "applyUnboundBundleOutputs_loop e outs ((k, d) # rest) bigErr err r =
       applyUnboundBundleOutputs_loop e outs rest bigErr err1 r1"
    and r1: "r1 = r\<lparr>FileSystem := FileSystem r1\<rparr>"
    and fs1: "FileSystem r1 =
       (if unbound_copies outs r d
        then snd (CopyFile (Path d) (filepath_Join (BundleOutputsDir e) (Name d)) (FileSystem r))
        else FileSystem r)"
    by (rule unbound_loop_Cons)
  from Cons.prems(1) a step
  have run: "applyUnboundBundleOutputs_loop e outs rest bigErr err1 r1 = (b, x, r')" by simp
  have uc: "unbound_copies outs r1 d' = unbound_copies outs r d'" for d'
    by (subst r1) simp
  have "fs_lookup (FileSystem r') p = fs_lookup (FileSystem r1) p"
    by (rule Cons.IH [OF run]) (use Cons.prems(2) uc in auto)
  moreover have "fs_lookup (FileSystem r1) p = fs_lookup (FileSystem r) p"
  proof (cases "unbound_copies outs r d")
    case True
    with Cons.prems(2) [of k d] a have "p \<noteq> filepath_Join (BundleOutputsDir e) (Name d)" by auto
    with fs1 True CopyFile_lookup_other show ?thesis by simp
  next
    case False
    with fs1 show ?thesis by simp
  qed
  ultimately show ?case by simp
qed

lemma unbound_loop_copied:
  "applyUnboundBundleOutputs_loop e outs defs bigErr err r = (b, x, r') \<Longrightarrow>
   distinct (map fst defs) \<Longrightarrow> list_all (\<lambda>(k, d). Name d = k) defs \<Longrightarrow>
   (name, d) \<in> set defs \<Longrightarrow> unbound_copies outs r d \<Longrightarrow>
   fs_lookup (FileSystem r) (Path d) = Some (RegFile c) \<Longrightarrow>
   \<not> faulty (FileSystem r) OpRead (Path d) \<Longrightarrow>
   \<not> faulty (FileSystem r) OpWrite (filepath_Join (BundleOutputsDir e) name) \<Longrightarrow>
   fs_lookup (FileSystem r) (filepath_Join (BundleOutputsDir e) name) \<noteq> Some Directory \<Longrightarrow>
   (\<And>k' d'. (k', d') \<in> set defs \<Longrightarrow> filepath_Join (BundleOutputsDir e) k' \<noteq> Path d) \<Longrightarrow>
   fs_lookup (FileSystem r') (filepath_Join (BundleOutputsDir e) name) = Some (RegFile c)"
proof (induction defs arbitrary: err r)
  case Nil
  then show ?case by simp
next
  case (Cons a rest)
  obtain k0 d0 where a: "a = (k0, d0)" by (cases a)
  let ?dest = "filepath_Join (BundleOutputsDir e) name"
  obtain err1 r1 where
    step: "applyUnboundBundleOutputs_loop e outs ((k0, d0) # rest) bigErr err r =
       applyUnboundBundleOutputs_loop e outs rest bigErr err1 r1"
    and r1: "r1 = r\<lparr>FileSystem := FileSystem r1\<rparr>"
    and fs1: "FileSystem r1 =
       (if unbound_copies outs r d0
        then snd (CopyFile (Path d0) (filepath_Join (BundleOutputsDir e) (Name d0)) (FileSystem r))
        else FileSystem r)"
    by (rule unbound_loop_Cons)
  from Cons.prems(1) a step
  have run: "applyUnboundBundleOutputs_loop e outs rest bigErr err1 r1 = (b, x, r')" by simp
  have uc: "unbound_copies outs r1 d' = unbound_copies outs r d'" for d'
    by (subst r1) simp
  have n0: "Name d0 = k0" using Cons.prems(3) a by simp
  have keyed: "\<And>k' d'. (k', d') \<in> set rest \<Longrightarrow> Name d' = k'"
    using Cons.prems(3) by (auto simp: list_all_iff)
  show ?case
  proof (cases "k0 = name")
    case True
    with Cons.prems(2,4) a have d0: "d0 = d" and notin: "name \<notin> fst ` set rest"
      by (auto simp: image_iff)
    from fs1 d0 n0 True Cons.prems(5)
    have "FileSystem r1 = snd (CopyFile (Path d) ?dest (FileSystem r))" by simp
    with CopyFile_copies [OF Cons.prems(6,7,8,9)]
    have "fs_lookup (FileSystem r1) ?dest = Some (RegFile c)" by simp
    moreover have "fs_lookup (FileSystem r') ?dest = fs_lookup (FileSystem r1) ?dest"
    proof (rule unbound_loop_lookup_other [OF run])
      fix k' d'
      assume "(k', d') \<in> set rest"
      with keyed [of k' d'] notin have "Name d' \<noteq> name" by (auto simp: image_iff)
      then show "filepath_Join (BundleOutputsDir e) (Name d') \<noteq> ?dest" by simp
    qed
    ultimately show ?thesis by simp
  next
    case False
    with Cons.prems(4) a have mem: "(name, d) \<in> set rest" by simp
    have same: "fs_lookup (FileSystem r1) q = fs_lookup (FileSystem r) q"
      if "q \<noteq> filepath_Join (BundleOutputsDir e) k0" for q
      using fs1 n0 that CopyFile_lookup_other by simp
    have flt: "faulty (FileSystem r1) = faulty (FileSystem r)"
      using fs1 CopyFile_faulty by simp
    have p: "Path d \<noteq> filepath_Join (BundleOutputsDir e) k0"
      using Cons.prems(10) [of k0 d0] a by auto
    have q: "?dest \<noteq> filepath_Join (BundleOutputsDir e) k0"
      using False by simp
    show ?thesis
    proof (rule Cons.IH [OF run _ _ mem])
      show "distinct (map fst rest)" using Cons.prems(2) by simp
      show "list_all (\<lambda>(k, d). Name d = k) rest" using Cons.prems(3) by simp
      show "unbound_copies outs r1 d" using uc Cons.prems(5) by simp
      show "fs_lookup (FileSystem r1) (Path d) = Some (RegFile c)"
        using same [OF p] Cons.prems(6) by simp
      show "\<not> faulty (FileSystem r1) OpRead (Path d)" using flt Cons.prems(7) by simp
      show "\<not> faulty (FileSystem r1) OpWrite ?dest" using flt Cons.prems(8) by simp
      show "fs_lookup (FileSystem r1) ?dest \<noteq> Some Directory"
        using same [OF q] Cons.prems(9) by simp
      show "\<And>k' d'. (k', d') \<in> set rest \<Longrightarrow> filepath_Join (BundleOutputsDir e) k' \<noteq> Path d"
        using Cons.prems(10) by auto
    qed
  qed
qed

lemma createOutputsDir_ok_dir:
  "createOutputsDir e r = (None, r0) \<Longrightarrow> fs_lookup (FileSystem r) (BundleOutputsDir e) \<noteq> Some (RegFile c)"
  by (auto simp: createOutputsDir_def MkdirAll_def split: prod.splits option.splits if_splits node.splits)

lemma unbound_dir_failed:
  "createOutputsDir e r = (Some err, r0) \<Longrightarrow> applyUnboundBundleOutputs e r = (Some err, r0)"
  by (simp add: applyUnboundBundleOutputs_def)

lemma unbound_dir_ok:
  assumes "createOutputsDir e r = (None, r0)"
  obtains r1 x r2 where
    "r1 = r0\<lparr>Out := Out r1\<rparr>"
    "applyUnboundBundleOutputs_loop e (GetOutputs (RuntimeManifest r0)) (Outputs (RuntimeManifest r0)) None None r1 =
       (None, x, r2)"
    "applyUnboundBundleOutputs e r = (None, r2)"
proof -
  define r1 where "r1 = (if length (Outputs (RuntimeManifest r0)) > 0
                     then println ''Collecting bundle outputs...'' r0 else r0)"
  have r1: "r1 = r0\<lparr>Out := Out r1\<rparr>" by (simp add: r1_def println_def)
  have m: "RuntimeManifest r1 = RuntimeManifest r0" by (subst r1) simp
  obtain b x r2 where loop:
    "applyUnboundBundleOutputs_loop e (GetOutputs (RuntimeManifest r0)) (Outputs (RuntimeManifest r0)) None None r1 =
       (b, x, r2)"
    by (metis prod.exhaust)
  from unbound_loop_frame [OF loop] have b: "b = None" by simp
  have "applyUnboundBundleOutputs e r = (None, r2)"
    using assms loop b unfolding r1_def
    by (auto simp: applyUnboundBundleOutputs_def Let_def ErrorOrNil_def println_def)
  with r1 loop b that show thesis by blast
qed

lemma unbound_frame:
  "applyUnboundBundleOutputs e r = (x, r') \<Longrightarrow> r' = r\<lparr>FileSystem := FileSystem r', Out := Out r'\<rparr>"
proof -
  assume a: "applyUnboundBundleOutputs e r = (x, r')"
  obtain y r0 where c: "createOutputsDir e r = (y, r0)" by (cases "createOutputsDir e r")
  have r0: "r0 = r\<lparr>FileSystem := FileSystem r0\<rparr>" using c by (rule createOutputsDir_frame)
  show ?thesis
  proof (cases y)
    case (Some err)
    with a c have "r' = r0" by (simp add: unbound_dir_failed)
    with r0 show ?thesis by (metis PorterRuntime.surjective PorterRuntime.update_convs(2))
  next
    case None
    with c obtain r1 z r2 where r1: "r1 = r0\<lparr>Out := Out r1\<rparr>"
      and loop: "applyUnboundBundleOutputs_loop e (GetOutputs (RuntimeManifest r0)) (Outputs (RuntimeManifest r0)) None None r1 =
       (None, z, r2)"
      and res: "applyUnboundBundleOutputs e r = (None, r2)"
      by (auto elim: unbound_dir_ok)
    from unbound_loop_frame [OF loop] have r2: "r2 = r1\<lparr>FileSystem := FileSystem r2\<rparr>" by simp
    from a res have "r' = r2" by simp
    moreover have o: "Out r2 = Out r1" by (subst r2) simp
    have "r2 = r\<lparr>FileSystem := FileSystem r2, Out := Out r2\<rparr>"
      unfolding o by (subst r2, subst r1, subst r0) simp
    ultimately show ?thesis by simp
  qed
qed

lemma unbound_fields:
  assumes "applyUnboundBundleOutputs e r = (x, r')"
  shows "RuntimeManifest r' = RuntimeManifest r" "calls r' = calls r" "Err r' = Err r"
  by (subst unbound_frame [OF assms], simp)+

lemma unbound_returns_nil:
  "fst (createOutputsDir e r) = None \<Longrightarrow> fst (applyUnboundBundleOutputs e r) = None"
  by (metis fst_conv prod.collapse unbound_dir_ok)

lemma unbound_skipped:
  assumes "keyed_by_name (RuntimeManifest r)"
    and "distinct (map fst (Outputs (RuntimeManifest r)))"
    and "(name, d) \<in> set (Outputs (RuntimeManifest r))"
    and "\<not> unbound_copies (GetOutputs (RuntimeManifest r)) r d"
  shows "fs_lookup (FileSystem (snd (applyUnboundBundleOutputs e r)))
           (filepath_Join (BundleOutputsDir e) name) =
         fs_lookup (FileSystem r) (filepath_Join (BundleOutputsDir e) name)"
proof -
  let ?dest = "filepath_Join (BundleOutputsDir e) name"
  let ?outs = "GetOutputs (RuntimeManifest r)"
  obtain y r0 where c: "createOutputsDir e r = (y, r0)" by (cases "createOutputsDir e r")
  have dir: "fs_lookup (FileSystem r0) ?dest = fs_lookup (FileSystem r) ?dest"
    using createOutputsDir_lookup_other [OF c] by simp
  show ?thesis
  proof (cases y)
    case (Some err)
    with c dir show ?thesis by (simp add: unbound_dir_failed)
  next
    case None
    have m0: "RuntimeManifest r0 = RuntimeManifest r" using c by (rule createOutputsDir_Manifest)
    from c None obtain r1 x r2 where r1: "r1 = r0\<lparr>Out := Out r1\<rparr>"
      and loop: "applyUnboundBundleOutputs_loop e (GetOutputs (RuntimeManifest r0)) (Outputs (RuntimeManifest r0)) None None r1 =
         (None, x, r2)"
      and res: "applyUnboundBundleOutputs e r = (None, r2)"
      by (auto elim: unbound_dir_ok)
    have fs1: "FileSystem r1 = FileSystem r0" and m1: "RuntimeManifest r1 = RuntimeManifest r"
      using m0 by (subst r1, simp)+
    have uc: "unbound_copies ?outs r1 d' = unbound_copies ?outs r d'" for d'
      by (simp add: unbound_copies_def shouldApplyOutput_iff m1)
    have nm: "Name d' = k'" if "(k', d') \<in> set (Outputs (RuntimeManifest r))" for k' d'
      using assms(1) that by (auto simp: keyed_by_name_def list_all_iff)
    have loop': "applyUnboundBundleOutputs_loop e ?outs (Outputs (RuntimeManifest r)) None None r1 = (None, x, r2)"
      using loop m0 by simp
    have "fs_lookup (FileSystem r2) ?dest = fs_lookup (FileSystem r1) ?dest"
    proof (rule unbound_loop_lookup_other [OF loop'])
      fix k' d'
      assume mem: "(k', d') \<in> set (Outputs (RuntimeManifest r))" and cp: "unbound_copies ?outs r1 d'"
      have "k' \<noteq> name"
      proof
        assume "k' = name"
        with mem assms(2,3) have "d' = d" by (metis eq_key_imp_eq_value)
        with cp uc assms(4) show False by simp
      qed
      with nm [OF mem] show "filepath_Join (BundleOutputsDir e) (Name d') \<noteq> ?dest" by simp
    qed
    with dir fs1 res show ?thesis by simp
  qed
qed

lemma unbound_copied:
  assumes "fst (createOutputsDir e r) = None"
    and "keyed_by_name (RuntimeManifest r)"
    and "distinct (map fst (Outputs (RuntimeManifest r)))"
    and "(name, d) \<in> set (Outputs (RuntimeManifest r))"
    and "unbound_copies (GetOutputs (RuntimeManifest r)) r d"
    and "fs_lookup (FileSystem r) (Path d) = Some (RegFile c)"
    and "\<not> faulty (FileSystem r) OpRead (Path d)"
    and "\<not> faulty (FileSystem r) OpWrite (filepath_Join (BundleOutputsDir e) name)"
    and "fs_lookup (FileSystem r) (filepath_Join (BundleOutputsDir e) name) \<noteq> Some Directory"
    and "\<And>k' d'. (k', d') \<in> set (Outputs (RuntimeManifest r)) \<Longrightarrow>
           filepath_Join (BundleOutputsDir e) k' \<noteq> Path d"
  shows "fs_lookup (FileSystem (snd (applyUnboundBundleOutputs e r)))
           (filepath_Join (BundleOutputsDir e) name) = Some (RegFile c)"
proof -
  let ?dest = "filepath_Join (BundleOutputsDir e) name"
  let ?outs = "GetOutputs (RuntimeManifest r)"
  obtain r0 where c: "createOutputsDir e r = (None, r0)"
    using assms(1) by (metis prod.collapse)
  have m0: "RuntimeManifest r0 = RuntimeManifest r" using c by (rule createOutputsDir_Manifest)
  from c obtain r1 x r2 where r1: "r1 = r0\<lparr>Out := Out r1\<rparr>"
    and loop: "applyUnboundBundleOutputs_loop e (GetOutputs (RuntimeManifest r0)) (Outputs (RuntimeManifest r0)) None None r1 =
       (None, x, r2)"
    and res: "applyUnboundBundleOutputs e r = (None, r2)"
    by (rule unbound_dir_ok)
  have fs1: "FileSystem r1 = FileSystem r0" and m1: "RuntimeManifest r1 = RuntimeManifest r"
    using m0 by (subst r1, simp)+
  have look: "fs_lookup (FileSystem r1) q = fs_lookup (FileSystem r) q" if "q \<noteq> BundleOutputsDir e" for q
    using createOutputsDir_lookup_other [OF c that] fs1 by simp
  have flt: "faulty (FileSystem r1) = faulty (FileSystem r)"
    using createOutputsDir_faulty [OF c] fs1 by simp
  have uc: "unbound_copies ?outs r1 d' = unbound_copies ?outs r d'" for d'
    by (simp add: unbound_copies_def shouldApplyOutput_iff m1)
  have loop': "applyUnboundBundleOutputs_loop e ?outs (Outputs (RuntimeManifest r)) None None r1 = (None, x, r2)"
    using loop m0 by simp
  have pd: "Path d \<noteq> BundleOutputsDir e"
    using createOutputsDir_ok_dir [OF c, of c] assms(6) by auto
  have "fs_lookup (FileSystem r2) ?dest = Some (RegFile c)"
  proof (rule unbound_loop_copied [OF loop' assms(3) _ assms(4)])
    show "list_all (\<lambda>(k, d). Name d = k) (Outputs (RuntimeManifest r))"
      using assms(2) by (simp add: keyed_by_name_def)
    show "unbound_copies ?outs r1 d" unfolding uc by (rule assms(5))
    show "fs_lookup (FileSystem r1) (Path d) = Some (RegFile c)"
      using look [OF pd] assms(6) by simp
    show "\<not> faulty (FileSystem r1) OpRead (Path d)" using flt assms(7) by simp
    show "\<not> faulty (FileSystem r1) OpWrite ?dest" using flt assms(8) by simp
    show "fs_lookup (FileSystem r1) ?dest \<noteq> Some Directory" using look [of ?dest] assms(9) by simp
    show "\<And>k' d'. (k', d') \<in> set (Outputs (RuntimeManifest r)) \<Longrightarrow>
        filepath_Join (BundleOutputsDir e) k' \<noteq> Path d"
      by (rule assms(10))
  qed
  with res show ?thesis by simp
qed

text \<open>
  What the resolver does with a declared output (the declared outputs keyed by name, no
  key twice), by the tests of its loop: if the bookkeeping holds a non-empty value for
  it, or it has no path, or the action is out of its scope, its file in the bundle
  outputs directory is left as it was. Otherwise, when the directory can be ensured, the
  source is a readable regular file that is not itself the file of a declared output,
  and the destination can be written, its file in the bundle outputs directory holds the
  contents of the source after the resolver.
\<close>

lemma resolver_skips_or_copies:
  assumes "keyed_by_name (RuntimeManifest r)"
    and "distinct (map fst (Outputs (RuntimeManifest r)))"
    and "(name, d) \<in> set (Outputs (RuntimeManifest r))"
  shows "(go_index (GetOutputs (RuntimeManifest r)) name \<noteq> [] \<or> Path d = [] \<or> \<not> shouldApplyOutput r d \<longrightarrow>
            fs_lookup (FileSystem (snd (applyUnboundBundleOutputs e r)))
              (filepath_Join (BundleOutputsDir e) name) =
            fs_lookup (FileSystem r) (filepath_Join (BundleOutputsDir e) name)) \<and>
         (go_index (GetOutputs (RuntimeManifest r)) name = [] \<and> Path d \<noteq> [] \<and> shouldApplyOutput r d \<and>
          fst (createOutputsDir e r) = None \<and>
          fs_lookup (FileSystem r) (Path d) = Some (RegFile c) \<and>
          \<not> faulty (FileSystem r) OpRead (Path d) \<and>
          \<not> faulty (FileSystem r) OpWrite (filepath_Join (BundleOutputsDir e) name) \<and>
          fs_lookup (FileSystem r) (filepath_Join (BundleOutputsDir e) name) \<noteq> Some Directory \<and>
          (\<forall>k' \<in> fst ` set (Outputs (RuntimeManifest r)). filepath_Join (BundleOutputsDir e) k' \<noteq> Path d) \<longrightarrow>
            fs_lookup (FileSystem (snd (applyUnboundBundleOutputs e r)))
              (filepath_Join (BundleOutputsDir e) name) = Some (RegFile c))"
proof (intro conjI impI)
  have nm: "Name d = name"
    using assms(1,3) by (auto simp: keyed_by_name_def list_all_iff)
  {
    assume "go_index (GetOutputs (RuntimeManifest r)) name \<noteq> [] \<or> Path d = [] \<or> \<not> shouldApplyOutput r d"
    then have "\<not> unbound_copies (GetOutputs (RuntimeManifest r)) r d"
      using nm by (auto simp: unbound_copies_def)
    from unbound_skipped [OF assms this]
    show "fs_lookup (FileSystem (snd (applyUnboundBundleOutputs e r)))
              (filepath_Join (BundleOutputsDir e) name) =
            fs_lookup (FileSystem r) (filepath_Join (BundleOutputsDir e) name)" .
  }
  {
    assume h: "go_index (GetOutputs (RuntimeManifest r)) name = [] \<and> Path d \<noteq> [] \<and> shouldApplyOutput r d \<and>
          fst (createOutputsDir e r) = None \<and>
          fs_lookup (FileSystem r) (Path d) = Some (RegFile c) \<and>
          \<not> faulty (FileSystem r) OpRead (Path d) \<and>
          \<not> faulty (FileSystem r) OpWrite (filepath_Join (BundleOutputsDir e) name) \<and>
          fs_lookup (FileSystem r) (filepath_Join (BundleOutputsDir e) name) \<noteq> Some Directory \<and>
          (\<forall>k' \<in> fst ` set (Outputs (RuntimeManifest r)). filepath_Join (BundleOutputsDir e) k' \<noteq> Path d)"
    then have uc: "unbound_copies (GetOutputs (RuntimeManifest r)) r d"
      using nm by (simp add: unbound_copies_def)
    have noalias: "\<And>k' d'. (k', d') \<in> set (Outputs (RuntimeManifest r)) \<Longrightarrow>
           filepath_Join (BundleOutputsDir e) k' \<noteq> Path d"
      using h by (auto simp: image_iff)
    from h show "fs_lookup (FileSystem (snd (applyUnboundBundleOutputs e r)))
              (filepath_Join (BundleOutputsDir e) name) = Some (RegFile c)"
      by (intro unbound_copied [OF _ assms uc _ _ _ _ noalias]) simp_all
  }
qed

section \<open>The execution driver\<close>

lemma bind_calls: "calls (snd (applyStepOutputsToBundle e outs r)) = calls r"
  using bind_fields(2) [of e outs r] by (metis prod.collapse)

lemma executeStep_count:
  "count_list (calls (snd (executeStep e step r))) CallApplyUnboundBundleOutputs =
   count_list (calls r) CallApplyUnboundBundleOutputs"
proof (cases step)
  case None
  then show ?thesis by (simp add: executeStep_def)
next
  case (Some s)
  note defs = executeStep_def Let_def log_call_def println_def
  show ?thesis
  proof (cases "ResolveStep e (RuntimeManifest r) s")
    case (Inl err)
    with Some show ?thesis by (simp add: defs)
  next
    case (Inr s')
    let ?cmd = "step_command e (RuntimeManifest r) s'"
    obtain x fsm where mr: "mixins_Run e (MixinName s') ?cmd (FileSystem r) = (x, fsm)"
      by (cases "mixins_Run e (MixinName s') ?cmd (FileSystem r)")
    obtain outs y fs5 where rd: "readMixinOutputs e fsm = ((outs, y), fs5)"
      by (metis prod.exhaust)
    obtain z m6 where ap: "ApplyStepOutputs e outs (RuntimeManifest r) = (z, m6)"
      by (cases "ApplyStepOutputs e outs (RuntimeManifest r)")
    show ?thesis
      using Some Inr mr rd ap
      by (cases x; cases y; cases z; cases "Description s' = []")
         (simp_all add: defs step_command_def bind_calls)
  qed
qed

lemma Execute_steps_count:
  "count_list (calls (snd (Execute_steps e steps r))) CallApplyUnboundBundleOutputs =
   count_list (calls r) CallApplyUnboundBundleOutputs"
proof (induction steps arbitrary: r)
  case Nil
  then show ?case by simp
next
  case (Cons step rest)
  obtain x r1 where s: "executeStep e step r = (x, r1)" by (cases "executeStep e step r")
  from executeStep_count [of e step r] s
  have c: "count_list (calls r1) CallApplyUnboundBundleOutputs =
           count_list (calls r) CallApplyUnboundBundleOutputs" by simp
  show ?case
  proof (cases x)
    case None
    with s Cons.IH [of r1] c show ?thesis by simp
  next
    case (Some err)
    with s c show ?thesis by simp
  qed
qed

lemma Execute_setup_count:
  "count_list (calls (snd (Execute_setup e rm r))) CallApplyUnboundBundleOutputs =
   count_list (calls r) CallApplyUnboundBundleOutputs"
  by (simp add: Execute_setup_def Let_def println_def log_call_def
      split: option.splits prod.splits sum.splits)

lemma Execute_reached:
  "Execute_setup e rm r = (None, r0) \<Longrightarrow> Execute e rm r = Execute_run e r0"
  by (simp add: Execute_def)

text \<open>
  The loop over steps that return no error: \<open>rs\<close> lists the states, \<open>rs ! i\<close> the
  one step \<open>i\<close> starts from.
\<close>

lemma Execute_steps_run:
  "k \<le> length steps \<Longrightarrow> length rs = Suc k \<Longrightarrow> rs ! 0 = r0 \<Longrightarrow>
   (\<forall>i<k. executeStep e (steps ! i) (rs ! i) = (None, rs ! Suc i)) \<Longrightarrow>
   Execute_steps e steps r0 = Execute_steps e (drop k steps) (rs ! k)"
proof (induction k arbitrary: steps rs r0)
  case 0
  then show ?case by simp
next
  case (Suc k)
  from Suc.prems(1) obtain s ss where steps: "steps = s # ss"
    by (cases steps) auto
  from Suc.prems(2) obtain q rs' where rs: "rs = q # rs'"
    by (cases rs) auto
  from Suc.prems(3) rs have q: "q = r0" by simp
  from Suc.prems(4) [rule_format, of 0] steps rs q
  have first: "executeStep e s r0 = (None, rs' ! 0)" by simp
  have "Execute_steps e ss (rs' ! 0) = Execute_steps e (drop k ss) (rs' ! k)"
  proof (rule Suc.IH)
    show "k \<le> length ss" using Suc.prems(1) steps by simp
    show "length rs' = Suc k" using Suc.prems(2) rs by simp
    show "rs' ! 0 = rs' ! 0" ..
    show "\<forall>i<k. executeStep e (ss ! i) (rs' ! i) = (None, rs' ! Suc i)"
    proof (intro allI impI)
      fix i assume "i < k"
      with Suc.prems(4) [rule_format, of "Suc i"] steps rs
      show "executeStep e (ss ! i) (rs' ! i) = (None, rs' ! Suc i)" by simp
    qed
  qed
  with first steps rs show ?case by simp
qed

lemma Execute_steps_all_succeed:
  assumes "length rs = Suc (length steps)" and "rs ! 0 = r0"
    and "\<forall>i<length steps. executeStep e (steps ! i) (rs ! i) = (None, rs ! Suc i)"
  shows "Execute_steps e steps r0 = (None, rs ! length steps)"
  using Execute_steps_run [of "length steps" steps rs r0 e] assms by simp

lemma Execute_steps_first_failure:
  assumes "k < length steps" and "length rs = Suc k" and "rs ! 0 = r0"
    and "\<forall>i<k. executeStep e (steps ! i) (rs ! i) = (None, rs ! Suc i)"
    and "executeStep e (steps ! k) (rs ! k) = (Some err, rb)"
  shows "Execute_steps e steps r0 = (Some err, rb)"
proof -
  have "Execute_steps e steps r0 = Execute_steps e (drop k steps) (rs ! k)"
    using Execute_steps_run [of k steps rs r0 e] assms by simp
  moreover have "drop k steps = steps ! k # drop (Suc k) steps"
    using assms(1) by (simp add: Cons_nth_drop_Suc)
  ultimately show ?thesis using assms(5) by simp
qed

text \<open>
  A run that reached the step loop, in terms of the state \<open>rl\<close> the loop ended in and
  of one pass of the resolver from that state.
\<close>

lemma Execute_after_loop:
  assumes "Execute_setup e rm r = (None, r0)"
    and "Execute_steps e (GetSteps (RuntimeManifest r0)) r0 = (executionErr, rl)"
  shows "fst (Execute e rm r) = executionErr"
    and "FileSystem (snd (Execute e rm r)) =
           FileSystem (snd (applyUnboundBundleOutputs e (log_call CallApplyUnboundBundleOutputs rl)))"
    and "Out (snd (Execute e rm r)) =
           Out (snd (applyUnboundBundleOutputs e (log_call CallApplyUnboundBundleOutputs rl))) @
           (if executionErr = None then [''execution completed successfully!''] else [])"
    and "Err (snd (Execute e rm r)) =
           Err rl @
           (case fst (applyUnboundBundleOutputs e (log_call CallApplyUnboundBundleOutputs rl)) of
              None \<Rightarrow> [] | Some x \<Rightarrow> [x])"
    and "RuntimeManifest (snd (Execute e rm r)) = RuntimeManifest rl"
    and "calls (snd (Execute e rm r)) = calls rl @ [CallApplyUnboundBundleOutputs]"
proof -
  obtain resolverErr r2 where
    u: "applyUnboundBundleOutputs e (log_call CallApplyUnboundBundleOutputs rl) = (resolverErr, r2)"
    by (cases "applyUnboundBundleOutputs e (log_call CallApplyUnboundBundleOutputs rl)")
  have f: "calls r2 = calls rl @ [CallApplyUnboundBundleOutputs]" "Err r2 = Err rl"
    "RuntimeManifest r2 = RuntimeManifest rl"
    using unbound_fields [OF u] by (simp_all add: log_call_def)
  note ex = Execute_reached [OF assms(1)]
  show "fst (Execute e rm r) = executionErr"
    using ex assms(2) u by (simp add: Execute_run_def Let_def)
  show "FileSystem (snd (Execute e rm r)) =
           FileSystem (snd (applyUnboundBundleOutputs e (log_call CallApplyUnboundBundleOutputs rl)))"
    using ex assms(2) u
    by (cases resolverErr; cases executionErr) (simp_all add: Execute_run_def Let_def println_def)
  show "Out (snd (Execute e rm r)) =
           Out (snd (applyUnboundBundleOutputs e (log_call CallApplyUnboundBundleOutputs rl))) @
           (if executionErr = None then [''execution completed successfully!''] else [])"
    using ex assms(2) u
    by (cases resolverErr; cases executionErr) (simp_all add: Execute_run_def Let_def println_def)
  show "Err (snd (Execute e rm r)) =
           Err rl @
           (case fst (applyUnboundBundleOutputs e (log_call CallApplyUnboundBundleOutputs rl)) of
              None \<Rightarrow> [] | Some x \<Rightarrow> [x])"
    using ex assms(2) u f
    by (cases resolverErr; cases executionErr) (simp_all add: Execute_run_def Let_def println_def)
  show "RuntimeManifest (snd (Execute e rm r)) = RuntimeManifest rl"
    using ex assms(2) u f
    by (cases resolverErr; cases executionErr) (simp_all add: Execute_run_def Let_def println_def)
  show "calls (snd (Execute e rm r)) = calls rl @ [CallApplyUnboundBundleOutputs]"
    using ex assms(2) u f
    by (cases resolverErr; cases executionErr) (simp_all add: Execute_run_def Let_def println_def)
qed

lemma Execute_count:
  assumes "Execute_setup e rm r = (None, r0)"
  shows "count_list (calls (snd (Execute e rm r))) CallApplyUnboundBundleOutputs =
         count_list (calls r) CallApplyUnboundBundleOutputs + 1"
proof -
  obtain executionErr rl where
    loop: "Execute_steps e (GetSteps (RuntimeManifest r0)) r0 = (executionErr, rl)"
    by (cases "Execute_steps e (GetSteps (RuntimeManifest r0)) r0")
  have "count_list (calls rl) CallApplyUnboundBundleOutputs =
        count_list (calls r0) CallApplyUnboundBundleOutputs"
    using Execute_steps_count [of e "GetSteps (RuntimeManifest r0)" r0] loop by simp
  also have "\<dots> = count_list (calls r) CallApplyUnboundBundleOutputs"
    using Execute_setup_count [of e rm r] assms by simp
  finally show ?thesis
    using Execute_after_loop(6) [OF assms loop] by simp
qed

text \<open>
  Claim C2. In a run of \<open>Execute\<close> that reaches the step loop in the state \<open>r0\<close>:
  if the steps before step \<open>k\<close> return no error, each from the state the one before
  left (\<open>rs\<close> lists these states), and step \<open>k\<close> returns an error and leaves the
  state \<open>rb\<close>, then \<open>Execute\<close> returns that error, and the filesystem, the output
  and the error stream it ends with are those of one pass of
  \<open>applyUnboundBundleOutputs\<close> from \<open>rb\<close>; the manifest is that of \<open>rb\<close>.
  Nothing is resolved, invoked or read for the steps after \<open>k\<close>. If every step
  returns no error, \<open>Execute\<close> returns nil and ends with the filesystem and the
  streams of one pass of the resolver from the state the last step left, followed by the
  completion message. In both cases the calls made are those made up to the end of the
  loop followed by one pass of the resolver.
\<close>

theorem C2_stop_at_first_failure_resolver_once:
  assumes "Execute_setup e rm r = (None, r0)"
  shows "(\<forall>rs k err rb.
            k < length (GetSteps (RuntimeManifest r0)) \<and> length rs = Suc k \<and> rs ! 0 = r0 \<and>
            (\<forall>i<k. executeStep e (GetSteps (RuntimeManifest r0) ! i) (rs ! i) = (None, rs ! Suc i)) \<and>
            executeStep e (GetSteps (RuntimeManifest r0) ! k) (rs ! k) = (Some err, rb) \<longrightarrow>
            fst (Execute e rm r) = Some err \<and>
            FileSystem (snd (Execute e rm r)) =
              FileSystem (snd (applyUnboundBundleOutputs e
                                 (log_call CallApplyUnboundBundleOutputs rb))) \<and>
            Out (snd (Execute e rm r)) =
              Out (snd (applyUnboundBundleOutputs e
                          (log_call CallApplyUnboundBundleOutputs rb))) \<and>
            Err (snd (Execute e rm r)) =
              Err rb @
              (case fst (applyUnboundBundleOutputs e
                           (log_call CallApplyUnboundBundleOutputs rb)) of
                 None \<Rightarrow> [] | Some x \<Rightarrow> [x]) \<and>
            RuntimeManifest (snd (Execute e rm r)) = RuntimeManifest rb \<and>
            calls (snd (Execute e rm r)) = calls rb @ [CallApplyUnboundBundleOutputs]) \<and>
         (\<forall>rs.
            length rs = Suc (length (GetSteps (RuntimeManifest r0))) \<and> rs ! 0 = r0 \<and>
            (\<forall>i<length (GetSteps (RuntimeManifest r0)).
               executeStep e (GetSteps (RuntimeManifest r0) ! i) (rs ! i) = (None, rs ! Suc i)) \<longrightarrow>
            fst (Execute e rm r) = None \<and>
            FileSystem (snd (Execute e rm r)) =
              FileSystem (snd (applyUnboundBundleOutputs e
                 (log_call CallApplyUnboundBundleOutputs
                    (rs ! length (GetSteps (RuntimeManifest r0)))))) \<and>
            Out (snd (Execute e rm r)) =
              Out (snd (applyUnboundBundleOutputs e
                 (log_call CallApplyUnboundBundleOutputs
                    (rs ! length (GetSteps (RuntimeManifest r0)))))) @
              [''execution completed successfully!''] \<and>
            Err (snd (Execute e rm r)) =
              Err (rs ! length (GetSteps (RuntimeManifest r0))) @
              (case fst (applyUnboundBundleOutputs e
                 (log_call CallApplyUnboundBundleOutputs
                    (rs ! length (GetSteps (RuntimeManifest r0))))) of
                 None \<Rightarrow> [] | Some x \<Rightarrow> [x]) \<and>
            RuntimeManifest (snd (Execute e rm r)) =
              RuntimeManifest (rs ! length (GetSteps (RuntimeManifest r0))) \<and>
            calls (snd (Execute e rm r)) =
              calls (rs ! length (GetSteps (RuntimeManifest r0))) @ [CallApplyUnboundBundleOutputs]) \<and>
         count_list (calls (snd (Execute e rm r))) CallApplyUnboundBundleOutputs =
           count_list (calls r) CallApplyUnboundBundleOutputs + 1"
proof (intro conjI allI impI)
  let ?steps = "GetSteps (RuntimeManifest r0)"
  show "count_list (calls (snd (Execute e rm r))) CallApplyUnboundBundleOutputs =
           count_list (calls r) CallApplyUnboundBundleOutputs + 1"
    using assms by (rule Execute_count)
  {
    fix rs k err rb
    assume h: "k < length ?steps \<and> length rs = Suc k \<and> rs ! 0 = r0 \<and>
            (\<forall>i<k. executeStep e (?steps ! i) (rs ! i) = (None, rs ! Suc i)) \<and>
            executeStep e (?steps ! k) (rs ! k) = (Some err, rb)"
    then have loop: "Execute_steps e ?steps r0 = (Some err, rb)"
      by (intro Execute_steps_first_failure [of k ?steps rs r0 e err rb]) simp_all
    note a = Execute_after_loop [OF assms loop]
    show "fst (Execute e rm r) = Some err" using a(1) .
    show "FileSystem (snd (Execute e rm r)) =
              FileSystem (snd (applyUnboundBundleOutputs e
                                 (log_call CallApplyUnboundBundleOutputs rb)))" using a(2) .
    show "Out (snd (Execute e rm r)) =
              Out (snd (applyUnboundBundleOutputs e
                          (log_call CallApplyUnboundBundleOutputs rb)))" using a(3) by simp
    show "Err (snd (Execute e rm r)) =
              Err rb @
              (case fst (applyUnboundBundleOutputs e
                           (log_call CallApplyUnboundBundleOutputs rb)) of
                 None \<Rightarrow> [] | Some x \<Rightarrow> [x])" using a(4) .
    show "RuntimeManifest (snd (Execute e rm r)) = RuntimeManifest rb" using a(5) .
    show "calls (snd (Execute e rm r)) = calls rb @ [CallApplyUnboundBundleOutputs]" using a(6) .
  }
  {
    fix rs
    assume h: "length rs = Suc (length ?steps) \<and> rs ! 0 = r0 \<and>
            (\<forall>i<length ?steps. executeStep e (?steps ! i) (rs ! i) = (None, rs ! Suc i))"
    then have loop: "Execute_steps e ?steps r0 = (None, rs ! length ?steps)"
      by (intro Execute_steps_all_succeed) simp_all
    note a = Execute_after_loop [OF assms loop]
    show "fst (Execute e rm r) = None" using a(1) .
    show "FileSystem (snd (Execute e rm r)) =
              FileSystem (snd (applyUnboundBundleOutputs e
                 (log_call CallApplyUnboundBundleOutputs (rs ! length ?steps))))" using a(2) .
    show "Out (snd (Execute e rm r)) =
              Out (snd (applyUnboundBundleOutputs e
                 (log_call CallApplyUnboundBundleOutputs (rs ! length ?steps)))) @
              [''execution completed successfully!'']" using a(3) by simp
    show "Err (snd (Execute e rm r)) =
              Err (rs ! length ?steps) @
              (case fst (applyUnboundBundleOutputs e
                 (log_call CallApplyUnboundBundleOutputs (rs ! length ?steps))) of
                 None \<Rightarrow> [] | Some x \<Rightarrow> [x])" using a(4) .
    show "RuntimeManifest (snd (Execute e rm r)) = RuntimeManifest (rs ! length ?steps)"
      using a(5) .
    show "calls (snd (Execute e rm r)) =
              calls (rs ! length ?steps) @ [CallApplyUnboundBundleOutputs]" using a(6) .
  }
qed

text \<open>
  Claim C3, amended. In a run of \<open>Execute\<close> that reaches the step loop in the state
  \<open>r0\<close>: if step \<open>k\<close> is the first that returns an error (the steps before it
  return none, each from the state the one before left), \<open>Execute\<close> returns that
  error; if every step returns no error, \<open>Execute\<close> returns nil. In both cases the
  resolver's result changes nothing but the error stream, to which its error is appended
  when it is not nil.
\<close>

theorem C3_resolver_error_only_logged:
  assumes "Execute_setup e rm r = (None, r0)"
  shows "(\<forall>rs k err rb.
            k < length (GetSteps (RuntimeManifest r0)) \<and> length rs = Suc k \<and> rs ! 0 = r0 \<and>
            (\<forall>i<k. executeStep e (GetSteps (RuntimeManifest r0) ! i) (rs ! i) = (None, rs ! Suc i)) \<and>
            executeStep e (GetSteps (RuntimeManifest r0) ! k) (rs ! k) = (Some err, rb) \<longrightarrow>
            fst (Execute e rm r) = Some err \<and>
            Err (snd (Execute e rm r)) =
              Err rb @
              (case fst (applyUnboundBundleOutputs e (log_call CallApplyUnboundBundleOutputs rb)) of
                 None \<Rightarrow> [] | Some x \<Rightarrow> [x])) \<and>
         (\<forall>rs.
            length rs = Suc (length (GetSteps (RuntimeManifest r0))) \<and> rs ! 0 = r0 \<and>
            (\<forall>i<length (GetSteps (RuntimeManifest r0)).
               executeStep e (GetSteps (RuntimeManifest r0) ! i) (rs ! i) = (None, rs ! Suc i)) \<longrightarrow>
            fst (Execute e rm r) = None \<and>
            Err (snd (Execute e rm r)) =
              Err (rs ! length (GetSteps (RuntimeManifest r0))) @
              (case fst (applyUnboundBundleOutputs e
                 (log_call CallApplyUnboundBundleOutputs
                    (rs ! length (GetSteps (RuntimeManifest r0))))) of
                 None \<Rightarrow> [] | Some x \<Rightarrow> [x]))"
proof (intro conjI allI impI)
  let ?steps = "GetSteps (RuntimeManifest r0)"
  {
    fix rs k err rb
    assume h: "k < length ?steps \<and> length rs = Suc k \<and> rs ! 0 = r0 \<and>
            (\<forall>i<k. executeStep e (?steps ! i) (rs ! i) = (None, rs ! Suc i)) \<and>
            executeStep e (?steps ! k) (rs ! k) = (Some err, rb)"
    then have loop: "Execute_steps e ?steps r0 = (Some err, rb)"
      by (intro Execute_steps_first_failure [of k ?steps rs r0 e err rb]) simp_all
    note a = Execute_after_loop [OF assms loop]
    show "fst (Execute e rm r) = Some err" using a(1) .
    show "Err (snd (Execute e rm r)) =
              Err rb @
              (case fst (applyUnboundBundleOutputs e (log_call CallApplyUnboundBundleOutputs rb)) of
                 None \<Rightarrow> [] | Some x \<Rightarrow> [x])" using a(4) .
  }
  {
    fix rs
    assume h: "length rs = Suc (length ?steps) \<and> rs ! 0 = r0 \<and>
            (\<forall>i<length ?steps. executeStep e (?steps ! i) (rs ! i) = (None, rs ! Suc i))"
    then have loop: "Execute_steps e ?steps r0 = (None, rs ! length ?steps)"
      by (intro Execute_steps_all_succeed) simp_all
    note a = Execute_after_loop [OF assms loop]
    show "fst (Execute e rm r) = None" using a(1) .
    show "Err (snd (Execute e rm r)) =
              Err (rs ! length ?steps) @
              (case fst (applyUnboundBundleOutputs e
                 (log_call CallApplyUnboundBundleOutputs (rs ! length ?steps))) of
                 None \<Rightarrow> [] | Some x \<Rightarrow> [x])" using a(4) .
  }
qed

lemma Execute_images_failed:
  assumes "Validate e rm = None"
    and "Prepare e rm (FileSystem r) = (None, fs2)"
    and "getImageMappingFiles e fs2 = Inl err"
  shows "fst (Execute e rm r) = Some err \<and> FileSystem (snd (Execute e rm r)) = fs2 \<and>
         calls (snd (Execute e rm r)) = calls r"
  using assms
  by (simp add: Execute_def Execute_setup_def Let_def println_def)

lemma Execute_setup_images_loaded:
  assumes "Validate e rm = None"
    and "Prepare e rm (FileSystem r) = (None, fs2)"
    and "getImageMappingFiles e fs2 = Inr (b, m)"
  shows "calls (snd (Execute_setup e rm r)) = calls r @ [CallResolveImages b m] \<and>
         (ResolveImages e rm b m = None \<and> fst (MkdirAll (MixinOutputsDir e) fs2) = None \<longrightarrow>
            fst (Execute_setup e rm r) = None)"
  using assms
  by (auto simp: Execute_setup_def Let_def println_def log_call_def
      split: option.splits prod.splits)

lemma Execute_resolve_failed:
  assumes "Validate e rm = None"
    and "Prepare e rm (FileSystem r) = (None, fs2)"
    and "getImageMappingFiles e fs2 = Inr (b, m)"
    and "ResolveImages e rm b m = Some x"
  shows "fst (Execute e rm r) = Some (Wrap x ''unable to resolve bundle images'') \<and>
         FileSystem (snd (Execute e rm r)) = fs2"
  using assms
  by (simp add: Execute_def Execute_setup_def Let_def println_def log_call_def)

text \<open>
  Claim C7, amended. After \<open>Validate\<close> and \<open>Prepare\<close> have succeeded: \<open>Stat\<close>
  returns an error for a relocation mapping file that is not there. When the bundle file
  is read and loaded and \<open>Stat\<close> returns an error for the relocation mapping file,
  because it is not there or for any other reason, the image mapping files are the
  bundle and the empty map, and \<open>ResolveImages\<close> is called with them: if it returns
  an error, \<open>Execute\<close> returns that error wrapped; if it returns none and the mixin
  outputs directory can be created, the run goes on to the step loop. When the bundle
  file cannot be read or loaded, or \<open>Stat\<close> finds the relocation mapping file and
  the file cannot be read or parsed, \<open>Execute\<close> returns the wrapped error, on the
  filesystem \<open>Prepare\<close> left, and has called nothing.
\<close>

theorem C7_relocation_file_optional:
  assumes "Validate e rm = None"
    and "Prepare e rm (FileSystem r) = (None, fs2)"
  shows "(fs_lookup fs2 ''/cnab/app/relocation-mapping.json'' = None \<longrightarrow>
            Stat ''/cnab/app/relocation-mapping.json'' fs2 \<noteq> None) \<and>
         (\<forall>bunBytes rtb.
            ReadFile ''/cnab/bundle.json'' fs2 = Inr bunBytes \<and> LoadData e bunBytes = Inr rtb \<and>
            Stat ''/cnab/app/relocation-mapping.json'' fs2 \<noteq> None \<longrightarrow>
            getImageMappingFiles e fs2 = Inr (rtb, []) \<and>
            calls (snd (Execute_setup e rm r)) = calls r @ [CallResolveImages rtb []] \<and>
            (\<forall>x. ResolveImages e rm rtb [] = Some x \<longrightarrow>
               fst (Execute e rm r) = Some (Wrap x ''unable to resolve bundle images'') \<and>
               FileSystem (snd (Execute e rm r)) = fs2) \<and>
            (ResolveImages e rm rtb [] = None \<and> fst (MkdirAll (MixinOutputsDir e) fs2) = None \<longrightarrow>
               fst (Execute_setup e rm r) = None \<and>
               Execute e rm r = Execute_run e (snd (Execute_setup e rm r)))) \<and>
         (\<forall>x. ReadFile ''/cnab/bundle.json'' fs2 = Inl x \<longrightarrow>
            fst (Execute e rm r) = Some (Wrap x ''couldn't read runtime bundle.json'') \<and>
            FileSystem (snd (Execute e rm r)) = fs2 \<and>
            calls (snd (Execute e rm r)) = calls r) \<and>
         (\<forall>bunBytes x.
            ReadFile ''/cnab/bundle.json'' fs2 = Inr bunBytes \<and> LoadData e bunBytes = Inl x \<longrightarrow>
            fst (Execute e rm r) = Some (Wrap x ''couldn't load runtime bundle.json'') \<and>
            FileSystem (snd (Execute e rm r)) = fs2 \<and>
            calls (snd (Execute e rm r)) = calls r) \<and>
         (\<forall>bunBytes rtb x.
            ReadFile ''/cnab/bundle.json'' fs2 = Inr bunBytes \<and> LoadData e bunBytes = Inr rtb \<and>
            Stat ''/cnab/app/relocation-mapping.json'' fs2 = None \<and>
            ReadFile ''/cnab/app/relocation-mapping.json'' fs2 = Inl x \<longrightarrow>
            fst (Execute e rm r) = Some (Wrap x ''couldn't read relocation file'') \<and>
            FileSystem (snd (Execute e rm r)) = fs2 \<and>
            calls (snd (Execute e rm r)) = calls r) \<and>
         (\<forall>bunBytes rtb reloBytes x.
            ReadFile ''/cnab/bundle.json'' fs2 = Inr bunBytes \<and> LoadData e bunBytes = Inr rtb \<and>
            Stat ''/cnab/app/relocation-mapping.json'' fs2 = None \<and>
            ReadFile ''/cnab/app/relocation-mapping.json'' fs2 = Inr reloBytes \<and>
            json_Unmarshal e reloBytes = Inl x \<longrightarrow>
            fst (Execute e rm r) = Some (Wrap x ''couldn't load relocation file'') \<and>
            FileSystem (snd (Execute e rm r)) = fs2 \<and>
            calls (snd (Execute e rm r)) = calls r)"
proof (intro conjI allI impI)
  assume "fs_lookup fs2 ''/cnab/app/relocation-mapping.json'' = None"
  then show "Stat ''/cnab/app/relocation-mapping.json'' fs2 \<noteq> None"
    by (simp add: Stat_def)
next
  fix bunBytes rtb
  assume h: "ReadFile ''/cnab/bundle.json'' fs2 = Inr bunBytes \<and> LoadData e bunBytes = Inr rtb \<and>
            Stat ''/cnab/app/relocation-mapping.json'' fs2 \<noteq> None"
  then show g: "getImageMappingFiles e fs2 = Inr (rtb, [])"
    by (auto simp: getImageMappingFiles_def)
  from Execute_setup_images_loaded [OF assms g]
  show "calls (snd (Execute_setup e rm r)) = calls r @ [CallResolveImages rtb []]" by simp
  {
    fix x
    assume "ResolveImages e rm rtb [] = Some x"
    from Execute_resolve_failed [OF assms g this]
    show "fst (Execute e rm r) = Some (Wrap x ''unable to resolve bundle images'')"
      and "FileSystem (snd (Execute e rm r)) = fs2" by simp_all
  }
  assume "ResolveImages e rm rtb [] = None \<and> fst (MkdirAll (MixinOutputsDir e) fs2) = None"
  with Execute_setup_images_loaded [OF assms g]
  show s: "fst (Execute_setup e rm r) = None" by simp
  then have "Execute_setup e rm r = (None, snd (Execute_setup e rm r))"
    by (metis prod.collapse)
  then show "Execute e rm r = Execute_run e (snd (Execute_setup e rm r))"
    by (rule Execute_reached)
next
  fix x
  assume "ReadFile ''/cnab/bundle.json'' fs2 = Inl x"
  then have g: "getImageMappingFiles e fs2 = Inl (Wrap x ''couldn't read runtime bundle.json'')"
    by (simp add: getImageMappingFiles_def)
  from Execute_images_failed [OF assms g]
  show "fst (Execute e rm r) = Some (Wrap x ''couldn't read runtime bundle.json'')"
    and "FileSystem (snd (Execute e rm r)) = fs2"
    and "calls (snd (Execute e rm r)) = calls r" by simp_all
next
  fix bunBytes x
  assume "ReadFile ''/cnab/bundle.json'' fs2 = Inr bunBytes \<and> LoadData e bunBytes = Inl x"
  then have g: "getImageMappingFiles e fs2 = Inl (Wrap x ''couldn't load runtime bundle.json'')"
    by (simp add: getImageMappingFiles_def)
  from Execute_images_failed [OF assms g]
  show "fst (Execute e rm r) = Some (Wrap x ''couldn't load runtime bundle.json'')"
    and "FileSystem (snd (Execute e rm r)) = fs2"
    and "calls (snd (Execute e rm r)) = calls r" by simp_all
next
  fix bunBytes rtb x
  assume "ReadFile ''/cnab/bundle.json'' fs2 = Inr bunBytes \<and> LoadData e bunBytes = Inr rtb \<and>
            Stat ''/cnab/app/relocation-mapping.json'' fs2 = None \<and>
            ReadFile ''/cnab/app/relocation-mapping.json'' fs2 = Inl x"
  then have g: "getImageMappingFiles e fs2 = Inl (Wrap x ''couldn't read relocation file'')"
    by (simp add: getImageMappingFiles_def)
  from Execute_images_failed [OF assms g]
  show "fst (Execute e rm r) = Some (Wrap x ''couldn't read relocation file'')"
    and "FileSystem (snd (Execute e rm r)) = fs2"
    and "calls (snd (Execute e rm r)) = calls r" by simp_all
next
  fix bunBytes rtb reloBytes x
  assume "ReadFile ''/cnab/bundle.json'' fs2 = Inr bunBytes \<and> LoadData e bunBytes = Inr rtb \<and>
            Stat ''/cnab/app/relocation-mapping.json'' fs2 = None \<and>
            ReadFile ''/cnab/app/relocation-mapping.json'' fs2 = Inr reloBytes \<and>
            json_Unmarshal e reloBytes = Inl x"
  then have g: "getImageMappingFiles e fs2 = Inl (Wrap x ''couldn't load relocation file'')"
    by (simp add: getImageMappingFiles_def)
  from Execute_images_failed [OF assms g]
  show "fst (Execute e rm r) = Some (Wrap x ''couldn't load relocation file'')"
    and "FileSystem (snd (Execute e rm r)) = fs2"
    and "calls (snd (Execute e rm r)) = calls r" by simp_all
qed

section \<open>Runs on example inputs\<close>

lemmas execute_defs = Execute_def Execute_setup_def Execute_run_def getImageMappingFiles_def
  applyUnboundBundleOutputs_def GetSteps_def GetOutputs_def go_index_def ErrorOrNil_def
  bundle_fs_def ok_step_def bad_step_def steps_manifest_def failing_env_def invalid_env_def
  copy_manifest_def

text \<open>
  Three steps, the second of which fails, and a declared output \<open>a\<close> read from a
  file: \<open>Execute\<close> returns the second step's error, the output holds the description
  of the first step and one line of the resolver but not the description of the third
  step, and the resolver copied \<open>a\<close>. With the two steps that succeed: both
  descriptions, one line of the resolver and the completion message.
\<close>

theorem C2_stop_at_first_failure_resolver_once_witness:
  "fst (Execute failing_env (copy_manifest [Some ok_step, Some bad_step, Some db_step])
          (runtime_on (steps_manifest []) (bundle_fs [(''/tmp/a'', RegFile ''va'')]))) =
     Some (Wrap (Failure ''exit status 1'') ''mixin execution failed'') \<and>
   Out (snd (Execute failing_env (copy_manifest [Some ok_step, Some bad_step, Some db_step])
          (runtime_on (steps_manifest []) (bundle_fs [(''/tmp/a'', RegFile ''va'')])))) =
     [''executing install action from  (installation: )'', ''Prepare'',
      ''Collecting bundle outputs...''] \<and>
   fs_lookup (FileSystem (snd (Execute failing_env
          (copy_manifest [Some ok_step, Some bad_step, Some db_step])
          (runtime_on (steps_manifest []) (bundle_fs [(''/tmp/a'', RegFile ''va'')])))))
     ''/cnab/app/outputs/a'' = Some (RegFile ''va'') \<and>
   count_list (calls (snd (Execute failing_env
          (copy_manifest [Some ok_step, Some bad_step, Some db_step])
          (runtime_on (steps_manifest []) (bundle_fs [(''/tmp/a'', RegFile ''va'')])))))
     CallApplyUnboundBundleOutputs = 1 \<and>
   fst (Execute failing_env (copy_manifest [Some ok_step, Some db_step])
          (runtime_on (steps_manifest []) (bundle_fs [(''/tmp/a'', RegFile ''va'')]))) = None \<and>
   Out (snd (Execute failing_env (copy_manifest [Some ok_step, Some db_step])
          (runtime_on (steps_manifest []) (bundle_fs [(''/tmp/a'', RegFile ''va'')])))) =
     [''executing install action from  (installation: )'', ''Prepare'', ''Install DB'',
      ''Collecting bundle outputs...'', ''execution completed successfully!''] \<and>
   fs_lookup (FileSystem (snd (Execute failing_env (copy_manifest [Some ok_step, Some db_step])
          (runtime_on (steps_manifest []) (bundle_fs [(''/tmp/a'', RegFile ''va'')])))))
     ''/cnab/app/outputs/a'' = Some (RegFile ''va'')"
proof -
  let ?r = "runtime_on (steps_manifest []) (bundle_fs [(''/tmp/a'', RegFile ''va'')])"
  let ?err = "Wrap (Failure ''exit status 1'') ''mixin execution failed''"
  let ?fs0 = "\<lparr>nodes = [(''/cnab/bundle.json'', RegFile ''{}''), (''/tmp/a'', RegFile ''va''),
                        (''/cnab/app/porter/outputs'', Directory)],
               faulty = no_faults\<rparr>"
  note defs = db_defs step_defs fs_defs run_defs execute_defs Let_def
  have nocalls: "calls ?r = []" by (simp add: runtime_on_def)
  have first: "fst (Execute failing_env (copy_manifest [Some ok_step, Some bad_step, Some db_step]) ?r) =
      Some ?err \<and>
    Out (snd (Execute failing_env (copy_manifest [Some ok_step, Some bad_step, Some db_step]) ?r)) =
      [''executing install action from  (installation: )'', ''Prepare'',
       ''Collecting bundle outputs...''] \<and>
    fs_lookup (FileSystem (snd (Execute failing_env
        (copy_manifest [Some ok_step, Some bad_step, Some db_step]) ?r)))
      ''/cnab/app/outputs/a'' = Some (RegFile ''va'') \<and>
    count_list (calls (snd (Execute failing_env
        (copy_manifest [Some ok_step, Some bad_step, Some db_step]) ?r)))
      CallApplyUnboundBundleOutputs = 1"
  proof -
    let ?rm = "copy_manifest [Some ok_step, Some bad_step, Some db_step]"
    define r0 where "r0 = snd (Execute_setup failing_env ?rm ?r)"
    define ra where "ra = snd (executeStep failing_env (Some ok_step) r0)"
    define rb where "rb = snd (executeStep failing_env (Some bad_step) ra)"
    have r0: "r0 = \<lparr>FileSystem = ?fs0,
                   Out = [''executing install action from  (installation: )''], Err = [],
                   SensitiveValues = [], RuntimeManifest = ?rm,
                   calls = [CallResolveImages (Bundle ''{}'') []]\<rparr>"
      unfolding r0_def by (simp add: defs)
    have reach: "Execute_setup failing_env ?rm ?r = (None, r0)"
      unfolding r0_def by (simp add: defs)
    have steps: "GetSteps (RuntimeManifest r0) = [Some ok_step, Some bad_step, Some db_step]"
      by (simp add: r0 GetSteps_def copy_manifest_def)
    have ra: "FileSystem ra = ?fs0\<lparr>nodes := nodes ?fs0 @ [(''/cnab/app/outputs'', Directory)]\<rparr>"
      "Out ra = [''executing install action from  (installation: )'', ''Prepare'']"
      "RuntimeManifest ra = ?rm"
      unfolding ra_def by (simp_all add: r0 defs)
    have ok: "executeStep failing_env (Some ok_step) r0 = (None, ra)"
      unfolding ra_def by (simp add: r0 defs)
    have fails: "executeStep failing_env (Some bad_step) ra = (Some ?err, rb)"
      unfolding rb_def by (simp add: ra defs)
    have rb: "FileSystem rb = FileSystem ra" "Out rb = Out ra" "RuntimeManifest rb = ?rm"
      unfolding rb_def by (simp_all add: ra defs)
    have hyp: "Suc 0 < length (GetSteps (RuntimeManifest r0)) \<and> length [r0, ra] = Suc (Suc 0) \<and>
        [r0, ra] ! 0 = r0 \<and>
        (\<forall>i<Suc 0. executeStep failing_env (GetSteps (RuntimeManifest r0) ! i) ([r0, ra] ! i) =
                      (None, [r0, ra] ! Suc i)) \<and>
        executeStep failing_env (GetSteps (RuntimeManifest r0) ! Suc 0) ([r0, ra] ! Suc 0) =
          (Some ?err, rb)"
      using ok fails by (simp add: steps)
    have res: "Out (snd (applyUnboundBundleOutputs failing_env
                           (log_call CallApplyUnboundBundleOutputs rb))) =
                 [''executing install action from  (installation: )'', ''Prepare'',
                  ''Collecting bundle outputs...'']"
      "fs_lookup (FileSystem (snd (applyUnboundBundleOutputs failing_env
                           (log_call CallApplyUnboundBundleOutputs rb))))
         ''/cnab/app/outputs/a'' = Some (RegFile ''va'')"
      by (simp_all add: rb ra defs)
    note inst = C2_stop_at_first_failure_resolver_once [OF reach]
    from inst hyp have "fst (Execute failing_env ?rm ?r) = Some ?err \<and>
        FileSystem (snd (Execute failing_env ?rm ?r)) =
          FileSystem (snd (applyUnboundBundleOutputs failing_env
                             (log_call CallApplyUnboundBundleOutputs rb))) \<and>
        Out (snd (Execute failing_env ?rm ?r)) =
          Out (snd (applyUnboundBundleOutputs failing_env
                      (log_call CallApplyUnboundBundleOutputs rb)))"
      by blast
    moreover from inst have "count_list (calls (snd (Execute failing_env ?rm ?r)))
          CallApplyUnboundBundleOutputs =
        count_list (calls ?r) CallApplyUnboundBundleOutputs + 1"
      by blast
    ultimately show ?thesis using res nocalls by simp
  qed
  have second: "fst (Execute failing_env (copy_manifest [Some ok_step, Some db_step]) ?r) = None \<and>
    Out (snd (Execute failing_env (copy_manifest [Some ok_step, Some db_step]) ?r)) =
      [''executing install action from  (installation: )'', ''Prepare'', ''Install DB'',
       ''Collecting bundle outputs...'', ''execution completed successfully!''] \<and>
    fs_lookup (FileSystem (snd (Execute failing_env (copy_manifest [Some ok_step, Some db_step]) ?r)))
      ''/cnab/app/outputs/a'' = Some (RegFile ''va'')"
  proof -
    let ?rm = "copy_manifest [Some ok_step, Some db_step]"
    define r0 where "r0 = snd (Execute_setup failing_env ?rm ?r)"
    define ra where "ra = snd (executeStep failing_env (Some ok_step) r0)"
    define rb where "rb = snd (executeStep failing_env (Some db_step) ra)"
    have r0: "r0 = \<lparr>FileSystem = ?fs0,
                   Out = [''executing install action from  (installation: )''], Err = [],
                   SensitiveValues = [], RuntimeManifest = ?rm,
                   calls = [CallResolveImages (Bundle ''{}'') []]\<rparr>"
      unfolding r0_def by (simp add: defs)
    have reach: "Execute_setup failing_env ?rm ?r = (None, r0)"
      unfolding r0_def by (simp add: defs)
    have steps: "GetSteps (RuntimeManifest r0) = [Some ok_step, Some db_step]"
      by (simp add: r0 GetSteps_def copy_manifest_def)
    have ra: "FileSystem ra = ?fs0\<lparr>nodes := nodes ?fs0 @ [(''/cnab/app/outputs'', Directory)]\<rparr>"
      "Out ra = [''executing install action from  (installation: )'', ''Prepare'']"
      "RuntimeManifest ra = ?rm"
      unfolding ra_def by (simp_all add: r0 defs)
    have ok: "executeStep failing_env (Some ok_step) r0 = (None, ra)"
      unfolding ra_def by (simp add: r0 defs)
    have ok2: "executeStep failing_env (Some db_step) ra = (None, rb)"
      unfolding rb_def by (simp add: ra defs)
    have rb: "FileSystem rb = FileSystem ra"
      "Out rb = [''executing install action from  (installation: )'', ''Prepare'', ''Install DB'']"
      "RuntimeManifest rb = ?rm"
      unfolding rb_def by (simp_all add: ra defs)
    have hyp: "length [r0, ra, rb] = Suc (length (GetSteps (RuntimeManifest r0))) \<and>
        [r0, ra, rb] ! 0 = r0 \<and>
        (\<forall>i<length (GetSteps (RuntimeManifest r0)).
           executeStep failing_env (GetSteps (RuntimeManifest r0) ! i) ([r0, ra, rb] ! i) =
             (None, [r0, ra, rb] ! Suc i))"
      using ok ok2 by (simp add: steps All_less_Suc)
    have last: "[r0, ra, rb] ! length (GetSteps (RuntimeManifest r0)) = rb"
      by (simp add: steps)
    have res: "Out (snd (applyUnboundBundleOutputs failing_env
                           (log_call CallApplyUnboundBundleOutputs rb))) =
                 [''executing install action from  (installation: )'', ''Prepare'', ''Install DB'',
                  ''Collecting bundle outputs...'']"
      "fs_lookup (FileSystem (snd (applyUnboundBundleOutputs failing_env
                           (log_call CallApplyUnboundBundleOutputs rb))))
         ''/cnab/app/outputs/a'' = Some (RegFile ''va'')"
      by (simp_all add: rb ra defs)
    note inst = C2_stop_at_first_failure_resolver_once [OF reach]
    from inst hyp have "fst (Execute failing_env ?rm ?r) = None \<and>
        FileSystem (snd (Execute failing_env ?rm ?r)) =
          FileSystem (snd (applyUnboundBundleOutputs failing_env
             (log_call CallApplyUnboundBundleOutputs
                ([r0, ra, rb] ! length (GetSteps (RuntimeManifest r0)))))) \<and>
        Out (snd (Execute failing_env ?rm ?r)) =
          Out (snd (applyUnboundBundleOutputs failing_env
             (log_call CallApplyUnboundBundleOutputs
                ([r0, ra, rb] ! length (GetSteps (RuntimeManifest r0)))))) @
          [''execution completed successfully!'']"
      by blast
    then show ?thesis unfolding last using res by simp
  qed
  from first second show ?thesis by simp
qed

lemmas resolver_defs = state_env_def state_manifest_def state_fs_def bound_manifest_def
  bound_fs_def

text \<open>
  Claim C1. The resolver is to return an aggregate of every copy failure. Here two
  declared outputs have a path, are in scope and were produced by no step, and neither
  source file exists. Each copy fails and the loop goes on to the next output, but it
  leaves \<open>bigErr\<close> nil: the result of \<open>multierror.Append\<close> is assigned to
  \<open>err\<close>, which after the loop holds the last failure alone and is not read again.
  The resolver returns \<open>bigErr.ErrorOrNil()\<close>, which is nil.
\<close>

theorem C1_copy_failures_not_reported:
  "fst (CopyFile ''/tmp/a'' ''/cnab/app/outputs/a''
          (FileSystem (snd (createOutputsDir porter_env (runtime0 two_unbound []))))) =
     Some (IOError OpRead ''/tmp/a'') \<and>
   fst (CopyFile ''/tmp/b'' ''/cnab/app/outputs/b''
          (FileSystem (snd (createOutputsDir porter_env (runtime0 two_unbound []))))) =
     Some (IOError OpRead ''/tmp/b'') \<and>
   fst (applyUnboundBundleOutputs_loop porter_env (GetOutputs two_unbound) (Outputs two_unbound)
          None None
          (println ''Collecting bundle outputs...''
             (snd (createOutputsDir porter_env (runtime0 two_unbound []))))) = None \<and>
   fst (snd (applyUnboundBundleOutputs_loop porter_env (GetOutputs two_unbound)
          (Outputs two_unbound) None None
          (println ''Collecting bundle outputs...''
             (snd (createOutputsDir porter_env (runtime0 two_unbound [])))))) =
     Some (MultiError
        [Wrap (IOError OpRead ''/tmp/b'')
           ''unable to copy output file from /tmp/b to /cnab/app/outputs/b'']) \<and>
   fst (applyUnboundBundleOutputs porter_env (runtime0 two_unbound [])) = None"
  by (simp add: example_defs fs_defs applyUnboundBundleOutputs_def createOutputsDir_def
      println_def GetOutputs_def go_index_def shouldApplyOutput_def ErrorOrNil_def
      multierror_Append_def)

text \<open>
  Claim C3 as stated is about every execution. When \<open>Validate\<close> fails,
  \<open>Execute\<close> returns its error before any step is executed: the error returned is
  neither nil nor the error of a step.
\<close>

theorem C3_counterexample:
  "fst (Execute invalid_env (db_manifest ''install'')
          (runtime_on (db_manifest ''install'') (bundle_fs []))) =
     Some (Failure ''invalid manifest'') \<and>
   calls (snd (Execute invalid_env (db_manifest ''install'')
          (runtime_on (db_manifest ''install'') (bundle_fs [])))) = []"
  by (simp add: db_defs step_defs execute_defs Let_def)

text \<open>
  The bundle outputs directory cannot be created, so the resolver returns an error. With
  one step that fails, \<open>Execute\<close> returns the step's error; with no step at all, it
  returns nil; in both runs the resolver's error is on the error stream. With one step
  that succeeds and a directory that can be created, it returns nil and the error stream
  is empty.
\<close>

theorem C3_resolver_error_only_logged_witness:
  "fst (Execute failing_env (steps_manifest [Some bad_step])
          (runtime_on (steps_manifest []) (bundle_fs [(''/cnab/app/outputs'', RegFile ''x'')]))) =
     Some (Wrap (Failure ''exit status 1'') ''mixin execution failed'') \<and>
   Err (snd (Execute failing_env (steps_manifest [Some bad_step])
          (runtime_on (steps_manifest []) (bundle_fs [(''/cnab/app/outputs'', RegFile ''x'')])))) =
     [Wrap (IOError OpMkdir ''/cnab/app/outputs'')
        ''unable to ensure CNAB outputs directory exists''] \<and>
   fst (Execute failing_env (steps_manifest [])
          (runtime_on (steps_manifest []) (bundle_fs [(''/cnab/app/outputs'', RegFile ''x'')]))) =
     None \<and>
   Err (snd (Execute failing_env (steps_manifest [])
          (runtime_on (steps_manifest []) (bundle_fs [(''/cnab/app/outputs'', RegFile ''x'')])))) =
     [Wrap (IOError OpMkdir ''/cnab/app/outputs'')
        ''unable to ensure CNAB outputs directory exists''] \<and>
   fst (Execute failing_env (steps_manifest [Some ok_step])
          (runtime_on (steps_manifest []) (bundle_fs []))) = None \<and>
   Err (snd (Execute failing_env (steps_manifest [Some ok_step])
          (runtime_on (steps_manifest []) (bundle_fs [])))) = []"
proof -
  let ?r = "runtime_on (steps_manifest []) (bundle_fs [(''/cnab/app/outputs'', RegFile ''x'')])"
  let ?q = "runtime_on (steps_manifest []) (bundle_fs [])"
  let ?err = "Wrap (Failure ''exit status 1'') ''mixin execution failed''"
  let ?dir = "Wrap (IOError OpMkdir ''/cnab/app/outputs'')
                ''unable to ensure CNAB outputs directory exists''"
  let ?fs0 = "\<lparr>nodes = [(''/cnab/bundle.json'', RegFile ''{}''),
                        (''/cnab/app/outputs'', RegFile ''x''),
                        (''/cnab/app/porter/outputs'', Directory)],
               faulty = no_faults\<rparr>"
  note defs = db_defs step_defs fs_defs run_defs execute_defs Let_def
  have failed: "fst (Execute failing_env (steps_manifest [Some bad_step]) ?r) = Some ?err \<and>
    Err (snd (Execute failing_env (steps_manifest [Some bad_step]) ?r)) = [?dir]"
  proof -
    let ?rm = "steps_manifest [Some bad_step]"
    define r0 where "r0 = snd (Execute_setup failing_env ?rm ?r)"
    define rb where "rb = snd (executeStep failing_env (Some bad_step) r0)"
    have r0: "r0 = \<lparr>FileSystem = ?fs0,
                   Out = [''executing install action from  (installation: )''], Err = [],
                   SensitiveValues = [], RuntimeManifest = ?rm,
                   calls = [CallResolveImages (Bundle ''{}'') []]\<rparr>"
      unfolding r0_def by (simp add: defs)
    have reach: "Execute_setup failing_env ?rm ?r = (None, r0)"
      unfolding r0_def by (simp add: defs)
    have steps: "GetSteps (RuntimeManifest r0) = [Some bad_step]"
      by (simp add: r0 GetSteps_def steps_manifest_def)
    have fails: "executeStep failing_env (Some bad_step) r0 = (Some ?err, rb)"
      unfolding rb_def by (simp add: r0 defs)
    have rb: "FileSystem rb = ?fs0" "Err rb = []" "RuntimeManifest rb = ?rm"
      unfolding rb_def by (simp_all add: r0 defs)
    have hyp: "0 < length (GetSteps (RuntimeManifest r0)) \<and> length [r0] = Suc 0 \<and>
        [r0] ! 0 = r0 \<and>
        (\<forall>i<0. executeStep failing_env (GetSteps (RuntimeManifest r0) ! i) ([r0] ! i) =
                  (None, [r0] ! Suc i)) \<and>
        executeStep failing_env (GetSteps (RuntimeManifest r0) ! 0) ([r0] ! 0) = (Some ?err, rb)"
      using fails by (simp add: steps)
    have res: "fst (applyUnboundBundleOutputs failing_env
                      (log_call CallApplyUnboundBundleOutputs rb)) = Some ?dir"
      by (simp add: rb defs)
    from C3_resolver_error_only_logged [OF reach] hyp
    have "fst (Execute failing_env ?rm ?r) = Some ?err \<and>
        Err (snd (Execute failing_env ?rm ?r)) =
          Err rb @
          (case fst (applyUnboundBundleOutputs failing_env
                       (log_call CallApplyUnboundBundleOutputs rb)) of
             None \<Rightarrow> [] | Some x \<Rightarrow> [x])"
      by blast
    then show ?thesis by (simp add: res rb)
  qed
  have empty: "fst (Execute failing_env (steps_manifest []) ?r) = None \<and>
    Err (snd (Execute failing_env (steps_manifest []) ?r)) = [?dir]"
  proof -
    let ?rm = "steps_manifest []"
    define r0 where "r0 = snd (Execute_setup failing_env ?rm ?r)"
    have r0: "r0 = \<lparr>FileSystem = ?fs0,
                   Out = [''executing install action from  (installation: )''], Err = [],
                   SensitiveValues = [], RuntimeManifest = ?rm,
                   calls = [CallResolveImages (Bundle ''{}'') []]\<rparr>"
      unfolding r0_def by (simp add: defs)
    have reach: "Execute_setup failing_env ?rm ?r = (None, r0)"
      unfolding r0_def by (simp add: defs)
    have steps: "GetSteps (RuntimeManifest r0) = []"
      by (simp add: r0 GetSteps_def steps_manifest_def)
    have hyp: "length [r0] = Suc (length (GetSteps (RuntimeManifest r0))) \<and> [r0] ! 0 = r0 \<and>
        (\<forall>i<length (GetSteps (RuntimeManifest r0)).
           executeStep failing_env (GetSteps (RuntimeManifest r0) ! i) ([r0] ! i) =
             (None, [r0] ! Suc i))"
      by (simp add: steps)
    have last: "[r0] ! length (GetSteps (RuntimeManifest r0)) = r0"
      by (simp add: steps)
    have res: "fst (applyUnboundBundleOutputs failing_env
                      (log_call CallApplyUnboundBundleOutputs r0)) = Some ?dir"
      by (simp add: r0 defs)
    from C3_resolver_error_only_logged [OF reach] hyp
    have "fst (Execute failing_env ?rm ?r) = None \<and>
        Err (snd (Execute failing_env ?rm ?r)) =
          Err ([r0] ! length (GetSteps (RuntimeManifest r0))) @
          (case fst (applyUnboundBundleOutputs failing_env
             (log_call CallApplyUnboundBundleOutputs
                ([r0] ! length (GetSteps (RuntimeManifest r0))))) of
             None \<Rightarrow> [] | Some x \<Rightarrow> [x])"
      by blast
    then show ?thesis unfolding last by (simp add: res) (simp add: r0)
  qed
  have succeeded: "fst (Execute failing_env (steps_manifest [Some ok_step]) ?q) = None \<and>
    Err (snd (Execute failing_env (steps_manifest [Some ok_step]) ?q)) = []"
  proof -
    let ?rm = "steps_manifest [Some ok_step]"
    let ?fs1 = "\<lparr>nodes = [(''/cnab/bundle.json'', RegFile ''{}''),
                          (''/cnab/app/porter/outputs'', Directory)],
                 faulty = no_faults\<rparr>"
    define r0 where "r0 = snd (Execute_setup failing_env ?rm ?q)"
    define ra where "ra = snd (executeStep failing_env (Some ok_step) r0)"
    have r0: "r0 = \<lparr>FileSystem = ?fs1,
                   Out = [''executing install action from  (installation: )''], Err = [],
                   SensitiveValues = [], RuntimeManifest = ?rm,
                   calls = [CallResolveImages (Bundle ''{}'') []]\<rparr>"
      unfolding r0_def by (simp add: defs)
    have reach: "Execute_setup failing_env ?rm ?q = (None, r0)"
      unfolding r0_def by (simp add: defs)
    have steps: "GetSteps (RuntimeManifest r0) = [Some ok_step]"
      by (simp add: r0 GetSteps_def steps_manifest_def)
    have ra: "FileSystem ra = ?fs1\<lparr>nodes := nodes ?fs1 @ [(''/cnab/app/outputs'', Directory)]\<rparr>"
      "Err ra = []" "RuntimeManifest ra = ?rm"
      unfolding ra_def by (simp_all add: r0 defs)
    have ok: "executeStep failing_env (Some ok_step) r0 = (None, ra)"
      unfolding ra_def by (simp add: r0 defs)
    have hyp: "length [r0, ra] = Suc (length (GetSteps (RuntimeManifest r0))) \<and> [r0, ra] ! 0 = r0 \<and>
        (\<forall>i<length (GetSteps (RuntimeManifest r0)).
           executeStep failing_env (GetSteps (RuntimeManifest r0) ! i) ([r0, ra] ! i) =
             (None, [r0, ra] ! Suc i))"
      using ok by (simp add: steps)
    have last: "[r0, ra] ! length (GetSteps (RuntimeManifest r0)) = ra"
      by (simp add: steps)
    have res: "fst (applyUnboundBundleOutputs failing_env
                      (log_call CallApplyUnboundBundleOutputs ra)) = None"
      by (simp add: ra defs)
    from C3_resolver_error_only_logged [OF reach] hyp
    have "fst (Execute failing_env ?rm ?q) = None \<and>
        Err (snd (Execute failing_env ?rm ?q)) =
          Err ([r0, ra] ! length (GetSteps (RuntimeManifest r0))) @
          (case fst (applyUnboundBundleOutputs failing_env
             (log_call CallApplyUnboundBundleOutputs
                ([r0, ra] ! length (GetSteps (RuntimeManifest r0))))) of
             None \<Rightarrow> [] | Some x \<Rightarrow> [x])"
      by blast
    then show ?thesis unfolding last by (simp add: res ra)
  qed
  from failed empty succeeded show ?thesis by simp
qed

text \<open>
  Claim C5. The resolver is to skip an output that a step already produced and not to
  overwrite its stored value. Here the mixin of the only step writes \<open>state\<close> with
  an empty value: the step returns no error, the bookkeeping records the output and the
  binder writes the empty file into the bundle outputs directory. The resolver indexes
  the bookkeeping and tests the result against the empty string, which is also what the
  index gives for a name that is not there: it takes \<open>state\<close> for unset and copies
  the declared path over the file the binder wrote, returning no error.
\<close>

theorem C5_produced_empty_output_overwritten:
  "fst (executeStep state_env (Some ok_step) (runtime_on state_manifest state_fs)) = None \<and>
   map_of (rm_outputs (RuntimeManifest (snd (executeStep state_env (Some ok_step)
       (runtime_on state_manifest state_fs))))) ''state'' = Some [] \<and>
   fs_lookup (FileSystem (snd (executeStep state_env (Some ok_step)
       (runtime_on state_manifest state_fs)))) ''/cnab/app/outputs/state'' = Some (RegFile []) \<and>
   go_index (GetOutputs (RuntimeManifest (snd (executeStep state_env (Some ok_step)
       (runtime_on state_manifest state_fs))))) ''state'' = [] \<and>
   fst (applyUnboundBundleOutputs state_env
       (snd (executeStep state_env (Some ok_step) (runtime_on state_manifest state_fs)))) = None \<and>
   fs_lookup (FileSystem (snd (applyUnboundBundleOutputs state_env
       (snd (executeStep state_env (Some ok_step) (runtime_on state_manifest state_fs))))))
     ''/cnab/app/outputs/state'' = Some (RegFile ''{}'')"
proof -
  note defs = db_defs step_defs fs_defs run_defs execute_defs resolver_defs Let_def
  define r1 where "r1 = snd (executeStep state_env (Some ok_step) (runtime_on state_manifest state_fs))"
  have r1: "r1 = \<lparr>FileSystem = \<lparr>nodes = [(''/cnab/app/porter/outputs'', Directory),
                                            (''/cnab/app/state.json'', RegFile ''{}''),
                                            (''/cnab/app/outputs'', Directory),
                                            (''/cnab/app/outputs/state'', RegFile [])],
                               faulty = no_faults\<rparr>,
                 Out = [''Prepare''], Err = [], SensitiveValues = [],
                 RuntimeManifest = state_manifest\<lparr>rm_outputs := [(''state'', [])]\<rparr>,
                 calls = [CallResolveStep ok_step,
                          CallMixinRun ''exec'' \<lparr>Command = ''install'', Input = [], Runtime = True\<rparr>,
                          CallReadMixinOutputs,
                          CallApplyStepOutputs [(''state'', [])],
                          CallApplyStepOutputsToBundle [(''state'', [])]]\<rparr>"
    unfolding r1_def by (simp add: defs)
  have "fs_lookup (FileSystem (snd (applyUnboundBundleOutputs state_env r1)))
     ''/cnab/app/outputs/state'' = Some (RegFile ''{}'')"
    "fst (applyUnboundBundleOutputs state_env r1) = None"
    by (simp_all add: r1 defs)
  moreover have "map_of (rm_outputs (RuntimeManifest r1)) ''state'' = Some []"
    "fs_lookup (FileSystem r1) ''/cnab/app/outputs/state'' = Some (RegFile [])"
    "go_index (GetOutputs (RuntimeManifest r1)) ''state'' = []"
    by (simp_all add: r1 defs)
  moreover have "fst (executeStep state_env (Some ok_step) (runtime_on state_manifest state_fs)) = None"
    by (simp add: defs)
  ultimately show ?thesis unfolding r1_def by blast
qed

text \<open>
  Three declared outputs: \<open>a\<close> is copied from its path, \<open>b\<close>, which a step
  produced with a non-empty value, keeps the step's value, and \<open>c\<close>, which has no
  path, gets no file.
\<close>

lemma resolver_skips_or_copies_example:
  "fs_lookup (FileSystem (snd (applyUnboundBundleOutputs porter_env
       (runtime_on bound_manifest bound_fs)))) ''/cnab/app/outputs/a'' = Some (RegFile ''A'') \<and>
   fs_lookup (FileSystem (snd (applyUnboundBundleOutputs porter_env
       (runtime_on bound_manifest bound_fs)))) ''/cnab/app/outputs/b'' =
     Some (RegFile ''from the step'') \<and>
   fs_lookup (FileSystem (snd (applyUnboundBundleOutputs porter_env
       (runtime_on bound_manifest bound_fs)))) ''/cnab/app/outputs/c'' = None"
proof -
  let ?r = "runtime_on bound_manifest bound_fs"
  let ?a = "\<lparr>Name = ''a'', Path = ''/tmp/a'', ApplyTo = [], Sensitive = False\<rparr>"
  let ?b = "\<lparr>Name = ''b'', Path = ''/tmp/b'', ApplyTo = [], Sensitive = False\<rparr>"
  let ?c = "\<lparr>Name = ''c'', Path = [], ApplyTo = [], Sensitive = False\<rparr>"
  note defs = db_defs fs_defs run_defs execute_defs resolver_defs Let_def
  have k: "keyed_by_name (RuntimeManifest ?r)" by (simp add: defs)
  have d: "distinct (map fst (Outputs (RuntimeManifest ?r)))" by (simp add: defs)
  have ma: "(''a'', ?a) \<in> set (Outputs (RuntimeManifest ?r))"
    and mb: "(''b'', ?b) \<in> set (Outputs (RuntimeManifest ?r))"
    and mc: "(''c'', ?c) \<in> set (Outputs (RuntimeManifest ?r))"
    by (simp_all add: defs)
  have p: "filepath_Join (BundleOutputsDir porter_env) n = ''/cnab/app/outputs/'' @ n" for n
    by (simp add: defs)
  have ha: "go_index (GetOutputs (RuntimeManifest ?r)) ''a'' = [] \<and> Path ?a \<noteq> [] \<and> shouldApplyOutput ?r ?a \<and>
          fst (createOutputsDir porter_env ?r) = None \<and>
          fs_lookup (FileSystem ?r) (Path ?a) = Some (RegFile ''A'') \<and>
          \<not> faulty (FileSystem ?r) OpRead (Path ?a) \<and>
          \<not> faulty (FileSystem ?r) OpWrite (filepath_Join (BundleOutputsDir porter_env) ''a'') \<and>
          fs_lookup (FileSystem ?r) (filepath_Join (BundleOutputsDir porter_env) ''a'') \<noteq> Some Directory \<and>
          (\<forall>k' \<in> fst ` set (Outputs (RuntimeManifest ?r)).
             filepath_Join (BundleOutputsDir porter_env) k' \<noteq> Path ?a)"
    by (simp add: defs)
  have hb: "go_index (GetOutputs (RuntimeManifest ?r)) ''b'' \<noteq> []" by (simp add: defs)
  have hc: "Path ?c = []" by simp
  have zb: "fs_lookup (FileSystem ?r) (''/cnab/app/outputs/'' @ ''b'') = Some (RegFile ''from the step'')"
    and zc: "fs_lookup (FileSystem ?r) (''/cnab/app/outputs/'' @ ''c'') = None"
    by (simp_all add: defs)
  from resolver_skips_or_copies [OF k d ma, where e = porter_env and c = "''A''"] ha
  have "fs_lookup (FileSystem (snd (applyUnboundBundleOutputs porter_env ?r)))
          (''/cnab/app/outputs/'' @ ''a'') = Some (RegFile ''A'')"
    unfolding p by blast
  moreover from resolver_skips_or_copies [OF k d mb, where e = porter_env] hb
  have "fs_lookup (FileSystem (snd (applyUnboundBundleOutputs porter_env ?r)))
          (''/cnab/app/outputs/'' @ ''b'') = Some (RegFile ''from the step'')"
    unfolding p zb [symmetric] by blast
  moreover from resolver_skips_or_copies [OF k d mc, where e = porter_env] hc
  have "fs_lookup (FileSystem (snd (applyUnboundBundleOutputs porter_env ?r)))
          (''/cnab/app/outputs/'' @ ''c'') = None"
    unfolding p zc [symmetric] by blast
  ultimately show ?thesis by simp
qed

lemmas image_defs = yaml_err_env_def load_fail_env_def json_fail_env_def empty_fs_def
  images_fail_env_def stat_fault_def hidden_reloc_fs_def

text \<open>
  The example of the spec: the mixin writes \<open>dbHost\<close>; after the step the file
  is gone from the mixin outputs directory and its value is in the bundle outputs
  directory.
\<close>

theorem C9_channel_cleared_after_step_witness:
  "fst (executeStep db_env (Some db_step)
          (runtime_on (db_manifest ''install'') (channel_fs no_faults))) = None \<and>
   regular_files ''/cnab/app/porter/outputs''
     (snd (mixins_Run db_env ''exec'' \<lparr>Command = ''install'', Input = [], Runtime = True\<rparr>
        (channel_fs no_faults))) = [''dbHost''] \<and>
   regular_files ''/cnab/app/porter/outputs''
     (FileSystem (snd (executeStep db_env (Some db_step)
          (runtime_on (db_manifest ''install'') (channel_fs no_faults))))) = [] \<and>
   fs_lookup (FileSystem (snd (executeStep db_env (Some db_step)
          (runtime_on (db_manifest ''install'') (channel_fs no_faults)))))
     ''/cnab/app/outputs/dbHost'' = Some (RegFile ''10.0.0.5'')"
proof -
  let ?r = "runtime_on (db_manifest ''install'') (channel_fs no_faults)"
  note defs = db_defs step_defs fs_defs run_defs Let_def
  have ok: "fst (executeStep db_env (Some db_step) ?r) = None"
    by (simp add: defs)
  then have run: "executeStep db_env (Some db_step) ?r = (None, snd (executeStep db_env (Some db_step) ?r))"
    by (metis prod.collapse)
  have dirs: "MixinOutputsDir db_env = ''/cnab/app/porter/outputs''"
    "BundleOutputsDir db_env = ''/cnab/app/outputs''"
    by (simp_all add: db_defs)
  have apart: "\<And>n. child_name (MixinOutputsDir db_env) (filepath_Join (BundleOutputsDir db_env) n) = None"
    unfolding dirs by (rule porter_dirs_apart)
  have before: "regular_files ''/cnab/app/porter/outputs''
     (snd (mixins_Run db_env ''exec'' \<lparr>Command = ''install'', Input = [], Runtime = True\<rparr>
        (channel_fs no_faults))) = [''dbHost'']"
    by (simp add: defs)
  have store: "fs_lookup (FileSystem (snd (executeStep db_env (Some db_step) ?r)))
     ''/cnab/app/outputs/dbHost'' = Some (RegFile ''10.0.0.5'')"
    by (simp add: defs)
  from C9_channel_cleared_after_step [OF run apart]
  have "regular_files ''/cnab/app/porter/outputs''
     (FileSystem (snd (executeStep db_env (Some db_step) ?r))) = []"
    unfolding dirs by blast
  with ok before store show ?thesis by blast
qed

text \<open>
  The mixin writes \<open>dbHost\<close>, which cannot be read: the step fails, nothing is
  recorded in the manifest and nothing reaches the bundle outputs directory.
\<close>

theorem C6_read_failure_discards_batch_witness:
  "fst (executeStep db_env (Some db_step)
          (runtime_on (db_manifest ''install'')
             (channel_fs (unreadable ''/cnab/app/porter/outputs/dbHost'')))) =
     Some (Wrap (Wrap (IOError OpRead ''/cnab/app/porter/outputs/dbHost'')
                   ''could not read output file /cnab/app/porter/outputs/dbHost'')
             ''could not read step outputs'') \<and>
   rm_outputs (RuntimeManifest (snd (executeStep db_env (Some db_step)
          (runtime_on (db_manifest ''install'')
             (channel_fs (unreadable ''/cnab/app/porter/outputs/dbHost'')))))) = [] \<and>
   fs_lookup (FileSystem (snd (executeStep db_env (Some db_step)
          (runtime_on (db_manifest ''install'')
             (channel_fs (unreadable ''/cnab/app/porter/outputs/dbHost''))))))
     ''/cnab/app/outputs/dbHost'' = None"
proof -
  let ?flt = "unreadable ''/cnab/app/porter/outputs/dbHost''"
  let ?r = "runtime_on (db_manifest ''install'') (channel_fs ?flt)"
  let ?fsm = "\<lparr>nodes = [(''/cnab/app/porter/outputs'', Directory),
                        (''/cnab/app/porter/outputs/dbHost'', RegFile ''10.0.0.5'')],
               faulty = ?flt\<rparr>"
  let ?f = "\<lparr>fi_Name = ''dbHost'', IsDir = False\<rparr>"
  note defs = db_defs step_defs fs_defs run_defs Let_def
  have rs: "ResolveStep db_env (RuntimeManifest ?r) db_step = Inr db_step"
    by (simp add: defs)
  have mr: "mixins_Run db_env (MixinName db_step) (step_command db_env (RuntimeManifest ?r) db_step)
              (FileSystem ?r) = (None, ?fsm)"
    by (simp add: defs)
  have flt: "\<exists>f \<in> set (dir_entries (MixinOutputsDir db_env) (nodes ?fsm)). \<not> IsDir f \<and>
            (faulty ?fsm OpRead (filepath_Join (MixinOutputsDir db_env) (fi_Name f)) \<or>
             faulty ?fsm OpRemove (filepath_Join (MixinOutputsDir db_env) (fi_Name f)))"
    by (simp add: defs)
  have rd: "readMixinOutputs db_env ?fsm =
      (([], Some (Wrap (IOError OpRead ''/cnab/app/porter/outputs/dbHost'')
                   ''could not read output file /cnab/app/porter/outputs/dbHost'')), ?fsm)"
    by (simp add: defs)
  have m: "rm_outputs (RuntimeManifest ?r) = []"
    and l: "fs_lookup ?fsm ''/cnab/app/outputs/dbHost'' = None"
    by (simp_all add: defs)
  note inst = C6_read_failure_discards_batch [OF rs mr]
  from inst flt have "snd (fst (readMixinOutputs db_env ?fsm)) \<noteq> None" by blast
  moreover from inst rd
  have "fst (executeStep db_env (Some db_step) ?r) =
          Some (Wrap (Wrap (IOError OpRead ''/cnab/app/porter/outputs/dbHost'')
                   ''could not read output file /cnab/app/porter/outputs/dbHost'')
             ''could not read step outputs'') \<and>
        RuntimeManifest (snd (executeStep db_env (Some db_step) ?r)) = RuntimeManifest ?r \<and>
        FileSystem (snd (executeStep db_env (Some db_step) ?r)) = ?fsm"
    by simp
  ultimately show ?thesis using m l by simp
qed

text \<open>
  An encoder that returns bytes together with an error, and a mixin that writes
  \<open>dbHost\<close> only when its input is those bytes: the step returns no error, and the
  value is in the bookkeeping and in the bundle outputs directory.
\<close>

theorem C10_marshal_error_ignored_witness:
  "yaml_Marshal yaml_err_env \<lparr>action = ''install'', Steps = [db_step]\<rparr> =
     (''install:'', Some (Failure ''yaml: unsupported type'')) \<and>
   fst (executeStep yaml_err_env (Some db_step)
          (runtime_on (db_manifest ''install'') (channel_fs no_faults))) = None \<and>
   fs_lookup (FileSystem (snd (executeStep yaml_err_env (Some db_step)
          (runtime_on (db_manifest ''install'') (channel_fs no_faults)))))
     ''/cnab/app/outputs/dbHost'' = Some (RegFile ''10.0.0.5'') \<and>
   map_of (rm_outputs (RuntimeManifest (snd (executeStep yaml_err_env (Some db_step)
          (runtime_on (db_manifest ''install'') (channel_fs no_faults)))))) ''dbHost'' =
     Some ''10.0.0.5''"
proof -
  let ?r = "runtime_on (db_manifest ''install'') (channel_fs no_faults)"
  let ?cmd = "\<lparr>Command = Action (RuntimeManifest ?r),
           Input = fst (yaml_Marshal yaml_err_env
                          \<lparr>action = Action (RuntimeManifest ?r), Steps = [db_step]\<rparr>),
           Runtime = True\<rparr>"
  let ?outs = "[(''dbHost'', ''10.0.0.5'')]"
  note defs = db_defs step_defs fs_defs run_defs image_defs Let_def
  define fs4 where "fs4 = snd (mixins_Run yaml_err_env (MixinName db_step) ?cmd (FileSystem ?r))"
  define fs5 where "fs5 = snd (readMixinOutputs yaml_err_env fs4)"
  define m6 where "m6 = snd (ApplyStepOutputs yaml_err_env ?outs (RuntimeManifest ?r))"
  have y: "yaml_Marshal yaml_err_env \<lparr>action = ''install'', Steps = [db_step]\<rparr> =
     (''install:'', Some (Failure ''yaml: unsupported type''))"
    by (simp add: defs)
  have fs4: "fs4 = \<lparr>nodes = [(''/cnab/app/porter/outputs'', Directory),
                              (''/cnab/app/porter/outputs/dbHost'', RegFile ''10.0.0.5'')],
                     faulty = no_faults\<rparr>"
    unfolding fs4_def by (simp add: defs)
  have fs5: "fs5 = \<lparr>nodes = [(''/cnab/app/porter/outputs'', Directory)], faulty = no_faults\<rparr>"
    unfolding fs5_def by (simp add: fs4 defs)
  have m6: "m6 = (db_manifest ''install'')\<lparr>rm_outputs := ?outs\<rparr>"
    unfolding m6_def by (simp add: defs)
  have h: "Some db_step = Some db_step \<and>
           ResolveStep yaml_err_env (RuntimeManifest ?r) db_step = Inr db_step \<and>
           mixins_Run yaml_err_env (MixinName db_step) ?cmd (FileSystem ?r) = (None, fs4)"
    unfolding fs4_def by (simp add: defs)
  have rd: "None = None \<and> readMixinOutputs yaml_err_env fs4 = ((?outs, None), fs5)"
    unfolding fs5_def by (simp add: fs4 defs)
  have ap: "None = None \<and>
            ApplyStepOutputs yaml_err_env ?outs (RuntimeManifest ?r) = (None, m6)"
    unfolding m6_def by (simp add: defs)
  from C10_marshal_error_ignored [of yaml_err_env "\<lambda>i. None" "Some db_step" ?r] h rd ap
  have "fst (executeStep yaml_err_env (Some db_step) ?r) =
          fst (applyStepOutputsToBundle yaml_err_env ?outs
                 (?r\<lparr>FileSystem := fs5, RuntimeManifest := m6\<rparr>)) \<and>
        FileSystem (snd (executeStep yaml_err_env (Some db_step) ?r)) =
          FileSystem (snd (applyStepOutputsToBundle yaml_err_env ?outs
                             (?r\<lparr>FileSystem := fs5, RuntimeManifest := m6\<rparr>))) \<and>
        RuntimeManifest (snd (executeStep yaml_err_env (Some db_step) ?r)) = m6"
    by blast
  moreover have "fst (applyStepOutputsToBundle yaml_err_env ?outs
                        (?r\<lparr>FileSystem := fs5, RuntimeManifest := m6\<rparr>)) = None"
    "fs_lookup (FileSystem (snd (applyStepOutputsToBundle yaml_err_env ?outs
                                   (?r\<lparr>FileSystem := fs5, RuntimeManifest := m6\<rparr>))))
       ''/cnab/app/outputs/dbHost'' = Some (RegFile ''10.0.0.5'')"
    "map_of (rm_outputs m6) ''dbHost'' = Some ''10.0.0.5''"
    by (simp_all add: fs5 m6 defs)
  ultimately show ?thesis using y by simp
qed

text \<open>
  Claim C7 as stated has every relocation mapping file that is there and does not parse
  abort the execution. Here the file is there, can be read and does not parse, but
  \<open>Stat\<close> fails on it. \<open>getImageMappingFiles\<close> takes any error of \<open>Stat\<close>
  for the absence of the file: the image mapping files are the bundle and the empty map,
  and \<open>Execute\<close> returns nil.
\<close>

theorem C7_counterexample:
  "fs_lookup hidden_reloc_fs ''/cnab/app/relocation-mapping.json'' = Some (RegFile ''{'') \<and>
   ReadFile ''/cnab/app/relocation-mapping.json'' hidden_reloc_fs = Inr ''{'' \<and>
   json_Unmarshal json_fail_env ''{'' = Inl (Failure ''invalid character'') \<and>
   Stat ''/cnab/app/relocation-mapping.json'' hidden_reloc_fs =
     Some (IOError OpStat ''/cnab/app/relocation-mapping.json'') \<and>
   getImageMappingFiles json_fail_env hidden_reloc_fs = Inr (Bundle ''{}'', []) \<and>
   fst (Execute json_fail_env (steps_manifest [])
        (runtime_on (steps_manifest []) hidden_reloc_fs)) = None"
  by (simp add: db_defs step_defs fs_defs run_defs execute_defs image_defs Let_def)

text \<open>
  One run for each case. No relocation file: the empty map is used and the run
  completes, or returns the error of an image resolution that fails on the empty map.
  Then no bundle file, a bundle that does not load, a relocation file that cannot be
  read, and a relocation file that does not parse.
\<close>

theorem C7_relocation_file_optional_witness:
  "getImageMappingFiles porter_env (bundle_fs []) = Inr (Bundle ''{}'', []) \<and>
   fst (Execute porter_env (steps_manifest [])
        (runtime_on (steps_manifest []) (bundle_fs []))) = None \<and>
   fst (Execute images_fail_env (steps_manifest [])
        (runtime_on (steps_manifest []) (bundle_fs []))) =
     Some (Wrap (Failure ''image not found'') ''unable to resolve bundle images'') \<and>
   calls (snd (Execute_setup porter_env (steps_manifest [])
        (runtime_on (steps_manifest []) (bundle_fs [])))) =
     [CallResolveImages (Bundle ''{}'') []] \<and>
   fst (Execute_setup porter_env (steps_manifest [])
        (runtime_on (steps_manifest []) (bundle_fs []))) = None \<and>
   fst (Execute porter_env (steps_manifest []) (runtime_on (steps_manifest []) empty_fs)) =
     Some (Wrap (IOError OpRead ''/cnab/bundle.json'') ''couldn't read runtime bundle.json'') \<and>
   fst (Execute load_fail_env (steps_manifest [])
        (runtime_on (steps_manifest []) (bundle_fs []))) =
     Some (Wrap (Failure ''invalid bundle'') ''couldn't load runtime bundle.json'') \<and>
   fst (Execute porter_env (steps_manifest [])
        (runtime_on (steps_manifest [])
           (bundle_fs [(''/cnab/app/relocation-mapping.json'', Directory)]))) =
     Some (Wrap (IOError OpRead ''/cnab/app/relocation-mapping.json'')
             ''couldn't read relocation file'') \<and>
   fst (Execute json_fail_env (steps_manifest [])
        (runtime_on (steps_manifest [])
           (bundle_fs [(''/cnab/app/relocation-mapping.json'', RegFile ''{'')]))) =
     Some (Wrap (Failure ''invalid character'') ''couldn't load relocation file'')"
proof -
  let ?m = "steps_manifest []"
  let ?reloc = "''/cnab/app/relocation-mapping.json''"
  note defs = db_defs fs_defs execute_defs image_defs Let_def
  have v: "Validate porter_env ?m = None" "Validate load_fail_env ?m = None"
    "Validate json_fail_env ?m = None" "Validate images_fail_env ?m = None"
    by (simp_all add: defs)
  have p: "Prepare porter_env ?m (FileSystem (runtime_on ?m fs)) = (None, fs)"
    "Prepare load_fail_env ?m (FileSystem (runtime_on ?m fs)) = (None, fs)"
    "Prepare json_fail_env ?m (FileSystem (runtime_on ?m fs)) = (None, fs)"
    "Prepare images_fail_env ?m (FileSystem (runtime_on ?m fs)) = (None, fs)" for fs
    by (simp_all add: defs)
  have c0: "calls (runtime_on ?m fs) = []" for fs by (simp add: defs)
  have a: "ReadFile ''/cnab/bundle.json'' (bundle_fs []) = Inr ''{}'' \<and>
           LoadData porter_env ''{}'' = Inr (Bundle ''{}'') \<and>
           Stat ?reloc (bundle_fs []) \<noteq> None"
    "ResolveImages porter_env ?m (Bundle ''{}'') [] = None \<and>
     fst (MkdirAll (MixinOutputsDir porter_env) (bundle_fs [])) = None"
    by (simp_all add: defs)
  have a': "ReadFile ''/cnab/bundle.json'' (bundle_fs []) = Inr ''{}'' \<and>
           LoadData images_fail_env ''{}'' = Inr (Bundle ''{}'') \<and>
           Stat ?reloc (bundle_fs []) \<noteq> None"
    "ResolveImages images_fail_env ?m (Bundle ''{}'') [] = Some (Failure ''image not found'')"
    by (simp_all add: defs)
  have b: "ReadFile ''/cnab/bundle.json'' empty_fs = Inl (IOError OpRead ''/cnab/bundle.json'')"
    by (simp add: defs)
  have c: "ReadFile ''/cnab/bundle.json'' (bundle_fs []) = Inr ''{}'' \<and>
           LoadData load_fail_env ''{}'' = Inl (Failure ''invalid bundle'')"
    by (simp add: defs)
  have d: "ReadFile ''/cnab/bundle.json'' (bundle_fs [(?reloc, Directory)]) = Inr ''{}'' \<and>
           LoadData porter_env ''{}'' = Inr (Bundle ''{}'') \<and>
           Stat ?reloc (bundle_fs [(?reloc, Directory)]) = None \<and>
           ReadFile ?reloc (bundle_fs [(?reloc, Directory)]) = Inl (IOError OpRead ?reloc)"
    by (simp add: defs)
  have e: "ReadFile ''/cnab/bundle.json'' (bundle_fs [(?reloc, RegFile ''{'')]) = Inr ''{}'' \<and>
           LoadData json_fail_env ''{}'' = Inr (Bundle ''{}'') \<and>
           Stat ?reloc (bundle_fs [(?reloc, RegFile ''{'')]) = None \<and>
           ReadFile ?reloc (bundle_fs [(?reloc, RegFile ''{'')]) = Inr ''{'' \<and>
           json_Unmarshal json_fail_env ''{'' = Inl (Failure ''invalid character'')"
    by (simp add: defs)
  from C7_relocation_file_optional [OF v(1) p(1), of "bundle_fs []"] a
  have 1: "calls (snd (Execute_setup porter_env ?m (runtime_on ?m (bundle_fs [])))) =
              calls (runtime_on ?m (bundle_fs [])) @ [CallResolveImages (Bundle ''{}'') []]"
    and 2: "fst (Execute_setup porter_env ?m (runtime_on ?m (bundle_fs []))) = None"
    and 7: "getImageMappingFiles porter_env (bundle_fs []) = Inr (Bundle ''{}'', [])"
    and 8: "Execute porter_env ?m (runtime_on ?m (bundle_fs [])) =
            Execute_run porter_env (snd (Execute_setup porter_env ?m (runtime_on ?m (bundle_fs []))))"
    by blast+
  have 9: "fst (Execute_run porter_env
                  (snd (Execute_setup porter_env ?m (runtime_on ?m (bundle_fs []))))) = None"
    by (simp add: defs step_defs run_defs)
  from C7_relocation_file_optional [OF v(4) p(4), of "bundle_fs []"] a'
  have 10: "fst (Execute images_fail_env ?m (runtime_on ?m (bundle_fs []))) =
     Some (Wrap (Failure ''image not found'') ''unable to resolve bundle images'')"
    by blast
  from C7_relocation_file_optional [OF v(1) p(1), of empty_fs] b
  have 3: "fst (Execute porter_env ?m (runtime_on ?m empty_fs)) =
     Some (Wrap (IOError OpRead ''/cnab/bundle.json'') ''couldn't read runtime bundle.json'')"
    by blast
  from C7_relocation_file_optional [OF v(2) p(2), of "bundle_fs []"] c
  have 4: "fst (Execute load_fail_env ?m (runtime_on ?m (bundle_fs []))) =
     Some (Wrap (Failure ''invalid bundle'') ''couldn't load runtime bundle.json'')"
    by blast
  from C7_relocation_file_optional [OF v(1) p(1), of "bundle_fs [(?reloc, Directory)]"] d
  have 5: "fst (Execute porter_env ?m (runtime_on ?m (bundle_fs [(?reloc, Directory)]))) =
     Some (Wrap (IOError OpRead ?reloc) ''couldn't read relocation file'')"
    by blast
  from C7_relocation_file_optional [OF v(3) p(3), of "bundle_fs [(?reloc, RegFile ''{'')]"] e
  have 6: "fst (Execute json_fail_env ?m (runtime_on ?m (bundle_fs [(?reloc, RegFile ''{'')]))) =
     Some (Wrap (Failure ''invalid character'') ''couldn't load relocation file'')"
    by blast
  from 1 2 3 4 5 6 7 8 9 10 show ?thesis by (simp add: c0)
qed

end
